theory Spec2Isabelle
  imports Main "HOL-Library.Char_ord" "HOL-Library.List_Lexorder"
begin

section \<open>JavaScript values and the built-ins the server relies on\<close>

text \<open>
  The server handles parsed JSON throughout (tool arguments, tool results, cached
  payloads). A JSON value is modelled as a datatype; an object is an association list in
  insertion order, read through \<open>map_of\<close> (own properties). Numbers are restricted to
  the integers that JavaScript holds exactly (magnitude below \<open>2^53\<close>), which
  \<open>JSON.stringify\<close> writes in plain decimal; larger integers, which JavaScript rounds
  and writes with an exponent from \<open>1e21\<close> on, and fractions are outside the model.
  Strings are restricted to code units below 256 (\<open>char\<close>); objects produced by
  \<open>JSON.parse\<close> have pairwise distinct keys, which the theorems state where they need it.
\<close>


datatype json =
    JNull
  | JBool bool
  | JNum int
  | JStr string
  | JArr "json list"
  | JObj "(string \<times> json) list"

text \<open>\<open>Number.prototype.toString(radix)\<close> on non-negative integers: lower-case digits.\<close>

definition digit_char :: "int \<Rightarrow> char" where
  "digit_char d = (if d < 10 then char_of (48 + d) else char_of (87 + d))"

function show_radix :: "int \<Rightarrow> int \<Rightarrow> string" where
  "show_radix r n =
     (if r < 2 \<or> n < r then [digit_char n]
      else show_radix r (n div r) @ [digit_char (n mod r)])"
  by pat_completeness auto
termination
proof (relation "measure (\<lambda>(r, n). nat n)")
  show "wf (measure (\<lambda>(r, n). nat n))" by simp
next
  fix r n :: int
  assume "\<not> (r < 2 \<or> n < r)"
  then have "2 \<le> r" "r \<le> n" by simp_all
  then have "n div r < n" by (simp add: int_div_less_self)
  moreover have "0 < n" using \<open>2 \<le> r\<close> \<open>r \<le> n\<close> by simp
  ultimately show "((r, n div r), (r, n)) \<in> measure (\<lambda>(r, n). nat n)" by simp
qed

declare show_radix.simps [simp del]

definition show_int :: "int \<Rightarrow> string" where
  "show_int i = (if i < 0 then CHR ''-'' # show_radix 10 (- i) else show_radix 10 i)"

text \<open>
  \<open>JSON.stringify(value, replacer)\<close>. The second argument is \<open>None\<close> when no replacer
  is given and \<open>Some ks\<close> when an array of property names is given: then every object,
  at every depth, is written with exactly the properties named in \<open>ks\<close> that it owns, in the
  order of \<open>ks\<close>. Array elements are never filtered.
\<close>

definition hex4 :: "int \<Rightarrow> string" where
  "hex4 n = [digit_char (n div 4096 mod 16), digit_char (n div 256 mod 16),
             digit_char (n div 16 mod 16), digit_char (n mod 16)]"

definition quote_char :: "char \<Rightarrow> string" where
  "quote_char c =
     (if c = CHR 0x22 then [CHR 0x5C, CHR 0x22]
      else if c = CHR 0x5C then [CHR 0x5C, CHR 0x5C]
      else if c = CHR 0x08 then [CHR 0x5C, CHR ''b'']
      else if c = CHR 0x0C then [CHR 0x5C, CHR ''f'']
      else if c = CHR 0x0A then [CHR 0x5C, CHR ''n'']
      else if c = CHR 0x0D then [CHR 0x5C, CHR ''r'']
      else if c = CHR 0x09 then [CHR 0x5C, CHR ''t'']
      else if (of_char c :: nat) < 32 then [CHR 0x5C, CHR ''u''] @ hex4 (of_char c)
      else [c])"

definition quote :: "string \<Rightarrow> string" where
  "quote s = CHR 0x22 # concat (map quote_char s) @ [CHR 0x22]"

fun join :: "string \<Rightarrow> string list \<Rightarrow> string" where
  "join sep [] = []"
| "join sep [x] = x"
| "join sep (x # y # ys) = x @ sep @ join sep (y # ys)"

fun serialize :: "string list option \<Rightarrow> json \<Rightarrow> string" where
  "serialize pl JNull = ''null''"
| "serialize pl (JBool b) = (if b then ''true'' else ''false'')"
| "serialize pl (JNum n) = show_int n"
| "serialize pl (JStr s) = quote s"
| "serialize pl (JArr xs) = ''['' @ join '','' (map (serialize pl) xs) @ '']''"
| "serialize pl (JObj kvs) =
     (let props = map (\<lambda>kv. (fst kv, serialize pl (snd kv))) kvs;
          K = (case pl of None \<Rightarrow> remdups (map fst kvs) | Some ks \<Rightarrow> ks)
      in ''{'' @ join '',''
           (List.map_filter
              (\<lambda>k. case map_of props k of None \<Rightarrow> None
                   | Some t \<Rightarrow> Some (quote k @ '':'' @ t)) K) @ ''}'')"


text \<open>
  \<open>simpleHash\<close> (redis.service.ts and agent.service.ts):
  \<^verbatim>\<open>hash = ((hash << 5) - hash) + char; hash = hash & hash;\<close> and finally
  \<^verbatim>\<open>Math.abs(hash).toString(16)\<close>. The shift and the bitwise and convert to a signed
  32-bit integer (\<open>toInt32\<close>).
\<close>

definition toInt32 :: "int \<Rightarrow> int" where
  "toInt32 x = (x + 2 ^ 31) mod 2 ^ 32 - 2 ^ 31"

definition hash_step :: "int \<Rightarrow> char \<Rightarrow> int" where
  "hash_step hash c = toInt32 (toInt32 (toInt32 hash * 2 ^ 5) - hash + int (of_char c))"

definition simpleHash :: "string \<Rightarrow> string" where
  "simpleHash str = show_radix 16 \<bar>foldl hash_step 0 str\<bar>"

text \<open>Thrown JavaScript errors, with their message.\<close>

datatype js_error =
    TypeError string
  | SyntaxError string
  | RangeError string
  | Error string
  | HttpException int json
  | APIError "string option" "int option" string

text \<open>
  \<open>Object.keys\<close>: throws on \<open>null\<close>, lists the indices of a string or an array, and the
  own property names of an object.
\<close>

fun Object_keys :: "json \<Rightarrow> js_error + string list" where
  "Object_keys JNull = Inl (TypeError ''Cannot convert undefined or null to object'')"
| "Object_keys (JBool b) = Inr []"
| "Object_keys (JNum n) = Inr []"
| "Object_keys (JStr s) = Inr (map (\<lambda>i. show_radix 10 (int i)) [0..<length s])"
| "Object_keys (JArr xs) = Inr (map (\<lambda>i. show_radix 10 (int i)) [0..<length xs])"
| "Object_keys (JObj kvs) = Inr (remdups (map fst kvs))"

text \<open>
  \<open>RedisService.generateToolCacheKey\<close>:
  \<^verbatim>\<open>JSON.stringify(args, Object.keys(args).sort())\<close> hashed by \<open>simpleHash\<close>. The default
  sort compares strings by code units, which is the lexicographic order on \<open>string\<close>.
\<close>

definition generateToolCacheKey :: "string \<Rightarrow> json \<Rightarrow> js_error + string" where
  "generateToolCacheKey toolName args =
     (case Object_keys args of
        Inl e \<Rightarrow> Inl e
      | Inr ks \<Rightarrow> Inr (simpleHash (serialize (Some (sort ks)) args)))"

text \<open>
  \<open>prune S v\<close> removes, from every object inside \<open>v\<close>, the properties whose name is not
  in \<open>S\<close>. It is not part of the program: it states which part of the arguments the cache
  key can depend on.
\<close>

fun prune :: "string set \<Rightarrow> json \<Rightarrow> json" where
  "prune S (JArr xs) = JArr (map (prune S) xs)"
| "prune S (JObj kvs) =
     JObj (map (\<lambda>kv. (fst kv, prune S (snd kv))) (filter (\<lambda>kv. fst kv \<in> S) kvs))"
| "prune S v = v"





text \<open>\<open>error.message\<close>.\<close>

fun message_of :: "js_error \<Rightarrow> string" where
  "message_of (TypeError m) = m"
| "message_of (SyntaxError m) = m"
| "message_of (RangeError m) = m"
| "message_of (Error m) = m"
| "message_of (HttpException status body) = ''Http Exception''"
| "message_of (APIError code status m) = m"

text \<open>
  A JavaScript number that came out of \<open>parseInt\<close> is an integer or \<open>NaN\<close>;
  \<open>None\<close> stands for \<open>NaN\<close>. Every comparison with \<open>NaN\<close> is false.
\<close>

type_synonym jsnum = "int option"

definition num_le :: "jsnum \<Rightarrow> jsnum \<Rightarrow> bool" where
  "num_le a b = (case (a, b) of (Some x, Some y) \<Rightarrow> x \<le> y | _ \<Rightarrow> False)"

definition num_lt :: "jsnum \<Rightarrow> jsnum \<Rightarrow> bool" where
  "num_lt a b = (case (a, b) of (Some x, Some y) \<Rightarrow> x < y | _ \<Rightarrow> False)"

definition num_sub :: "jsnum \<Rightarrow> jsnum \<Rightarrow> jsnum" where
  "num_sub a b = (case (a, b) of (Some x, Some y) \<Rightarrow> Some (x - y) | _ \<Rightarrow> None)"

definition num_add :: "jsnum \<Rightarrow> jsnum \<Rightarrow> jsnum" where
  "num_add a b = (case (a, b) of (Some x, Some y) \<Rightarrow> Some (x + y) | _ \<Rightarrow> None)"

definition num_mul :: "jsnum \<Rightarrow> jsnum \<Rightarrow> jsnum" where
  "num_mul a b = (case (a, b) of (Some x, Some y) \<Rightarrow> Some (x * y) | _ \<Rightarrow> None)"

text \<open>\<open>Math.max(0, x)\<close>: \<open>NaN\<close> when \<open>x\<close> is.\<close>

definition Math_max0 :: "jsnum \<Rightarrow> jsnum" where
  "Math_max0 a = (case a of None \<Rightarrow> None | Some x \<Rightarrow> Some (max 0 x))"

text \<open>
  \<open>parseInt(string, radix)\<close>, with radix \<open>0\<close> for an omitted radix: leading white
  space is skipped, a sign is read, a \<open>0x\<close> prefix selects radix 16 when the radix is
  omitted or 16, and the longest prefix of digits is converted; no digit gives \<open>NaN\<close>.
  The value is exact; JavaScript rounds it to a double when it exceeds \<open>2^53\<close>.
\<close>

definition is_space :: "char \<Rightarrow> bool" where
  "is_space c = ((of_char c :: nat) \<in> {9, 10, 11, 12, 13, 32, 160})"

definition digit_of :: "char \<Rightarrow> int option" where
  "digit_of c =
     (let n = (of_char c :: int) in
      if 48 \<le> n \<and> n \<le> 57 then Some (n - 48)
      else if 97 \<le> n \<and> n \<le> 122 then Some (n - 87)
      else if 65 \<le> n \<and> n \<le> 90 then Some (n - 55)
      else None)"

fun read_digits :: "int \<Rightarrow> jsnum \<Rightarrow> string \<Rightarrow> jsnum" where
  "read_digits r acc [] = acc"
| "read_digits r acc (c # cs) =
     (case digit_of c of
        None \<Rightarrow> acc
      | Some d \<Rightarrow>
          if d < r
          then read_digits r (Some ((case acc of None \<Rightarrow> 0 | Some a \<Rightarrow> a) * r + d)) cs
          else acc)"

definition parseInt :: "string \<Rightarrow> int \<Rightarrow> jsnum" where
  "parseInt str radix =
     (let s0 = dropWhile is_space str;
          neg = (s0 \<noteq> [] \<and> hd s0 = CHR ''-'');
          s1 = (if s0 \<noteq> [] \<and> (hd s0 = CHR ''-'' \<or> hd s0 = CHR ''+'') then tl s0 else s0)
      in if radix \<noteq> 0 \<and> (radix < 2 \<or> 36 < radix) then None
         else
           let strip = (radix = 0 \<or> radix = 16);
               hex = (strip \<and> (take 2 s1 = ''0x'' \<or> take 2 s1 = ''0X''));
               r = (if hex then 16 else if radix = 0 then 10 else radix);
               s2 = (if hex then drop 2 s1 else s1)
           in map_option (\<lambda>v. if neg then - v else v) (read_digits r None s2))"

text \<open>Truthiness (\<open>ToBoolean\<close>) and \<open>typeof v === 'object'\<close> on JSON values.\<close>

fun truthy :: "json \<Rightarrow> bool" where
  "truthy JNull = False"
| "truthy (JBool b) = b"
| "truthy (JNum n) = (n \<noteq> 0)"
| "truthy (JStr s) = (s \<noteq> [])"
| "truthy (JArr xs) = True"
| "truthy (JObj kvs) = True"

fun typeof_object :: "json \<Rightarrow> bool" where
  "typeof_object JNull = True"
| "typeof_object (JArr xs) = True"
| "typeof_object (JObj kvs) = True"
| "typeof_object v = False"

text \<open>
  Reading a property of a value that is not \<open>null\<close>: \<open>None\<close> is \<open>undefined\<close>. Only
  own properties of objects are modelled; an array or a primitive has none of the
  properties the server reads.
\<close>

fun get_prop :: "json \<Rightarrow> string \<Rightarrow> json option" where
  "get_prop (JObj kvs) k = map_of kvs k"
| "get_prop v k = None"

definition truthy_opt :: "json option \<Rightarrow> bool" where
  "truthy_opt v = (case v of None \<Rightarrow> False | Some x \<Rightarrow> truthy x)"

text \<open>Assignment \<open>obj[k] = v\<close>: an existing property keeps its place, a new one goes last.\<close>

fun obj_set :: "string \<Rightarrow> 'a \<Rightarrow> (string \<times> 'a) list \<Rightarrow> (string \<times> 'a) list" where
  "obj_set k v [] = [(k, v)]"
| "obj_set k v ((k', v') # kvs) =
     (if k' = k then (k, v) # kvs else (k', v') # obj_set k v kvs)"

text \<open>Object spread \<open>{...v}\<close>: the own enumerable properties of \<open>v\<close>.\<close>

fun spread :: "json \<Rightarrow> (string \<times> json) list" where
  "spread (JObj kvs) = kvs"
| "spread (JArr xs) = zip (map (\<lambda>i. show_radix 10 (int i)) [0..<length xs]) xs"
| "spread (JStr s) =
     zip (map (\<lambda>i. show_radix 10 (int i)) [0..<length s]) (map (\<lambda>c. JStr [c]) s)"
| "spread v = []"

text \<open>\<open>String.prototype.startsWith\<close>, \<open>includes\<close> and \<open>replace\<close> with a string pattern.\<close>

definition startsWith :: "string \<Rightarrow> string \<Rightarrow> bool" where
  "startsWith s p = (take (length p) s = p)"

fun includes_str :: "string \<Rightarrow> string \<Rightarrow> bool" where
  "includes_str [] p = (p = [])"
| "includes_str (c # cs) p = (startsWith (c # cs) p \<or> includes_str cs p)"

fun replace_first :: "string \<Rightarrow> string \<Rightarrow> string \<Rightarrow> string" where
  "replace_first [] p r = (if p = [] then r else [])"
| "replace_first (c # cs) p r =
     (if startsWith (c # cs) p then r @ drop (length p) (c # cs)
      else c # replace_first cs p r)"

text \<open>
  \<open>JSON.parse\<close> is a parameter of every operation that calls it, of this type: the
  parsed value, or the \<open>SyntaxError\<close> it throws.
\<close>

type_synonym json_parser = "string \<Rightarrow> js_error + json"

section \<open>The cache store and its adapter (redis.service.ts)\<close>

subsection \<open>The remote store as the client sees it\<close>

text \<open>
  The key-value service is external. Its state is a table from keys to a value and an
  optional absolute expiry time (in seconds), a clock, and a fault plan: every command
  sent by the client consumes the head of \<open>srv_faults\<close> and is rejected when that is
  \<open>True\<close>; an exhausted plan means no more faults. A counter is kept as an
  integer (\<open>RInt\<close>) and read back as its decimal string; \<open>RVal v\<close> is a value that
  \<open>get\<close> hands back as \<open>v\<close> (a string in normal operation).
\<close>

datatype rval = RInt int | RVal json

record redis_server =
  srv_entries :: "string \<Rightarrow> (rval \<times> int option) option"
  srv_clock :: int
  srv_faults :: "bool list"

definition live :: "redis_server \<Rightarrow> string \<Rightarrow> (rval \<times> int option) option" where
  "live s k =
     (case srv_entries s k of
        None \<Rightarrow> None
      | Some (v, e) \<Rightarrow>
          (case e of
             None \<Rightarrow> Some (v, e)
           | Some t \<Rightarrow> if srv_clock s < t then Some (v, e) else None))"

definition advance :: "int \<Rightarrow> redis_server \<Rightarrow> redis_server" where
  "advance d s = s\<lparr>srv_clock := srv_clock s + d\<rparr>"

definition command ::
  "(redis_server \<Rightarrow> (js_error + 'a) \<times> redis_server) \<Rightarrow> redis_server \<Rightarrow> (js_error + 'a) \<times> redis_server"
where
  "command f s =
     (case srv_faults s of
        [] \<Rightarrow> f s
      | b # bs \<Rightarrow>
          if b then (Inl (Error ''fetch failed''), s\<lparr>srv_faults := bs\<rparr>)
          else f (s\<lparr>srv_faults := bs\<rparr>))"


text \<open>What \<open>get\<close> hands back for a key: \<open>null\<close> when it is absent or expired.\<close>

definition stored :: "redis_server \<Rightarrow> string \<Rightarrow> json" where
  "stored s k =
     (case live s k of
        None \<Rightarrow> JNull
      | Some (RInt n, e) \<Rightarrow> JStr (show_int n)
      | Some (RVal v, e) \<Rightarrow> v)"

definition redis_get :: "string \<Rightarrow> redis_server \<Rightarrow> (js_error + json) \<times> redis_server" where
  "redis_get k = command (\<lambda>s. (Inr (stored s k), s))"


definition redis_setex ::
  "string \<Rightarrow> jsnum \<Rightarrow> string \<Rightarrow> redis_server \<Rightarrow> (js_error + unit) \<times> redis_server"
where
  "redis_setex k secs v = command (\<lambda>s.
     (case secs of
        None \<Rightarrow> (Inl (Error ''ERR value is not an integer or out of range''), s)
      | Some n \<Rightarrow>
          if n \<le> 0 then (Inl (Error ''ERR invalid expire time in setex command''), s)
          else (Inr (),
                s\<lparr>srv_entries := (srv_entries s)(k \<mapsto> (RVal (JStr v), Some (srv_clock s + n)))\<rparr>)))"

definition without :: "string \<Rightarrow> redis_server \<Rightarrow> redis_server" where
  "without k s = s\<lparr>srv_entries := (srv_entries s)(k := None)\<rparr>"

definition redis_del :: "string \<Rightarrow> redis_server \<Rightarrow> (js_error + int) \<times> redis_server" where
  "redis_del k = command (\<lambda>s. (Inr (if live s k = None then 0 else 1), without k s))"

text \<open>The strict decimal reading the store applies to a string value on \<open>INCR\<close>.\<close>

definition string2ll :: "string \<Rightarrow> int option" where
  "string2ll s =
     (let neg = (s \<noteq> [] \<and> hd s = CHR ''-'');
          ds = (if neg then tl s else s)
      in if ds = [] \<or> \<not> list_all (\<lambda>c. (48::nat) \<le> of_char c \<and> (of_char c :: nat) \<le> 57) ds
            \<or> (hd ds = CHR ''0'' \<and> (neg \<or> length ds > 1))
         then None
         else map_option (\<lambda>v. if neg then - v else v) (read_digits 10 None ds))"

definition redis_incr :: "string \<Rightarrow> redis_server \<Rightarrow> (js_error + int) \<times> redis_server" where
  "redis_incr k = command (\<lambda>s.
     (let cur = (case live s k of
                   None \<Rightarrow> Some (0, None)
                 | Some (RInt n, e) \<Rightarrow> Some (n, e)
                 | Some (RVal (JStr str), e) \<Rightarrow> map_option (\<lambda>n. (n, e)) (string2ll str)
                 | Some (RVal v, e) \<Rightarrow> None)
      in case cur of
           None \<Rightarrow> (Inl (Error ''ERR value is not an integer or out of range''), s)
         | Some (n, e) \<Rightarrow>
             if n < - (2 ^ 63) \<or> 2 ^ 63 - 1 \<le> n
             then (Inl (Error ''ERR increment or decrement would overflow''), s)
             else (Inr (n + 1), s\<lparr>srv_entries := (srv_entries s)(k \<mapsto> (RInt (n + 1), e))\<rparr>)))"

text \<open>
  \<open>expire(key, seconds)\<close>. The client leaves a falsy argument (\<open>0\<close>, \<open>NaN\<close>) out of the
  command it sends, and the store rejects an \<open>EXPIRE\<close> without a time; a negative
  time removes the key.
\<close>

definition redis_expire :: "string \<Rightarrow> jsnum \<Rightarrow> redis_server \<Rightarrow> (js_error + int) \<times> redis_server" where
  "redis_expire k secs = command (\<lambda>s.
     (case secs of
        None \<Rightarrow> (Inl (Error ''ERR wrong number of arguments for 'expire' command''), s)
      | Some n \<Rightarrow>
          if n = 0 then (Inl (Error ''ERR wrong number of arguments for 'expire' command''), s)
          else
            (case live s k of
               None \<Rightarrow> (Inr 0, s)
             | Some (v, e) \<Rightarrow>
                 if n < 0 then (Inr 1, s\<lparr>srv_entries := (srv_entries s)(k := None)\<rparr>)
                 else (Inr 1, s\<lparr>srv_entries := (srv_entries s)(k \<mapsto> (v, Some (srv_clock s + n)))\<rparr>))))"

definition redis_ttl :: "string \<Rightarrow> redis_server \<Rightarrow> (js_error + int) \<times> redis_server" where
  "redis_ttl k = command (\<lambda>s.
     (Inr (case live s k of
             None \<Rightarrow> - 2
           | Some (v, None) \<Rightarrow> - 1
           | Some (v, Some t) \<Rightarrow> t - srv_clock s), s))"

definition redis_exists :: "string \<Rightarrow> redis_server \<Rightarrow> (js_error + int) \<times> redis_server" where
  "redis_exists k = command (\<lambda>s. (Inr (if live s k = None then 0 else 1), s))"

text \<open>
  \<open>Promise.all([a, b])\<close> on two commands: both are sent, and the result is the pair of
  their results, or the first rejection.
\<close>

definition promise_all2 ::
  "(redis_server \<Rightarrow> (js_error + 'a) \<times> redis_server) \<Rightarrow>
   (redis_server \<Rightarrow> (js_error + 'b) \<times> redis_server) \<Rightarrow>
   redis_server \<Rightarrow> (js_error + ('a \<times> 'b)) \<times> redis_server"
where
  "promise_all2 f g s =
     (case f s of (ra, s1) \<Rightarrow>
      case g s1 of (rb, s2) \<Rightarrow>
        (case ra of
           Inl e \<Rightarrow> (Inl e, s2)
         | Inr a \<Rightarrow> (case rb of Inl e \<Rightarrow> (Inl e, s2) | Inr b \<Rightarrow> (Inr (a, b), s2))))"

subsection \<open>RedisService\<close>

text \<open>
  The service holds the flag \<open>isEnabled\<close> and the client \<open>redis\<close>; \<open>Some srv\<close> is a
  client talking to the store in state \<open>srv\<close>, \<open>None\<close> is \<open>null\<close>.
\<close>

record RedisService =
  isEnabled :: bool
  redis :: "redis_server option"

type_synonym config = "string \<Rightarrow> string option"

text \<open>\<open>ConfigService.get(key, default)\<close>.\<close>

definition config_get :: "config \<Rightarrow> string \<Rightarrow> string \<Rightarrow> string" where
  "config_get cfg k d = (case cfg k of None \<Rightarrow> d | Some v \<Rightarrow> v)"

definition missing :: "string option \<Rightarrow> bool" where
  "missing v = (case v of None \<Rightarrow> True | Some s \<Rightarrow> s = [])"


text \<open>
  Every method starts with \<^verbatim>\<open>if (!this.isEnabled || !this.redis) return <default>\<close>;
  \<open>on_server\<close> is that guard followed by the method body run against the store.
\<close>

definition connected :: "RedisService \<Rightarrow> redis_server option" where
  "connected rs = (if \<not> isEnabled rs then None else redis rs)"

definition on_server ::
  "RedisService \<Rightarrow> 'a \<Rightarrow> (redis_server \<Rightarrow> 'a \<times> redis_server) \<Rightarrow> 'a \<times> RedisService"
where
  "on_server rs dflt body =
     (case connected rs of
        None \<Rightarrow> (dflt, rs)
      | Some srv \<Rightarrow> (case body srv of (r, srv') \<Rightarrow> (r, rs\<lparr>redis := Some srv'\<rparr>)))"



definition del :: "string \<Rightarrow> RedisService \<Rightarrow> (js_error + unit) \<times> RedisService" where
  "del key rs =
     on_server rs (Inr ()) (\<lambda>srv. case redis_del key srv of (r, srv') \<Rightarrow> (map_sum id (\<lambda>n. ()) r, srv'))"


definition expire :: "string \<Rightarrow> jsnum \<Rightarrow> RedisService \<Rightarrow> (js_error + unit) \<times> RedisService" where
  "expire key ttlSeconds rs =
     on_server rs (Inr ())
       (\<lambda>srv. case redis_expire key ttlSeconds srv of (r, srv') \<Rightarrow> (map_sum id (\<lambda>n. ()) r, srv'))"



subsubsection \<open>Rate limiting methods\<close>

definition incrementRateLimit ::
  "string \<Rightarrow> jsnum \<Rightarrow> RedisService \<Rightarrow> (js_error + (int \<times> bool)) \<times> RedisService"
where
  "incrementRateLimit identifier windowSeconds rs =
     on_server rs (Inr (0, True))
       (\<lambda>srv.
          let key = ''rate_limit:'' @ identifier in
          case redis_incr key srv of
            (Inl e, s1) \<Rightarrow> (Inl e, s1)
          | (Inr count, s1) \<Rightarrow>
              let isFirstRequest = (count = 1) in
              if isFirstRequest
              then (case redis_expire key windowSeconds s1 of
                      (Inl e, s2) \<Rightarrow> (Inl e, s2)
                    | (Inr r, s2) \<Rightarrow> (Inr (count, isFirstRequest), s2))
              else (Inr (count, isFirstRequest), s1))"

definition getRateLimitInfo ::
  "string \<Rightarrow> RedisService \<Rightarrow> (js_error + (jsnum \<times> int)) \<times> RedisService"
where
  "getRateLimitInfo identifier rs =
     on_server rs (Inr (Some 0, 0))
       (\<lambda>srv.
          let key = ''rate_limit:'' @ identifier in
          case promise_all2 (redis_get key) (redis_ttl key) srv of
            (Inl e, s1) \<Rightarrow> (Inl e, s1)
          | (Inr (count, t), s1) \<Rightarrow>
              (Inr (case count of JStr str \<Rightarrow> if str \<noteq> [] then parseInt str 10 else Some 0
                                | v \<Rightarrow> Some 0,
                    t), s1))"

definition setBlock :: "string \<Rightarrow> jsnum \<Rightarrow> RedisService \<Rightarrow> (js_error + unit) \<times> RedisService" where
  "setBlock identifier durationSeconds rs =
     on_server rs (Inr ()) (redis_setex (''blocked:'' @ identifier) durationSeconds ''1'')"

definition isBlocked :: "string \<Rightarrow> RedisService \<Rightarrow> bool \<times> RedisService" where
  "isBlocked identifier rs =
     on_server rs False
       (\<lambda>srv. case redis_exists (''blocked:'' @ identifier) srv of
                 (Inl e, s1) \<Rightarrow> (False, s1)
               | (Inr r, s1) \<Rightarrow> (r = 1, s1))"

definition getBlockInfo :: "string \<Rightarrow> RedisService \<Rightarrow> (bool \<times> int) \<times> RedisService" where
  "getBlockInfo identifier rs =
     on_server rs (False, 0)
       (\<lambda>srv.
          let key = ''blocked:'' @ identifier in
          case promise_all2 (redis_exists key) (redis_ttl key) srv of
            (Inl e, s1) \<Rightarrow> ((False, 0), s1)
          | (Inr (ex, t), s1) \<Rightarrow> ((ex = 1, t), s1))"

subsubsection \<open>Caching methods\<close>

text \<open>
  The read path shared by \<open>getCachedResponse\<close> and \<open>getCachedToolResult\<close>, which differ
  in the key only. The result \<open>JNull\<close> is \<open>null\<close>, a miss. An error of the store at any
  point (also while deleting) is caught and gives \<open>null\<close>.
\<close>

definition purge :: "string \<Rightarrow> redis_server \<Rightarrow> json \<times> redis_server" where
  "purge cacheKey srv = (case redis_del cacheKey srv of (r, srv') \<Rightarrow> (JNull, srv'))"

definition read_cached :: "json_parser \<Rightarrow> string \<Rightarrow> redis_server \<Rightarrow> json \<times> redis_server" where
  "read_cached parse cacheKey srv =
     (case redis_get cacheKey srv of
        (Inl e, s1) \<Rightarrow> (JNull, s1)
      | (Inr cached, s1) \<Rightarrow>
          if \<not> truthy cached then (JNull, s1)
          else
            (case cached of
               JStr cachedString \<Rightarrow>
                 if cachedString = ''[object Object]'' \<or> startsWith cachedString ''[object ''
                 then purge cacheKey s1
                 else (case parse cachedString of
                         Inr v \<Rightarrow> (v, s1)
                       | Inl parseError \<Rightarrow> purge cacheKey s1)
             | v \<Rightarrow> purge cacheKey s1))"

definition getCachedResponse :: "json_parser \<Rightarrow> string \<Rightarrow> RedisService \<Rightarrow> json \<times> RedisService" where
  "getCachedResponse parse cacheKey rs = on_server rs JNull (read_cached parse cacheKey)"

definition getCachedToolResult ::
  "json_parser \<Rightarrow> string \<Rightarrow> string \<Rightarrow> RedisService \<Rightarrow> json \<times> RedisService"
where
  "getCachedToolResult parse toolName argsHash rs =
     on_server rs JNull (read_cached parse (''tool_result:'' @ toolName @ '':'' @ argsHash))"

text \<open>
  The write path: the value is serialised; the sentinel is refused; the store's error is
  caught. (\<open>JSON.stringify\<close> of a JSON value is never \<open>undefined\<close>.)
\<close>

definition write_cached :: "string \<Rightarrow> json \<Rightarrow> jsnum \<Rightarrow> redis_server \<Rightarrow> unit \<times> redis_server" where
  "write_cached cacheKey data ttlSeconds srv =
     (let serializedData = serialize None data in
      if serializedData = ''[object Object]'' then ((), srv)
      else (case redis_setex cacheKey ttlSeconds serializedData srv of (r, srv') \<Rightarrow> ((), srv')))"

definition setCachedResponse :: "string \<Rightarrow> json \<Rightarrow> jsnum \<Rightarrow> RedisService \<Rightarrow> unit \<times> RedisService" where
  "setCachedResponse cacheKey data ttlSeconds rs =
     on_server rs () (write_cached cacheKey data ttlSeconds)"

definition setCachedToolResult ::
  "string \<Rightarrow> string \<Rightarrow> json \<Rightarrow> jsnum \<Rightarrow> RedisService \<Rightarrow> unit \<times> RedisService"
where
  "setCachedToolResult toolName argsHash result ttlSeconds rs =
     on_server rs () (write_cached (''tool_result:'' @ toolName @ '':'' @ argsHash) result ttlSeconds)"

section \<open>The rate admission guard (rate-limit.guard.ts)\<close>

record RateLimitGuard =
  enabled :: bool
  maxRequests :: jsnum
  windowSeconds :: jsnum
  blockDurationSeconds :: jsnum

definition RateLimitGuard_new :: "config \<Rightarrow> RateLimitGuard" where
  "RateLimitGuard_new cfg =
     \<lparr>enabled = (config_get cfg ''RATE_LIMIT_ENABLED'' ''true'' = ''true''),
      maxRequests = parseInt (config_get cfg ''RATE_LIMIT_MAX_REQUESTS'' ''20'') 10,
      windowSeconds = parseInt (config_get cfg ''RATE_LIMIT_TTL'' ''300'') 10,
      blockDurationSeconds = parseInt (config_get cfg ''RATE_LIMIT_BLOCK_DURATION'' ''900'') 10\<rparr>"

text \<open>
  The part of the HTTP request the guard reads. A header is a string or a list of
  strings; \<open>None\<close> is an absent header or field.
\<close>

datatype header = HStr string | HArr "string list"

record http_request =
  x_forwarded_for :: "header option"
  x_real_ip :: "header option"
  req_ip :: "string option"
  remoteAddress :: "string option"

fun header_truthy :: "header option \<Rightarrow> bool" where
  "header_truthy None = False"
| "header_truthy (Some (HStr s)) = (s \<noteq> [])"
| "header_truthy (Some (HArr xs)) = True"

text \<open>String conversion inside the template \<^verbatim>\<open>`ip:${ip}`\<close>.\<close>

fun header_text :: "header \<Rightarrow> string" where
  "header_text (HStr s) = s"
| "header_text (HArr xs) = join '','' xs"

definition getClientIdentifier :: "http_request \<Rightarrow> string" where
  "getClientIdentifier request =
     (let forwarded = x_forwarded_for request;
          realIp = x_real_ip request;
          ip = (if header_truthy forwarded
                then (case forwarded of
                        Some (HStr s) \<Rightarrow> takeWhile (\<lambda>c. c \<noteq> CHR '','') s
                      | Some (HArr xs) \<Rightarrow> (case xs of [] \<Rightarrow> ''undefined'' | x # r \<Rightarrow> x)
                      | None \<Rightarrow> ''undefined'')
                else if header_truthy realIp then header_text (the realIp)
                else if \<not> missing (req_ip request) then the (req_ip request)
                else if \<not> missing (remoteAddress request) then the (remoteAddress request)
                else ''unknown'')
      in ''ip:'' @ ip)"

record RateLimitResult =
  allowed :: bool
  blocked :: bool
  remaining :: jsnum
  resetTime :: jsnum
  blockExpiresAt :: "int option"

text \<open>\<open>Date.now()\<close> is the parameter \<open>now\<close> (milliseconds).\<close>

definition checkRateLimit ::
  "RateLimitGuard \<Rightarrow> int \<Rightarrow> string \<Rightarrow> RedisService \<Rightarrow> (js_error + RateLimitResult) \<times> RedisService"
where
  "checkRateLimit g now identifier rs =
     (case getBlockInfo identifier rs of
        ((blockInfo_isBlocked, t), rs1) \<Rightarrow>
          if blockInfo_isBlocked
          then (Inr \<lparr>allowed = False, blocked = True, remaining = Some 0,
                     resetTime = Some (now + t * 1000), blockExpiresAt = Some (t * 1000)\<rparr>, rs1)
          else
            (case incrementRateLimit identifier (windowSeconds g) rs1 of
               (Inl e, rs2) \<Rightarrow> (Inl e, rs2)
             | (Inr (count, isFirstRequest), rs2) \<Rightarrow>
                 let allowed' = num_le (Some count) (maxRequests g);
                     remaining' = Math_max0 (num_sub (maxRequests g) (Some count))
                 in if isFirstRequest
                    then (Inr \<lparr>allowed = allowed', blocked = False, remaining = remaining',
                               resetTime = num_add (Some now) (num_mul (windowSeconds g) (Some 1000)),
                               blockExpiresAt = None\<rparr>, rs2)
                    else
                      (case getRateLimitInfo identifier rs2 of
                         (Inl e, rs3) \<Rightarrow> (Inl e, rs3)
                       | (Inr (c, t), rs3) \<Rightarrow>
                           (Inr \<lparr>allowed = allowed', blocked = False, remaining = remaining',
                                  resetTime = Some (now + t * 1000),
                                  blockExpiresAt = None\<rparr>, rs3))))"

text \<open>
  The outcome of \<open>canActivate\<close>: \<open>Activated h\<close> is \<open>return true\<close>, with the rate-limit
  headers set on the response when \<open>h\<close> is \<open>Some\<close> (limit, remaining and reset time in
  milliseconds); \<open>Refused e\<close> is the thrown \<open>HttpException\<close>. The body of the exception
  is the JSON object given to its constructor.
\<close>

text \<open>
  \<open>new Date(t).toISOString()\<close> throws a \<open>RangeError\<close> unless \<open>t\<close> is a time value: a
  number of at most 8.64e15 in magnitude. In \<open>canActivate\<close> the error is thrown before
  any header is set and is caught by the \<open>catch\<close>, which returns \<open>true\<close>.
\<close>

definition valid_time :: "jsnum \<Rightarrow> bool" where
  "valid_time t = (case t of None \<Rightarrow> False | Some ms \<Rightarrow> \<bar>ms\<bar> \<le> 8640000000000000)"

datatype activation = Activated "(jsnum \<times> jsnum \<times> int) option" | Refused js_error

definition too_many_requests :: "jsnum \<Rightarrow> js_error" where
  "too_many_requests retryAfter =
     HttpException 429
       (JObj [(''message'', JStr ''I'm currently experiencing high traffic and need to limit requests. Please try again in a few minutes. Your patience is appreciated!''),
              (''statusCode'', JNum 429),
              (''error'', JStr ''Too Many Requests''),
              (''retryAfter'', (case retryAfter of None \<Rightarrow> JNull | Some n \<Rightarrow> JNum n))])"

definition canActivate ::
  "RateLimitGuard \<Rightarrow> int \<Rightarrow> http_request \<Rightarrow> RedisService \<Rightarrow> activation \<times> RedisService"
where
  "canActivate g now request rs =
     (if \<not> enabled g then (Activated None, rs)
      else
        let identifier = getClientIdentifier request in
        case checkRateLimit g now identifier rs of
          (Inl e, rs1) \<Rightarrow> (Activated None, rs1)
        | (Inr result, rs1) \<Rightarrow>
            if blocked result
            then (Refused (too_many_requests (map_option (\<lambda>ms. ms div 1000) (blockExpiresAt result))), rs1)
            else if \<not> allowed result
            then (case setBlock identifier (blockDurationSeconds g) rs1 of
                    (Inl e, rs2) \<Rightarrow> (Activated None, rs2)
                  | (Inr u, rs2) \<Rightarrow> (Refused (too_many_requests (blockDurationSeconds g)), rs2))
            else if valid_time (resetTime result)
            then (Activated (Some (maxRequests g, remaining result, the (resetTime result))), rs1)
            else (Activated None, rs1))"

section \<open>Reference descriptions used by the theorems\<close>

text \<open>
  The read path of the two caches in words: given the value \<open>raw\<close> that the store hands
  back for the key, the value returned to the caller and whether the key is purged. A
  falsy value (an absent key, the empty string) is a miss and purges nothing; a value
  that is not a string, a string starting with \<open>[object \<close> (the corrupt-serialisation
  sentinel \<open>[object Object]\<close> is one) and a string that does not parse are purged and
  give a miss (\<open>null\<close>); otherwise the parsed value is returned.
\<close>

definition read_path :: "json_parser \<Rightarrow> json \<Rightarrow> json \<times> bool" where
  "read_path parse raw =
     (if \<not> truthy raw then (JNull, False)
      else case raw of
             JStr s \<Rightarrow>
               if startsWith s ''[object '' then (JNull, True)
               else (case parse s of Inl e \<Rightarrow> (JNull, True) | Inr v \<Rightarrow> (v, False))
           | v \<Rightarrow> (JNull, True))"

text \<open>
  A scenario for the guard: the same client sends requests one after the other; each
  arrival \<open>(d, now)\<close> lets \<open>d\<close> seconds pass on the store's clock and then runs
  \<open>canActivate\<close> with \<open>Date.now() = now\<close>.
\<close>

definition elapse :: "int \<Rightarrow> RedisService \<Rightarrow> RedisService" where
  "elapse d rs = rs\<lparr>redis := map_option (advance d) (redis rs)\<rparr>"

fun serve ::
  "RateLimitGuard \<Rightarrow> http_request \<Rightarrow> (int \<times> int) list \<Rightarrow> RedisService \<Rightarrow> activation list \<times> RedisService"
where
  "serve g request [] rs = ([], rs)"
| "serve g request (arrival # arrivals) rs =
     (case canActivate g (snd arrival) request (elapse (fst arrival) rs) of
        (a, rs1) \<Rightarrow> (case serve g request arrivals rs1 of (as, rs2) \<Rightarrow> (a # as, rs2)))"

fun admitted :: "activation \<Rightarrow> bool" where
  "admitted (Activated h) = True"
| "admitted (Refused e) = False"

text \<open>Overwriting or removing one entry of the store, from outside the program.\<close>

definition poke :: "string \<Rightarrow> (rval \<times> int option) option \<Rightarrow> redis_server \<Rightarrow> redis_server" where
  "poke k x s = s\<lparr>srv_entries := (srv_entries s)(k := x)\<rparr>"

definition poke_service :: "string \<Rightarrow> (rval \<times> int option) option \<Rightarrow> RedisService \<Rightarrow> RedisService" where
  "poke_service k x rs = rs\<lparr>redis := map_option (poke k x) (redis rs)\<rparr>"

section \<open>The agent service (agent.service.ts)\<close>

subsection \<open>Messages, requests and events (agent.dto.ts)\<close>

record tool_call =
  tc_id :: string
  tc_name :: string
  tc_arguments :: string

text \<open>
  The role of a message is the string that arrives at run time: one of the four
  declared roles, the client's \<open>data\<close>, or anything else.
\<close>

type_synonym role = string

text \<open>\<open>None\<close> is an absent (\<open>undefined\<close> or \<open>null\<close>) field.\<close>

record ConversationMessage =
  role :: role
  content :: "string option"
  tool_calls :: "tool_call list option"
  tool_call_id :: "string option"
  timestamp :: "string option"

text \<open>A message in the shape of the completion API.\<close>

record chat_message =
  m_role :: role
  m_content :: "string option"
  m_tool_calls :: "tool_call list option"
  m_tool_call_id :: "string option"

record MemoryDto =
  mem_key :: string
  mem_value :: string
  mem_category :: "string option"
  mem_timestamp :: "string option"

record AgentRequest =
  message :: string
  conversationHistory :: "ConversationMessage list option"
  sessionId :: "string option"
  userIp :: "string option"
  memories :: "MemoryDto list option"

record AgentResponse =
  res_message :: string
  res_conversationHistory :: "ConversationMessage list"
  res_sessionId :: string
  res_toolCalls :: "tool_call list option"
  res_completed :: bool

text \<open>
  What \<open>processRequest\<close> returns: a response built by the service, or a cached JSON
  object spread into a new object with the session id replaced.
\<close>

datatype response = Fresh AgentResponse | FromCache "(string \<times> json) list"

datatype event_type =
    EStatus | EThinking | EToolStart | EToolProgress | EToolComplete | EContent
  | EContentStream | EComplete | EReasoningStart | EReasoningProgress | EReasoningComplete

text \<open>A streamed event, without its timestamp. The content is a string in all but the mock path.\<close>

record StreamingUpdate =
  ev_type :: event_type
  ev_content :: "json option"
  ev_toolName :: "string option"
  ev_toolDescription :: "string option"
  ev_data :: "json option"
  ev_reasoning :: "json option"

definition event :: "event_type \<Rightarrow> string \<Rightarrow> StreamingUpdate" where
  "event t c = \<lparr>ev_type = t, ev_content = Some (JStr c), ev_toolName = None,
                 ev_toolDescription = None, ev_data = None, ev_reasoning = None\<rparr>"

subsection \<open>The completion API and the tools\<close>

text \<open>
  The parameters of one completion request. The temperature is kept as the configured
  text (the program converts it with \<open>parseFloat\<close>).
\<close>

record completion_params =
  p_model :: string
  p_messages :: "chat_message list"
  p_tools :: "json list"
  p_temperature :: "string option"
  p_reasoning_effort :: "string option"
  p_max_completion_tokens :: "jsnum option"
  p_max_tokens :: "jsnum option"
  p_stream :: bool

text \<open>The message of a buffered completion, \<open>response.choices[0].message\<close>.\<close>

record completion =
  c_content :: "string option"
  c_tool_calls :: "tool_call list option"

text \<open>One chunk of a streamed completion: the delta and the usage snapshot.\<close>

record tool_call_delta =
  d_index :: "nat option"
  d_id :: "string option"
  d_name :: "string option"
  d_arguments :: "string option"

record chunk =
  delta_content :: "string option"
  delta_tool_calls :: "tool_call_delta list option"
  usage_completion_tokens :: "int option"
  usage_reasoning_tokens :: "int option"

text \<open>
  The client of the completion API is an oracle: the answer to a request may depend on
  the request and on the number of requests sent before. A call fails with an error, or
  gives a message; a streamed call gives chunks and may fail after them.
\<close>

record openai_client =
  create :: "nat \<Rightarrow> completion_params \<Rightarrow> js_error + completion"
  create_stream :: "nat \<Rightarrow> completion_params \<Rightarrow> js_error + (chunk list \<times> js_error option)"

text \<open>
  A tool (tool.interface.ts). \<open>execute\<close> may depend on the number of tool executions
  before it (tools read clocks and remote services); it returns a JSON value or throws.
\<close>

record tool =
  t_name :: string
  t_description :: string
  t_execute :: "nat \<Rightarrow> json \<Rightarrow> js_error + json"

text \<open>The registry (tool-registry.service.ts): a map filled by \<open>registerTools\<close>; the last registration of a name wins.\<close>

type_synonym ToolRegistry = "string \<Rightarrow> tool option"

definition registerTools :: "tool list \<Rightarrow> ToolRegistry \<Rightarrow> ToolRegistry" where
  "registerTools ts reg = fold (\<lambda>t m. m(t_name t \<mapsto> t)) ts reg"

definition getTool :: "ToolRegistry \<Rightarrow> string \<Rightarrow> tool option" where
  "getTool reg name = reg name"

subsection \<open>The service, its environment and the state it runs on\<close>

record AgentService =
  openai :: "openai_client option"
  systemPrompt :: string
  toolDefinitions :: "json list"
  isReasoningModel :: bool
  reasoningEffort :: string
  maxCompletionTokens :: jsnum
  cacheEnabled :: bool
  cacheTtlSeconds :: jsnum
  toolCacheEnabled :: bool
  toolCacheTtlSeconds :: jsnum
  configService :: config
  toolRegistry :: ToolRegistry

text \<open>
  What the run-time environment supplies: \<open>JSON.parse\<close>, the texts of the current date
  (\<open>toISOString\<close>), a fresh session id, the measured thinking time and its humanised
  text, and the content of \<open>prompts/mock.json\<close> when the file can be read.
\<close>

record runtime =
  JSON_parse :: json_parser
  iso_now :: string
  new_session_id :: string
  thinking_ms :: int
  thinking_text :: string
  mock_file :: "string option"

text \<open>
  The state the service acts on: the cache adapter, the log of the completion requests
  sent, and the log of the tool executions (tool name and arguments).
\<close>

record agent_state =
  redisService :: RedisService
  requests :: "completion_params list"
  executions :: "(string \<times> json) list"

definition isReasoningModelName :: "string \<Rightarrow> bool" where
  "isReasoningModelName modelName =
     list_ex (\<lambda>reasoningModel. includes_str modelName reasoningModel)
       [''o1'', ''o1-mini'', ''o1-preview'', ''o3'', ''o3-mini'', ''o4-mini'']"

definition default_prompt :: string where
  "default_prompt =
     join [CHR 0x0A]
       [''You are SignalBox, a helpful, general-purpose AI assistant.'',
        ''Current date and time: {{CURRENT_DATE_TIME}}'',
        ''{{MEMORIES_SECTION}}'',
        ''Respond concisely. Use tools when it improves accuracy (memory, currency).'']"

text \<open>
  \<open>onModuleInit\<close>. The client is created only when an API key is configured. The two
  prompt files are parameters: the text of \<open>prompts/main.txt\<close> if readable, and the
  array parsed from \<open>prompts/tools.json\<close>; start-up fails when that file cannot be
  read or parsed (\<open>None\<close>). A file that parses to something else than an array is
  outside the model.
\<close>

definition AgentService_onModuleInit ::
  "config \<Rightarrow> openai_client \<Rightarrow> ToolRegistry \<Rightarrow> string option \<Rightarrow> json list option \<Rightarrow> js_error + AgentService"
where
  "AgentService_onModuleInit cfg client registry prompt_file tools_file =
     (case tools_file of
        None \<Rightarrow> Inl (Error ''Tools definition file is required but could not be loaded'')
      | Some defs \<Rightarrow>
          Inr \<lparr>openai = (if missing (cfg ''OPENAI_API_KEY'') then None else Some client),
               systemPrompt = (case prompt_file of None \<Rightarrow> default_prompt | Some p \<Rightarrow> p),
               toolDefinitions = defs,
               isReasoningModel = isReasoningModelName (config_get cfg ''OPENAI_MODEL'' ''gpt-4o''),
               reasoningEffort = config_get cfg ''REASONING_EFFORT'' ''medium'',
               maxCompletionTokens = parseInt (config_get cfg ''MAX_COMPLETION_TOKENS'' ''4096'') 0,
               cacheEnabled = (config_get cfg ''CACHE_ENABLED'' ''false'' = ''true''),
               cacheTtlSeconds = parseInt (config_get cfg ''CACHE_TTL_SECONDS'' ''300'') 0,
               toolCacheEnabled = (config_get cfg ''TOOL_CACHE_ENABLED'' ''false'' = ''true''),
               toolCacheTtlSeconds = parseInt (config_get cfg ''TOOL_CACHE_TTL_SECONDS'' ''600'') 0,
               configService = cfg,
               toolRegistry = registry\<rparr>)"

subsection \<open>History conversion and the system prompt\<close>

definition nonempty :: "string option \<Rightarrow> bool" where
  "nonempty c = (case c of None \<Rightarrow> False | Some s \<Rightarrow> s \<noteq> [])"

text \<open>The three passes of \<open>convertConversationToOpenAI\<close>: relabel, filter, map (which throws on an unknown role).\<close>

definition relabel :: "ConversationMessage \<Rightarrow> ConversationMessage" where
  "relabel msg = (if role msg = ''data'' then msg\<lparr>role := ''assistant''\<rparr> else msg)"

definition keep :: "ConversationMessage \<Rightarrow> bool" where
  "keep msg =
     (if role msg = ''user'' \<or> role msg = ''tool'' then nonempty (content msg)
      else if role msg = ''assistant''
      then nonempty (content msg) \<or> (case tool_calls msg of None \<Rightarrow> False | Some tcs \<Rightarrow> tcs \<noteq> [])
      else True)"

definition to_openai :: "ConversationMessage \<Rightarrow> js_error + chat_message" where
  "to_openai msg =
     (if role msg = ''user''
      then Inr \<lparr>m_role = ''user'', m_content = content msg, m_tool_calls = None, m_tool_call_id = None\<rparr>
      else if role msg = ''assistant''
      then Inr \<lparr>m_role = ''assistant'',
                m_content = (if nonempty (content msg) then content msg else None),
                m_tool_calls = tool_calls msg, m_tool_call_id = None\<rparr>
      else if role msg = ''tool''
      then Inr \<lparr>m_role = ''tool'', m_content = content msg, m_tool_calls = None,
                m_tool_call_id = tool_call_id msg\<rparr>
      else if role msg = ''system''
      then Inr \<lparr>m_role = ''system'', m_content = content msg, m_tool_calls = None, m_tool_call_id = None\<rparr>
      else Inl (Error (''Unknown or invalid message role: '' @ role msg)))"

text \<open>\<open>Array.prototype.map\<close> with a callback that may throw: the first error ends it.\<close>

fun map_throwing :: "('a \<Rightarrow> js_error + 'b) \<Rightarrow> 'a list \<Rightarrow> js_error + 'b list" where
  "map_throwing f [] = Inr []"
| "map_throwing f (x # xs) =
     (case f x of
        Inl e \<Rightarrow> Inl e
      | Inr y \<Rightarrow> (case map_throwing f xs of Inl e \<Rightarrow> Inl e | Inr ys \<Rightarrow> Inr (y # ys)))"

definition convertConversationToOpenAI :: "ConversationMessage list \<Rightarrow> js_error + chat_message list" where
  "convertConversationToOpenAI history =
     (let preprocessedHistory = map relabel history;
          filteredHistory = filter keep preprocessedHistory
      in map_throwing to_openai filteredHistory)"

text \<open>
  \<open>formatMemoriesSection\<close>: the memories grouped by category in the order in which the
  categories first occur, each group under its capitalised name. (Upper-casing covers
  the ASCII letters.)
\<close>

definition toUpperCase_char :: "char \<Rightarrow> char" where
  "toUpperCase_char c =
     (if (97::nat) \<le> of_char c \<and> (of_char c :: nat) \<le> 122 then char_of ((of_char c :: nat) - 32) else c)"

definition category_of :: "MemoryDto \<Rightarrow> string" where
  "category_of memory = (if nonempty (mem_category memory) then the (mem_category memory) else ''general'')"

definition capitalize :: "string \<Rightarrow> string" where
  "capitalize s = (case s of [] \<Rightarrow> [] | c # cs \<Rightarrow> toUpperCase_char c # cs)"

definition formatMemoriesSection :: "MemoryDto list \<Rightarrow> string" where
  "formatMemoriesSection mems =
     (if mems = [] then []
      else
        [CHR 0x0A] @ ''## User Memories:'' @ [CHR 0x0A]
        @ ''Use this information to provide personalized recommendations and maintain context:'' @ [CHR 0x0A]
        @ concat (map (\<lambda>category.
              [CHR 0x0A] @ ''### '' @ capitalize category @ '':'' @ [CHR 0x0A]
              @ concat (map (\<lambda>memory. ''- **'' @ mem_key memory @ ''**: '' @ mem_value memory @ [CHR 0x0A])
                          (filter (\<lambda>memory. category_of memory = category) mems)))
            (rev (remdups (rev (map category_of mems))))))"

text \<open>
  \<open>replacePlaceholders\<close>. The date text is \<open>toISOString()\<close> with the first \<open>T\<close> replaced
  by a space and a final \<open>.ddd Z\<close> group replaced by \<open>UTC\<close>. (The special \<open>$\<close> patterns
  of a replacement string are not modelled.)
\<close>

definition is_digit :: "char \<Rightarrow> bool" where
  "is_digit c = ((48::nat) \<le> of_char c \<and> (of_char c :: nat) \<le> 57)"

definition strip_millis :: "string \<Rightarrow> string" where
  "strip_millis s =
     (let n = length s; t = drop (n - 5) s
      in if length t = 5 \<and> t ! 0 = CHR ''.'' \<and> is_digit (t ! 1) \<and> is_digit (t ! 2)
            \<and> is_digit (t ! 3) \<and> t ! 4 = CHR ''Z''
         then take (n - 5) s @ '' UTC'' else s)"

definition replacePlaceholders :: "runtime \<Rightarrow> string \<Rightarrow> MemoryDto list option \<Rightarrow> string" where
  "replacePlaceholders rt prompt mems =
     (let currentDateTime = strip_millis (replace_first (iso_now rt) ''T'' '' '');
          processedPrompt = replace_first prompt ''{{CURRENT_DATE_TIME}}'' currentDateTime
      in case mems of
           None \<Rightarrow> replace_first processedPrompt ''{{MEMORIES_SECTION}}'' []
         | Some ms \<Rightarrow>
             if ms = [] then replace_first processedPrompt ''{{MEMORIES_SECTION}}'' []
             else replace_first processedPrompt ''{{MEMORIES_SECTION}}'' (formatMemoriesSection ms))"

text \<open>\<open>request.sessionId || this.generateSessionId()\<close>.\<close>

definition session_of :: "runtime \<Rightarrow> AgentRequest \<Rightarrow> string" where
  "session_of rt request =
     (if nonempty (sessionId request) then the (sessionId request) else new_session_id rt)"

definition history_of :: "AgentRequest \<Rightarrow> ConversationMessage list" where
  "history_of request = (case conversationHistory request of None \<Rightarrow> [] | Some h \<Rightarrow> h)"

subsection \<open>Completion requests\<close>

definition completionParams :: "AgentService \<Rightarrow> chat_message list \<Rightarrow> bool \<Rightarrow> completion_params" where
  "completionParams svc currentMessages streaming =
     (let base = \<lparr>p_model = config_get (configService svc) ''OPENAI_MODEL'' ''gpt-4o'',
                  p_messages = currentMessages,
                  p_tools = map (\<lambda>t. JObj [(''type'', JStr ''function''), (''function'', t)]) (toolDefinitions svc),
                  p_temperature = Some (config_get (configService svc) ''OPENAI_TEMPERATURE'' ''0.1''),
                  p_reasoning_effort = None,
                  p_max_completion_tokens = None,
                  p_max_tokens = None,
                  p_stream = streaming\<rparr>
      in if isReasoningModel svc
         then base\<lparr>p_reasoning_effort := Some (reasoningEffort svc),
                   p_max_completion_tokens := Some (maxCompletionTokens svc),
                   p_temperature := None\<rparr>
         else base\<lparr>p_max_tokens := Some (parseInt (config_get (configService svc) ''OPENAI_MAX_TOKENS'' ''4096'') 0)\<rparr>)"

text \<open>Sending a request: it is logged, and the oracle answers.\<close>

definition send :: "completion_params \<Rightarrow> agent_state \<Rightarrow> agent_state" where
  "send params st = st\<lparr>requests := requests st @ [params]\<rparr>"

subsection \<open>Running one tool call\<close>

definition unknown_tool_result :: "string \<Rightarrow> json" where
  "unknown_tool_result toolName = JObj [(''error'', JStr (''Unknown tool: '' @ toolName))]"

definition tool_error_result :: "string \<Rightarrow> string \<Rightarrow> js_error \<Rightarrow> json" where
  "tool_error_result toolName toolCallId e =
     JObj [(''error'', JStr (''Error executing '' @ toolName @ '': '' @ message_of e)),
           (''toolName'', JStr toolName),
           (''toolCallId'', JStr toolCallId)]"

text \<open>
  The cache lookup of a tool call: \<open>null\<close> when tool caching is off, when the key cannot
  be computed (the inner \<open>catch\<close>), or on a miss.
\<close>

definition tool_cache_lookup ::
  "AgentService \<Rightarrow> runtime \<Rightarrow> string \<Rightarrow> json \<Rightarrow> agent_state \<Rightarrow> json \<times> agent_state"
where
  "tool_cache_lookup svc rt toolName toolArgs st =
     (if toolCacheEnabled svc
      then (case generateToolCacheKey toolName toolArgs of
              Inl e \<Rightarrow> (JNull, st)
            | Inr argsHash \<Rightarrow>
                (case getCachedToolResult (JSON_parse rt) toolName argsHash (redisService st) of
                   (r, rs) \<Rightarrow> (r, st\<lparr>redisService := rs\<rparr>)))
      else (JNull, st))"

text \<open>
  \<^verbatim>\<open>toolResult && typeof toolResult === 'object' && !toolResult.error\<close>: the results that
  are written through.
\<close>

definition cacheable :: "json \<Rightarrow> bool" where
  "cacheable toolResult =
     (truthy toolResult \<and> typeof_object toolResult \<and> \<not> truthy_opt (get_prop toolResult ''error''))"

definition tool_cache_store ::
  "AgentService \<Rightarrow> string \<Rightarrow> json \<Rightarrow> json \<Rightarrow> agent_state \<Rightarrow> agent_state"
where
  "tool_cache_store svc toolName toolArgs toolResult st =
     (if toolCacheEnabled svc \<and> cacheable toolResult
      then (case generateToolCacheKey toolName toolArgs of
              Inl e \<Rightarrow> st
            | Inr argsHash \<Rightarrow>
                st\<lparr>redisService :=
                     snd (setCachedToolResult toolName argsHash toolResult (toolCacheTtlSeconds svc)
                            (redisService st))\<rparr>)
      else st)"

text \<open>
  \<^verbatim>\<open>tool.execute({ ...toolArgs, userIp })\<close>: the execution is logged with the arguments
  the tool receives. (A property whose value is \<open>undefined\<close> is left out.)
\<close>

definition execute_args :: "json \<Rightarrow> string option \<Rightarrow> json" where
  "execute_args toolArgs ip =
     JObj (case ip of None \<Rightarrow> filter (\<lambda>kv. fst kv \<noteq> ''userIp'') (spread toolArgs)
                    | Some a \<Rightarrow> obj_set ''userIp'' (JStr a) (spread toolArgs))"

definition invoke :: "tool \<Rightarrow> json \<Rightarrow> agent_state \<Rightarrow> (js_error + json) \<times> agent_state" where
  "invoke t args st =
     (t_execute t (length (executions st)) args,
      st\<lparr>executions := executions st @ [(t_name t, args)]\<rparr>)"

text \<open>
  The body of the \<open>try\<close> around one call of a registered tool, which is the same in
  \<open>executeToolCalls\<close> and in the streaming loop: parse the arguments, look the cache up,
  execute on a miss and write the result through. \<open>Inl e\<close> is an error that reaches the
  \<open>catch\<close> of the call.
\<close>

definition try_tool_call ::
  "AgentService \<Rightarrow> runtime \<Rightarrow> string option \<Rightarrow> tool_call \<Rightarrow> tool \<Rightarrow> agent_state
     \<Rightarrow> (js_error + json) \<times> agent_state"
where
  "try_tool_call svc rt ip toolCall t st =
     (let toolName = tc_name toolCall in
      case JSON_parse rt (tc_arguments toolCall) of
        Inl e \<Rightarrow> (Inl e, st)
      | Inr toolArgs \<Rightarrow>
          (case tool_cache_lookup svc rt toolName toolArgs st of
             (cached, st1) \<Rightarrow>
               if truthy cached then (Inr cached, st1)
               else (case invoke t (execute_args toolArgs ip) st1 of
                       (Inl e, st2) \<Rightarrow> (Inl e, st2)
                     | (Inr toolResult, st2) \<Rightarrow>
                         (Inr toolResult, tool_cache_store svc toolName toolArgs toolResult st2))))"

text \<open>The result recorded for the call: the value, or the error object built by the \<open>catch\<close>.\<close>

definition run_tool_call ::
  "AgentService \<Rightarrow> runtime \<Rightarrow> string option \<Rightarrow> tool_call \<Rightarrow> tool \<Rightarrow> agent_state \<Rightarrow> json \<times> agent_state"
where
  "run_tool_call svc rt ip toolCall t st =
     (case try_tool_call svc rt ip toolCall t st of
        (Inl e, st1) \<Rightarrow> (tool_error_result (tc_name toolCall) (tc_id toolCall) e, st1)
      | (Inr r, st1) \<Rightarrow> (r, st1))"

text \<open>\<open>executeToolCalls\<close>: the loop over the requested calls, filling \<open>results\<close> by call id.\<close>

fun executeToolCalls_from ::
  "AgentService \<Rightarrow> runtime \<Rightarrow> string option \<Rightarrow> tool_call list \<Rightarrow> (string \<times> json) list \<Rightarrow> agent_state
     \<Rightarrow> (string \<times> json) list \<times> agent_state"
where
  "executeToolCalls_from svc rt ip [] results st = (results, st)"
| "executeToolCalls_from svc rt ip (toolCall # rest) results st =
     (case getTool (toolRegistry svc) (tc_name toolCall) of
        None \<Rightarrow>
          executeToolCalls_from svc rt ip rest
            (obj_set (tc_id toolCall) (unknown_tool_result (tc_name toolCall)) results) st
      | Some t \<Rightarrow>
          (case run_tool_call svc rt ip toolCall t st of
             (r, st1) \<Rightarrow> executeToolCalls_from svc rt ip rest (obj_set (tc_id toolCall) r results) st1))"

definition executeToolCalls ::
  "AgentService \<Rightarrow> runtime \<Rightarrow> string option \<Rightarrow> tool_call list \<Rightarrow> agent_state
     \<Rightarrow> (string \<times> json) list \<times> agent_state"
where
  "executeToolCalls svc rt ip toolCalls st = executeToolCalls_from svc rt ip toolCalls [] st"

subsection \<open>The buffered loop: \<open>processConversationWithTools\<close>\<close>

text \<open>
  How control leaves the \<open>while\<close> loop: by the \<open>return\<close> inside it, by the loop
  condition becoming false (the ceiling), or by an error thrown by the completion call.
\<close>

datatype 'a loop_exit = Returned 'a | Ceiling | Threw js_error

record final_message =
  fm_content :: string
  fm_tool_calls :: "tool_call list option"
  fm_toolResults :: "(string \<times> json) list option"

definition no_tool_calls :: "tool_call list option \<Rightarrow> bool" where
  "no_tool_calls tcs = (case tcs of None \<Rightarrow> True | Some xs \<Rightarrow> xs = [])"

text \<open>\<^verbatim>\<open>Object.keys(toolResults).length > 0 ? toolResults : undefined\<close>.\<close>

definition results_or_undefined :: "(string \<times> json) list \<Rightarrow> (string \<times> json) list option" where
  "results_or_undefined toolResults = (if toolResults \<noteq> [] then Some toolResults else None)"

text \<open>The messages appended after the tool calls of a turn: the assistant message and one tool message per call.\<close>

definition tool_messages :: "tool_call list \<Rightarrow> (string \<times> json) list \<Rightarrow> chat_message list" where
  "tool_messages tcs currentToolResults =
     map (\<lambda>toolCall.
            \<lparr>m_role = ''tool'',
             m_content = map_option (serialize None) (map_of currentToolResults (tc_id toolCall)),
             m_tool_calls = None,
             m_tool_call_id = Some (tc_id toolCall)\<rparr>) tcs"

text \<open>\<^verbatim>\<open>{ ...toolResults, ...currentToolResults }\<close>.\<close>

definition merge_results :: "(string \<times> json) list \<Rightarrow> (string \<times> json) list \<Rightarrow> (string \<times> json) list" where
  "merge_results toolResults currentToolResults =
     fold (\<lambda>kv acc. obj_set (fst kv) (snd kv) acc) currentToolResults toolResults"

text \<open>
  The loop, with its variables \<open>iterations\<close>, \<open>currentMessages\<close> and \<open>toolResults\<close> as
  arguments; \<open>maxIterations\<close> is the constant 5 of the source. The result is the way the
  loop was left together with the final values of the variables and the state.
\<close>

function tools_loop ::
  "AgentService \<Rightarrow> runtime \<Rightarrow> openai_client \<Rightarrow> string option \<Rightarrow> int \<Rightarrow> chat_message list
     \<Rightarrow> (string \<times> json) list \<Rightarrow> agent_state
     \<Rightarrow> final_message loop_exit \<times> chat_message list \<times> (string \<times> json) list \<times> agent_state"
where
  "tools_loop svc rt client ip iterations currentMessages toolResults st =
     (if iterations < 5
      then
        (let params = completionParams svc currentMessages False;
             st1 = send params st
         in case create client (length (requests st)) params of
              Inl e \<Rightarrow> (Threw e, currentMessages, toolResults, st1)
            | Inr assistantMessage \<Rightarrow>
                if no_tool_calls (c_tool_calls assistantMessage)
                then (Returned
                        \<lparr>fm_content = (if nonempty (c_content assistantMessage)
                                        then the (c_content assistantMessage)
                                        else ''I couldn't process your request.''),
                         fm_tool_calls = None,
                         fm_toolResults = results_or_undefined toolResults\<rparr>,
                      currentMessages, toolResults, st1)
                else
                  (case executeToolCalls svc rt ip (the (c_tool_calls assistantMessage)) st1 of
                     (currentToolResults, st2) \<Rightarrow>
                       tools_loop svc rt client ip (iterations + 1)
                         (currentMessages
                            @ [\<lparr>m_role = ''assistant'', m_content = c_content assistantMessage,
                                 m_tool_calls = c_tool_calls assistantMessage, m_tool_call_id = None\<rparr>]
                            @ tool_messages (the (c_tool_calls assistantMessage)) currentToolResults)
                         (merge_results toolResults currentToolResults) st2))
      else (Ceiling, currentMessages, toolResults, st))"
  by pat_completeness auto
termination
  by (relation "measure (\<lambda>(svc, rt, client, ip, iterations, rest). nat (5 - iterations))") auto

declare tools_loop.simps [simp del]

definition guidance :: string where
  "guidance = ''Configure your API key to enable responses (set OPENAI_API_KEY).''"

definition max_tool_calls_message :: string where
  "max_tool_calls_message = ''I reached the maximum number of tool calls.''"

text \<open>
  The code after the loop: the content of the last assistant message when it is a
  string, else the fixed message.
\<close>

definition after_ceiling :: "chat_message list \<Rightarrow> (string \<times> json) list \<Rightarrow> final_message" where
  "after_ceiling currentMessages toolResults =
     (let assistants = filter (\<lambda>msg. m_role msg = ''assistant'') currentMessages;
          lastContent = (if assistants = [] then None else m_content (last assistants))
      in \<lparr>fm_content = (case lastContent of Some c \<Rightarrow> c | None \<Rightarrow> max_tool_calls_message),
          fm_tool_calls = None,
          fm_toolResults = results_or_undefined toolResults\<rparr>)"

definition processConversationWithTools ::
  "AgentService \<Rightarrow> runtime \<Rightarrow> chat_message list \<Rightarrow> string option \<Rightarrow> agent_state
     \<Rightarrow> (js_error + final_message) \<times> agent_state"
where
  "processConversationWithTools svc rt messages ip st =
     (case openai svc of
        None \<Rightarrow> (Inr \<lparr>fm_content = guidance, fm_tool_calls = None, fm_toolResults = None\<rparr>, st)
      | Some client \<Rightarrow>
          (case tools_loop svc rt client ip 0 messages [] st of
             (Returned final, currentMessages, toolResults, st') \<Rightarrow> (Inr final, st')
           | (Threw e, currentMessages, toolResults, st') \<Rightarrow> (Inl e, st')
           | (Ceiling, currentMessages, toolResults, st') \<Rightarrow>
               (Inr (after_ceiling currentMessages toolResults), st')))"

subsection \<open>The streaming loop: \<open>processConversationWithToolsStream\<close>\<close>

text \<open>
  The assistant message assembled from the chunks of a turn. Its \<open>tool_calls\<close> array is
  filled by index and can have holes (\<open>None\<close>).
\<close>

record stream_acc =
  acc_content :: string
  acc_tool_calls :: "tool_call option list"
  acc_reasoningTokens :: int
  acc_reasoningComplete :: bool

definition slot :: "'a option list \<Rightarrow> nat \<Rightarrow> 'a option" where
  "slot xs i = (if i < length xs then xs ! i else None)"

definition set_slot :: "nat \<Rightarrow> 'a \<Rightarrow> 'a option list \<Rightarrow> 'a option list" where
  "set_slot i x xs =
     (if i < length xs then xs[i := Some x]
      else xs @ replicate (i - length xs) None @ [Some x])"

definition or_empty :: "string option \<Rightarrow> string" where
  "or_empty s = (case s of None \<Rightarrow> [] | Some x \<Rightarrow> x)"

fun apply_tool_deltas :: "tool_call_delta list \<Rightarrow> tool_call option list \<Rightarrow> tool_call option list" where
  "apply_tool_deltas [] tcs = tcs"
| "apply_tool_deltas (d # ds) tcs =
     apply_tool_deltas ds
       (case d_index d of
          None \<Rightarrow> tcs
        | Some i \<Rightarrow>
            (case slot tcs i of
               None \<Rightarrow>
                 set_slot i \<lparr>tc_id = or_empty (d_id d), tc_name = or_empty (d_name d),
                             tc_arguments = or_empty (d_arguments d)\<rparr> tcs
             | Some tc \<Rightarrow>
                 if nonempty (d_arguments d)
                 then tcs[i := Some (tc\<lparr>tc_arguments := tc_arguments tc @ or_empty (d_arguments d)\<rparr>)]
                 else tcs))"

definition reasoning_event ::
  "event_type \<Rightarrow> string \<Rightarrow> (string \<times> json) list \<Rightarrow> StreamingUpdate"
where
  "reasoning_event t c r = (event t c)\<lparr>ev_reasoning := Some (JObj r)\<rparr>"

definition process_chunk ::
  "AgentService \<Rightarrow> runtime \<Rightarrow> chunk \<Rightarrow> stream_acc \<Rightarrow> StreamingUpdate list \<times> stream_acc"
where
  "process_chunk svc rt ch acc =
     (let progress =
            (case usage_reasoning_tokens ch of
               None \<Rightarrow> False
             | Some n \<Rightarrow> isReasoningModel svc \<and> n \<noteq> 0 \<and> acc_reasoningTokens acc < n);
          acc1 = (if progress then acc\<lparr>acc_reasoningTokens := the (usage_reasoning_tokens ch)\<rparr> else acc);
          ev1 = (if progress
                 then [reasoning_event EReasoningProgress ''Thinking...''
                         [(''tokens'', JNum (acc_reasoningTokens acc1)),
                          (''effort'', JStr (reasoningEffort svc))]]
                 else []);
          finished = (isReasoningModel svc \<and> nonempty (delta_content ch) \<and> \<not> acc_reasoningComplete acc1);
          acc2 = (if finished then acc1\<lparr>acc_reasoningComplete := True\<rparr> else acc1);
          ev2 = (if finished
                 then [reasoning_event EReasoningComplete (''Thought for '' @ thinking_text rt)
                         [(''tokens'', JNum (acc_reasoningTokens acc1)),
                          (''effort'', JStr (reasoningEffort svc)),
                          (''duration'', JNum (thinking_ms rt))]]
                 else []);
          acc3 = (if nonempty (delta_content ch)
                  then acc2\<lparr>acc_content := acc_content acc2 @ or_empty (delta_content ch)\<rparr> else acc2);
          ev3 = (if nonempty (delta_content ch)
                 then [event EContentStream (or_empty (delta_content ch))] else []);
          acc4 = (case delta_tool_calls ch of
                    None \<Rightarrow> acc3
                  | Some ds \<Rightarrow> acc3\<lparr>acc_tool_calls := apply_tool_deltas ds (acc_tool_calls acc3)\<rparr>)
      in (ev1 @ ev2 @ ev3, acc4))"

fun process_chunks ::
  "AgentService \<Rightarrow> runtime \<Rightarrow> chunk list \<Rightarrow> stream_acc \<Rightarrow> StreamingUpdate list \<times> stream_acc"
where
  "process_chunks svc rt [] acc = ([], acc)"
| "process_chunks svc rt (ch # chs) acc =
     (case process_chunk svc rt ch acc of
        (evs, acc1) \<Rightarrow> (case process_chunks svc rt chs acc1 of (evs', acc2) \<Rightarrow> (evs @ evs', acc2)))"

definition tool_event ::
  "event_type \<Rightarrow> string \<Rightarrow> string option \<Rightarrow> string option \<Rightarrow> json option \<Rightarrow> StreamingUpdate"
where
  "tool_event t toolName c d dat =
     \<lparr>ev_type = t, ev_content = map_option JStr c, ev_toolName = Some toolName,
      ev_toolDescription = d, ev_data = dat, ev_reasoning = None\<rparr>"

text \<open>
  The \<open>for\<close> loop over the tool calls of a streamed turn. Reading the function name of
  a hole throws a \<open>TypeError\<close>, outside every \<open>try\<close>.
\<close>

fun stream_tool_calls ::
  "AgentService \<Rightarrow> runtime \<Rightarrow> string option \<Rightarrow> tool_call option list \<Rightarrow> (string \<times> json) list
     \<Rightarrow> agent_state \<Rightarrow> StreamingUpdate list \<times> js_error option \<times> (string \<times> json) list \<times> agent_state"
where
  "stream_tool_calls svc rt ip [] results st = ([], None, results, st)"
| "stream_tool_calls svc rt ip (None # rest) results st =
     ([], Some (TypeError ''Cannot read properties of undefined (reading 'function')''), results, st)"
| "stream_tool_calls svc rt ip (Some toolCall # rest) results st =
     (let toolName = tc_name toolCall;
          start = tool_event EToolStart toolName None
                    (map_option t_description (getTool (toolRegistry svc) toolName)) None
      in case getTool (toolRegistry svc) toolName of
           None \<Rightarrow>
             (let errorResult = unknown_tool_result toolName;
                  finished = tool_event EToolComplete toolName (Some (''Error: Unknown tool '' @ toolName))
                           None (Some (JObj [(tc_id toolCall, errorResult)]))
              in case stream_tool_calls svc rt ip rest (obj_set (tc_id toolCall) errorResult results) st of
                   (evs, failure, results', st') \<Rightarrow> (start # finished # evs, failure, results', st'))
         | Some t \<Rightarrow>
             (case try_tool_call svc rt ip toolCall t st of
                (outcome, st1) \<Rightarrow>
                  (let result = (case outcome of
                                   Inl e \<Rightarrow> tool_error_result toolName (tc_id toolCall) e
                                 | Inr r \<Rightarrow> r);
                       finished = tool_event EToolComplete toolName
                                (Some (case outcome of
                                         Inl e \<Rightarrow> ''Error executing '' @ toolName @ '': '' @ message_of e
                                       | Inr r \<Rightarrow> ''Processing completed successfully.''))
                                None (Some (JObj [(tc_id toolCall, result)]))
                   in case stream_tool_calls svc rt ip rest (obj_set (tc_id toolCall) result results) st1 of
                        (evs, failure, results', st') \<Rightarrow> (start # finished # evs, failure, results', st'))))"

definition final_content_event :: "string \<Rightarrow> StreamingUpdate" where
  "final_content_event c = (event EContent c)\<lparr>ev_data := Some (JObj [])\<rparr>"

text \<open>
  The loop, with \<open>iterations\<close> and \<open>currentMessages\<close> as arguments and the parsed
  \<open>MAX_ITERATIONS\<close> as \<open>maxIterations\<close>. It gives the events yielded, the way the loop
  was left, and the state.
\<close>

function stream_loop ::
  "AgentService \<Rightarrow> runtime \<Rightarrow> openai_client \<Rightarrow> string option \<Rightarrow> jsnum \<Rightarrow> int \<Rightarrow> chat_message list
     \<Rightarrow> agent_state \<Rightarrow> StreamingUpdate list \<times> unit loop_exit \<times> agent_state"
where
  "stream_loop svc rt client ip maxIterations iterations currentMessages st =
     (if num_lt (Some iterations) maxIterations
      then
        (let params = completionParams svc currentMessages True;
             started = (if isReasoningModel svc
                        then [reasoning_event EReasoningStart ''Thinking...''
                                [(''effort'', JStr (reasoningEffort svc))]]
                        else []);
             st1 = send params st
         in case create_stream client (length (requests st)) params of
              Inl e \<Rightarrow> (started, Threw e, st1)
            | Inr response \<Rightarrow>
                (case process_chunks svc rt (fst response)
                        \<lparr>acc_content = [], acc_tool_calls = [], acc_reasoningTokens = 0,
                         acc_reasoningComplete = False\<rparr> of
                   (chunk_events, assistantMessage) \<Rightarrow>
                     (case snd response of
                        Some e \<Rightarrow> (started @ chunk_events, Threw e, st1)
                      | None \<Rightarrow>
                          if acc_tool_calls assistantMessage = []
                          then (started @ chunk_events
                                  @ [final_content_event
                                       (if acc_content assistantMessage \<noteq> []
                                        then acc_content assistantMessage
                                        else ''I couldn't process your request.'')],
                                Returned (), st1)
                          else
                            (case stream_tool_calls svc rt ip (acc_tool_calls assistantMessage) [] st1 of
                               (tool_events, Some e, currentToolResults, st2) \<Rightarrow>
                                 (started @ chunk_events @ tool_events, Threw e, st2)
                             | (tool_events, None, currentToolResults, st2) \<Rightarrow>
                                 (case stream_loop svc rt client ip maxIterations (iterations + 1)
                                         (currentMessages
                                            @ [\<lparr>m_role = ''assistant'',
                                                 m_content = (if acc_content assistantMessage \<noteq> []
                                                              then Some (acc_content assistantMessage)
                                                              else None),
                                                 m_tool_calls = Some (map the (acc_tool_calls assistantMessage)),
                                                 m_tool_call_id = None\<rparr>]
                                            @ tool_messages (map the (acc_tool_calls assistantMessage))
                                                currentToolResults)
                                         st2 of
                                    (evs, exit, st3) \<Rightarrow>
                                      (started @ chunk_events @ tool_events @ evs, exit, st3))))))
      else ([], Ceiling, st))"
  by pat_completeness auto
termination
  by (relation "measure (\<lambda>(svc, rt, client, ip, maxIterations, iterations, rest).
                   case maxIterations of None \<Rightarrow> 0 | Some m \<Rightarrow> nat (m - iterations))")
     (auto simp: num_lt_def split: option.splits)

declare stream_loop.simps [simp del]

definition processConversationWithToolsStream ::
  "AgentService \<Rightarrow> runtime \<Rightarrow> chat_message list \<Rightarrow> string option \<Rightarrow> agent_state
     \<Rightarrow> StreamingUpdate list \<times> js_error option \<times> agent_state"
where
  "processConversationWithToolsStream svc rt messages ip st =
     (case openai svc of
        None \<Rightarrow> ([event EContent guidance], None, st)
      | Some client \<Rightarrow>
          (let maxIterations = parseInt (config_get (configService svc) ''MAX_ITERATIONS'' ''5'') 0
           in case stream_loop svc rt client ip maxIterations 0 messages st of
                (evs, Returned u, st') \<Rightarrow> (evs, None, st')
              | (evs, Threw e, st') \<Rightarrow> (evs, Some e, st')
              | (evs, Ceiling, st') \<Rightarrow>
                  (evs @ [final_content_event max_tool_calls_message], None, st')))"

subsection \<open>The entry points: \<open>processRequest\<close> and \<open>processRequestStream\<close>\<close>

text \<open>The JSON text of a history and of a response, as \<open>JSON.stringify\<close> writes them (absent fields are left out).\<close>

definition optional :: "string \<Rightarrow> 'a option \<Rightarrow> ('a \<Rightarrow> json) \<Rightarrow> (string \<times> json) list" where
  "optional k v f = (case v of None \<Rightarrow> [] | Some x \<Rightarrow> [(k, f x)])"

definition tool_call_json :: "tool_call \<Rightarrow> json" where
  "tool_call_json tc =
     JObj [(''id'', JStr (tc_id tc)), (''type'', JStr ''function''),
           (''function'', JObj [(''name'', JStr (tc_name tc)), (''arguments'', JStr (tc_arguments tc))])]"

definition message_json :: "ConversationMessage \<Rightarrow> json" where
  "message_json msg =
     JObj ([(''role'', JStr (role msg))]
           @ optional ''content'' (content msg) JStr
           @ optional ''tool_calls'' (tool_calls msg) (\<lambda>tcs. JArr (map tool_call_json tcs))
           @ optional ''tool_call_id'' (tool_call_id msg) JStr
           @ optional ''timestamp'' (timestamp msg) JStr)"

definition response_json :: "AgentResponse \<Rightarrow> json" where
  "response_json r =
     JObj ([(''message'', JStr (res_message r)),
            (''conversationHistory'', JArr (map message_json (res_conversationHistory r))),
            (''sessionId'', JStr (res_sessionId r))]
           @ optional ''toolCalls'' (res_toolCalls r) (\<lambda>tcs. JArr (map tool_call_json tcs))
           @ [(''completed'', JBool (res_completed r))])"

definition generateCacheKey :: "AgentRequest \<Rightarrow> string" where
  "generateCacheKey request =
     (let messageHash = simpleHash (message request);
          historyHash = (case conversationHistory request of
                           None \<Rightarrow> ''0''
                         | Some h \<Rightarrow> simpleHash (serialize None (JArr (map message_json h))))
      in ''agent_response:'' @ messageHash @ '':'' @ historyHash)"

text \<open>The message chosen by the \<open>catch\<close> of both entry points.\<close>

definition error_text :: "js_error \<Rightarrow> string" where
  "error_text e =
     (case e of
        APIError code status m \<Rightarrow>
          if code = Some ''overloaded_error''
          then ''The service is currently overloaded. Please try again in a few moments.''
          else if status = Some 400
          then ''I'm sorry, I couldn't process that. There seems to be an issue with the information provided.''
          else ''I apologize, but I encountered an error processing your request. Please try again.''
      | _ \<Rightarrow> ''I apologize, but I encountered an error processing your request. Please try again.'')"

definition userMessage :: "runtime \<Rightarrow> AgentRequest \<Rightarrow> ConversationMessage" where
  "userMessage rt request =
     \<lparr>role = ''user'', content = Some (message request), tool_calls = None, tool_call_id = None,
      timestamp = Some (iso_now rt)\<rparr>"

text \<open>
  \<open>conversationHistory.push\<close> acts on the array of the request when the request has
  one: \<open>pushed\<close> is the request as it is seen afterwards.
\<close>

definition pushed :: "AgentRequest \<Rightarrow> ConversationMessage list \<Rightarrow> AgentRequest" where
  "pushed request msgs =
     (case conversationHistory request of
        None \<Rightarrow> request
      | Some h \<Rightarrow> request\<lparr>conversationHistory := Some (h @ msgs)\<rparr>)"

definition error_response :: "runtime \<Rightarrow> AgentRequest \<Rightarrow> js_error \<Rightarrow> AgentResponse" where
  "error_response rt request e =
     \<lparr>res_message = error_text e,
      res_conversationHistory = history_of request,
      res_sessionId = session_of rt request,
      res_toolCalls = None,
      res_completed = False\<rparr>"

definition initial_messages :: "AgentService \<Rightarrow> runtime \<Rightarrow> AgentRequest \<Rightarrow> js_error + chat_message list" where
  "initial_messages svc rt request =
     (let systemPromptWithContext = replacePlaceholders rt (systemPrompt svc) (memories request)
      in case convertConversationToOpenAI (history_of request @ [userMessage rt request]) of
           Inl e \<Rightarrow> Inl e
         | Inr converted \<Rightarrow>
             Inr (\<lparr>m_role = ''system'', m_content = Some systemPromptWithContext, m_tool_calls = None,
                   m_tool_call_id = None\<rparr> # converted))"

definition result_messages :: "runtime \<Rightarrow> final_message \<Rightarrow> ConversationMessage list" where
  "result_messages rt finalMessage =
     \<lparr>role = ''assistant'', content = Some (fm_content finalMessage),
      tool_calls = fm_tool_calls finalMessage, tool_call_id = None, timestamp = Some (iso_now rt)\<rparr>
     # (case fm_toolResults finalMessage of
          None \<Rightarrow> []
        | Some results \<Rightarrow>
            map (\<lambda>kv. \<lparr>role = ''tool'', content = Some (serialize None (snd kv)), tool_calls = None,
                        tool_call_id = Some (fst kv), timestamp = Some (iso_now rt)\<rparr>) results)"

definition processRequest ::
  "AgentService \<Rightarrow> runtime \<Rightarrow> AgentRequest \<Rightarrow> agent_state \<Rightarrow> response \<times> agent_state"
where
  "processRequest svc rt request st =
     (case openai svc of
        None \<Rightarrow>
          (Fresh \<lparr>res_message = guidance,
                  res_conversationHistory = history_of request,
                  res_sessionId = session_of rt request,
                  res_toolCalls = None,
                  res_completed = True\<rparr>, st)
      | Some client \<Rightarrow>
          (let sessionId = session_of rt request;
               looked = (if cacheEnabled svc
                         then (case getCachedResponse (JSON_parse rt) (generateCacheKey request) (redisService st) of
                                 (r, rs) \<Rightarrow> (r, st\<lparr>redisService := rs\<rparr>))
                         else (JNull, st));
               st1 = snd looked
           in if cacheEnabled svc \<and> truthy (fst looked)
              then (FromCache (obj_set ''sessionId'' (JStr sessionId) (spread (fst looked))), st1)
              else
                (let request1 = pushed request [userMessage rt request]
                 in case initial_messages svc rt request of
                      Inl e \<Rightarrow> (Fresh (error_response rt request1 e), st1)
                    | Inr messages \<Rightarrow>
                        (case processConversationWithTools svc rt messages (userIp request) st1 of
                           (Inl e, st2) \<Rightarrow> (Fresh (error_response rt request1 e), st2)
                         | (Inr finalMessage, st2) \<Rightarrow>
                             (let conversationHistory =
                                    history_of request @ [userMessage rt request]
                                      @ result_messages rt finalMessage;
                                  request2 = pushed request1 (result_messages rt finalMessage);
                                  response =
                                    \<lparr>res_message = (if fm_content finalMessage \<noteq> []
                                                     then fm_content finalMessage
                                                     else ''I apologize, but I couldn't process your request.''),
                                     res_conversationHistory = conversationHistory,
                                     res_sessionId = sessionId,
                                     res_toolCalls = fm_tool_calls finalMessage,
                                     res_completed = True\<rparr>
                              in (Fresh response,
                                  if cacheEnabled svc
                                  then st2\<lparr>redisService :=
                                             snd (setCachedResponse (generateCacheKey request2)
                                                    (response_json response) (cacheTtlSeconds svc)
                                                    (redisService st2))\<rparr>
                                  else st2))))))"

subsection \<open>The mock path: \<open>processMockResponse\<close>\<close>

definition fallbackMessage :: string where
  "fallbackMessage = ''I'm a mock response! The system is currently in mock mode for testing. This would normally be a real AI response.''"

definition load_mock :: "runtime \<Rightarrow> json" where
  "load_mock rt =
     (case mock_file rt of
        None \<Rightarrow> JObj [(''message'', JStr fallbackMessage)]
      | Some text \<Rightarrow>
          (case JSON_parse rt text of
             Inl e \<Rightarrow> JObj [(''message'', JStr fallbackMessage)]
           | Inr v \<Rightarrow> v))"

text \<open>
  The callback of \<open>filter\<close>: reading \<open>role\<close> of \<open>null\<close> throws; a message counts when
  its role is not \<open>user\<close> and its content is truthy.
\<close>

definition mock_wanted :: "json \<Rightarrow> js_error + bool" where
  "mock_wanted msg =
     (if msg = JNull then Inl (TypeError ''Cannot read properties of null (reading 'role')'')
      else Inr (get_prop msg ''role'' \<noteq> Some (JStr ''user'') \<and> truthy_opt (get_prop msg ''content'')))"

definition mock_messages :: "json \<Rightarrow> js_error + json list" where
  "mock_messages mockData =
     (if mockData = JNull
      then Inl (TypeError ''Cannot read properties of null (reading 'conversationHistory')'')
      else
        (case get_prop mockData ''conversationHistory'' of
           Some (JArr msgs) \<Rightarrow>
             (case map_throwing mock_wanted msgs of
                Inl e \<Rightarrow> Inl e
              | Inr flags \<Rightarrow>
                  Inr (rev (map (\<lambda>p. the (get_prop (fst p) ''content''))
                              (filter snd (zip msgs flags)))))
         | _ \<Rightarrow> Inr []))"

text \<open>
  The events of one message, one per index below its \<open>length\<close>: the characters of a
  string, the elements of an array, the indexed properties of an object whose \<open>length\<close>
  is a number, and none for any other content.
\<close>

fun stream_message :: "json \<Rightarrow> StreamingUpdate list" where
  "stream_message (JStr s) = map (\<lambda>c. event EContentStream [c]) s"
| "stream_message (JArr xs) = map (\<lambda>x. (event EContentStream [])\<lparr>ev_content := Some x\<rparr>) xs"
| "stream_message (JObj kvs) =
     (case map_of kvs ''length'' of
        Some (JNum n) \<Rightarrow>
          map (\<lambda>i. (event EContentStream [])\<lparr>ev_content := map_of kvs (show_radix 10 (int i))\<rparr>)
            [0..<nat n]
      | _ \<Rightarrow> [])"
| "stream_message v = []"

fun stream_messages :: "json list \<Rightarrow> StreamingUpdate list" where
  "stream_messages [] = []"
| "stream_messages [m] = stream_message m"
| "stream_messages (m # ms) =
     stream_message m @ event EContentStream [CHR 0x0A, CHR 0x0A, CHR ''-'', CHR ''-'', CHR ''-'', CHR 0x0A, CHR 0x0A]
       # stream_messages ms"

definition processMockResponse :: "runtime \<Rightarrow> StreamingUpdate list \<times> js_error option" where
  "processMockResponse rt =
     (case mock_messages (load_mock rt) of
        Inl e \<Rightarrow> ([], Some e)
      | Inr found \<Rightarrow>
          (let messagesToStream = (if found = [] then [JStr fallbackMessage] else found)
           in (stream_messages messagesToStream
                 @ [event EComplete ''Mock conversation completed successfully''], None)))"

subsection \<open>\<open>processRequestStream\<close>\<close>

text \<open>The body of the \<open>try\<close>: the events yielded, and the error that left it, if any.\<close>

definition stream_body ::
  "AgentService \<Rightarrow> runtime \<Rightarrow> AgentRequest \<Rightarrow> agent_state
     \<Rightarrow> StreamingUpdate list \<times> js_error option \<times> agent_state"
where
  "stream_body svc rt request st =
     (case openai svc of
        None \<Rightarrow> ([event EContent guidance, event EComplete guidance], None, st)
      | Some client \<Rightarrow>
          if config_get (configService svc) ''MOCK_RESPONSES_ENABLED'' ''false'' = ''true''
          then (case processMockResponse rt of (evs, failure) \<Rightarrow> (evs, failure, st))
          else
            (case initial_messages svc rt request of
               Inl e \<Rightarrow> ([], Some e, st)
             | Inr messages \<Rightarrow>
                 (case processConversationWithToolsStream svc rt messages (userIp request) st of
                    (evs, Some e, st') \<Rightarrow> (evs, Some e, st')
                  | (evs, None, st') \<Rightarrow>
                      (evs @ [event EComplete ''Conversation completed successfully''], None, st'))))"

definition processRequestStream ::
  "AgentService \<Rightarrow> runtime \<Rightarrow> AgentRequest \<Rightarrow> agent_state \<Rightarrow> StreamingUpdate list \<times> agent_state"
where
  "processRequestStream svc rt request st =
     (case stream_body svc rt request st of
        (evs, None, st') \<Rightarrow> (evs, st')
      | (evs, Some e, st') \<Rightarrow>
          (evs @ [(event EComplete (error_text e))\<lparr>ev_data := Some (JObj [(''error'', JStr (message_of e))])\<rparr>],
           st'))"

section \<open>Scenarios\<close>

text \<open>
  Concrete environments on which the theorems about the agent are instantiated: a
  service configured by defaults around a given client, registry and configuration; a
  run-time environment whose \<open>JSON.parse\<close> knows the texts the scenarios use; and the
  state before the first request, without a cache store.
\<close>

definition scenario_service :: "openai_client option \<Rightarrow> ToolRegistry \<Rightarrow> config \<Rightarrow> AgentService" where
  "scenario_service client registry cfg =
     \<lparr>openai = client,
      systemPrompt = ''You are a helpful assistant.'',
      toolDefinitions = [],
      isReasoningModel = False,
      reasoningEffort = ''medium'',
      maxCompletionTokens = Some 4096,
      cacheEnabled = False,
      cacheTtlSeconds = Some 300,
      toolCacheEnabled = False,
      toolCacheTtlSeconds = Some 600,
      configService = cfg,
      toolRegistry = registry\<rparr>"

definition scenario_runtime :: runtime where
  "scenario_runtime =
     \<lparr>JSON_parse = (\<lambda>text. if text = ''{}'' then Inr (JObj [])
                          else if text = ''{\"to\":\"EUR\"}'' then Inr (JObj [(''to'', JStr ''EUR'')])
                          else if text = ''{\"rate\":2}'' then Inr (JObj [(''rate'', JNum 2)])
                          else Inl (SyntaxError ''Unexpected token'')),
      iso_now = ''2025-01-01T00:00:00.000Z'',
      new_session_id = ''session_1'',
      thinking_ms = 0,
      thinking_text = ''a few seconds'',
      mock_file = None\<rparr>"

definition scenario_state :: agent_state where
  "scenario_state = \<lparr>redisService = \<lparr>isEnabled = False, redis = None\<rparr>, requests = [], executions = []\<rparr>"

text \<open>The call of a tool that no registry of the scenarios knows.\<close>

definition weather_call :: tool_call where
  "weather_call = \<lparr>tc_id = ''call_1'', tc_name = ''get_weather'', tc_arguments = ''{}''\<rparr>"

text \<open>
  A completion service that asks for \<open>weather_call\<close> in its first turn and answers with
  a text in every later turn, buffered and streamed.
\<close>

definition asks_then_answers :: openai_client where
  "asks_then_answers =
     \<lparr>create = (\<lambda>n params.
         if n = 0 then Inr \<lparr>c_content = None, c_tool_calls = Some [weather_call]\<rparr>
         else Inr \<lparr>c_content = Some ''Sorry, I cannot look that up.'', c_tool_calls = None\<rparr>),
      create_stream = (\<lambda>n params.
         if n = 0
         then Inr ([\<lparr>delta_content = None,
                      delta_tool_calls = Some [\<lparr>d_index = Some 0, d_id = Some ''call_1'',
                                                 d_name = Some ''get_weather'', d_arguments = Some ''{}''\<rparr>],
                      usage_completion_tokens = None, usage_reasoning_tokens = None\<rparr>], None)
         else Inr ([\<lparr>delta_content = Some ''Sorry.'', delta_tool_calls = None,
                      usage_completion_tokens = None, usage_reasoning_tokens = None\<rparr>], None))\<rparr>"

text \<open>
  A completion service that in every turn writes a text and asks for \<open>weather_call\<close>
  again.
\<close>

definition always_asks :: openai_client where
  "always_asks =
     \<lparr>create = (\<lambda>n params. Inr \<lparr>c_content = Some ''Let me check.'', c_tool_calls = Some [weather_call]\<rparr>),
      create_stream = (\<lambda>n params.
         Inr ([\<lparr>delta_content = Some ''Let me check.'',
                 delta_tool_calls = Some [\<lparr>d_index = Some 0, d_id = Some ''call_1'',
                                            d_name = Some ''get_weather'', d_arguments = Some ''{}''\<rparr>],
                 usage_completion_tokens = None, usage_reasoning_tokens = None\<rparr>], None))\<rparr>"

text \<open>A completion service that is overloaded: a buffered call fails, a streamed call fails after its first chunk.\<close>

definition overloaded_service :: openai_client where
  "overloaded_service =
     \<lparr>create = (\<lambda>n params. Inl (APIError (Some ''overloaded_error'') (Some 529) ''Overloaded'')),
      create_stream = (\<lambda>n params.
         Inr ([\<lparr>delta_content = Some ''Hel'', delta_tool_calls = None,
                 usage_completion_tokens = None, usage_reasoning_tokens = None\<rparr>],
              Some (APIError (Some ''overloaded_error'') (Some 529) ''Overloaded'')))\<rparr>"

text \<open>A first request of a session.\<close>

definition weather_request :: AgentRequest where
  "weather_request =
     \<lparr>message = ''What is the weather in Paris?'', conversationHistory = None, sessionId = None,
      userIp = None, memories = None\<rparr>"

text \<open>A completion service that in every turn asks for \<open>weather_call\<close> and writes no text.\<close>

definition asks_silently :: openai_client where
  "asks_silently =
     \<lparr>create = (\<lambda>n params. Inr \<lparr>c_content = None, c_tool_calls = Some [weather_call]\<rparr>),
      create_stream = (\<lambda>n params.
         Inr ([\<lparr>delta_content = None,
                 delta_tool_calls = Some [\<lparr>d_index = Some 0, d_id = Some ''call_1'',
                                            d_name = Some ''get_weather'', d_arguments = Some ''{}''\<rparr>],
                 usage_completion_tokens = None, usage_reasoning_tokens = None\<rparr>], None))\<rparr>"

text \<open>
  Scenarios for the cache of tool results: a service with tool caching switched on and
  one registered tool, a state with a reachable and empty cache store, two calls of the
  tool with the same arguments, a tool that answers with a rate and a tool that
  answers with an error object.
\<close>

definition caching_service :: "tool \<Rightarrow> AgentService" where
  "caching_service t =
     (scenario_service None [t_name t \<mapsto> t] Map.empty)\<lparr>toolCacheEnabled := True\<rparr>"

definition connected_state :: agent_state where
  "connected_state =
     \<lparr>redisService = \<lparr>isEnabled = True,
                        redis = Some \<lparr>srv_entries = Map.empty, srv_clock = 0, srv_faults = []\<rparr>\<rparr>,
      requests = [], executions = []\<rparr>"

definition rate_call :: tool_call where
  "rate_call = \<lparr>tc_id = ''call_1'', tc_name = ''get_rate'', tc_arguments = ''{\"to\":\"EUR\"}''\<rparr>"

definition rate_call_again :: tool_call where
  "rate_call_again = \<lparr>tc_id = ''call_2'', tc_name = ''get_rate'', tc_arguments = ''{\"to\":\"EUR\"}''\<rparr>"

definition rate_tool :: tool where
  "rate_tool =
     \<lparr>t_name = ''get_rate'', t_description = ''Exchange rate'',
      t_execute = (\<lambda>n args. Inr (JObj [(''rate'', JNum 2)]))\<rparr>"

definition refusing_tool :: tool where
  "refusing_tool =
     \<lparr>t_name = ''get_rate'', t_description = ''Exchange rate'',
      t_execute = (\<lambda>n args. Inr (JObj [(''error'', JStr ''Rate limit exceeded'')]))\<rparr>"

section \<open>Basic facts about the store and the adapter\<close>


lemma on_server_connected:
  "isEnabled rs \<Longrightarrow> redis rs = Some srv \<Longrightarrow>
   on_server rs d body = (fst (body srv), rs\<lparr>redis := Some (snd (body srv))\<rparr>)"
  by (simp add: on_server_def connected_def split: prod.splits)

lemma command_no_faults: "srv_faults s = [] \<Longrightarrow> command f s = f s"
  by (simp add: command_def)


lemma live_upd_same:
  "live (s\<lparr>srv_entries := (srv_entries s)(k \<mapsto> (v, e))\<rparr>) k
     = (case e of None \<Rightarrow> Some (v, e) | Some t \<Rightarrow> if srv_clock s < t then Some (v, e) else None)"
  by (simp add: live_def split: option.splits)

lemma live_upd_other:
  "k' \<noteq> k \<Longrightarrow> live (s\<lparr>srv_entries := (srv_entries s)(k := x)\<rparr>) k' = live s k'"
  by (simp add: live_def split: option.splits prod.splits)

lemma live_Some_expiry: "live s k = Some (v, Some t) \<Longrightarrow> srv_clock s < t"
  by (auto simp: live_def split: option.splits if_splits)

lemma live_Some_entry: "live s k = Some x \<Longrightarrow> srv_entries s k = Some x"
  by (auto simp: live_def split: option.splits if_splits)

lemma live_advance_None: "live s k = None \<Longrightarrow> 0 \<le> d \<Longrightarrow> live (advance d s) k = None"
  by (auto simp: live_def advance_def split: option.splits if_splits)

lemma live_advance_Some:
  "live s k = Some (v, Some t) \<Longrightarrow> srv_clock s + d < t \<Longrightarrow> live (advance d s) k = Some (v, Some t)"
  by (auto simp: live_def advance_def split: option.splits if_splits)

lemma live_expired: "srv_entries s k = Some (v, Some t) \<Longrightarrow> t \<le> srv_clock s \<Longrightarrow> live s k = None"
  by (simp add: live_def)

lemma poke_simps [simp]:
  "srv_clock (poke k x s) = srv_clock s"
  "srv_faults (poke k x s) = srv_faults s"
  "srv_entries (poke k x s) k = x"
  "k' \<noteq> k \<Longrightarrow> srv_entries (poke k x s) k' = srv_entries s k'"
  "srv_clock (advance d s) = srv_clock s + d"
  "srv_faults (advance d s) = srv_faults s"
  "srv_entries (advance d s) = srv_entries s"
  by (simp_all add: poke_def advance_def)

lemma poke_poke_same: "poke k x (poke k y s) = poke k x s"
  by (simp add: poke_def)

lemma poke_commute: "k \<noteq> k' \<Longrightarrow> poke k x (poke k' y s) = poke k' y (poke k x s)"
  by (simp add: poke_def fun_upd_twist)

lemma advance_poke: "advance d (poke k x s) = poke k x (advance d s)"
  by (simp add: poke_def advance_def)

lemma advance_advance: "advance d (advance e s) = advance (e + d) s"
  by (simp add: advance_def)

lemma live_poke_same:
  "live (poke k (Some (v, Some t)) s) k = (if srv_clock s < t then Some (v, Some t) else None)"
  by (simp add: live_def)

lemma live_poke_other: "k' \<noteq> k \<Longrightarrow> live (poke k x s) k' = live s k'"
  by (simp add: live_def split: option.splits prod.splits)

lemma live_faults [simp]: "live (s\<lparr>srv_faults := fs\<rparr>) k = live s k"
  by (simp add: live_def split: option.splits prod.splits)

lemma stored_faults [simp]: "stored (s\<lparr>srv_faults := fs\<rparr>) k = stored s k"
  by (simp add: stored_def)

text \<open>A read of a cache on a store that answers.\<close>

lemma read_cached_no_faults:
  assumes "srv_faults srv = []"
  shows "read_cached parse k srv
       = (fst (read_path parse (stored srv k)),
          if snd (read_path parse (stored srv k)) then without k srv else srv)"
proof -
  have sentinel: "startsWith ''[object Object]'' ''[object ''"
    by (simp add: startsWith_def)
  show ?thesis
    using assms sentinel
    by (auto simp: read_cached_def read_path_def redis_get_def redis_del_def purge_def
          command_no_faults split: json.splits sum.splits)
qed

section \<open>The tool cache key\<close>

lemma map_of_map_snd: "map_of (map (\<lambda>kv. (fst kv, f (snd kv))) kvs) k = map_option f (map_of kvs k)"
  by (induction kvs) auto

lemma map_of_filter_fst: "k \<in> S \<Longrightarrow> map_of (filter (\<lambda>kv. fst kv \<in> S) kvs) k = map_of kvs k"
  by (induction kvs) auto

lemma map_filter_cong_set: "(\<And>k. k \<in> set K \<Longrightarrow> f k = g k) \<Longrightarrow> List.map_filter f K = List.map_filter g K"
  by (induction K) (auto simp: List.map_filter_simps split: option.split)

lemma serialize_prune: "serialize (Some K) (prune (set K) v) = serialize (Some K) v"
proof (induction v)
  case (JArr xs)
  then show ?case by (simp cong: map_cong)
next
  case (JObj kvs)
  have ih: "serialize (Some K) (prune (set K) (snd kv)) = serialize (Some K) (snd kv)"
    if "kv \<in> set kvs" for kv
    using JObj [OF that, of "snd kv"] by (cases kv) simp
  have eq: "map (\<lambda>kv. (fst kv, serialize (Some K) (snd kv)))
              (map (\<lambda>kv. (fst kv, prune (set K) (snd kv))) (filter (\<lambda>kv. fst kv \<in> set K) kvs))
          = filter (\<lambda>kv. fst kv \<in> set K) (map (\<lambda>kv. (fst kv, serialize (Some K) (snd kv))) kvs)"
    using ih by (induction kvs) auto
  show ?case
    unfolding prune.simps serialize.simps Let_def eq option.case
    by (rule arg_cong [where f = "\<lambda>x. ''{'' @ join '','' x @ ''}''"], rule map_filter_cong_set)
       (simp add: map_of_filter_fst)
qed simp_all

lemma serialize_obj_agree:
  assumes "\<And>k. k \<in> set K \<Longrightarrow> map_option (prune (set K)) (map_of a k) = map_option (prune (set K)) (map_of b k)"
  shows "serialize (Some K) (JObj a) = serialize (Some K) (JObj b)"
proof -
  have "map_option (serialize (Some K)) (map_of a k) = map_option (serialize (Some K)) (map_of b k)"
    if "k \<in> set K" for k
  proof -
    have "map_option (serialize (Some K)) (map_of a k)
        = map_option (serialize (Some K)) (map_option (prune (set K)) (map_of a k))"
      by (simp add: option.map_comp comp_def serialize_prune)
    also have "\<dots> = map_option (serialize (Some K)) (map_option (prune (set K)) (map_of b k))"
      using assms [OF that] by simp
    also have "\<dots> = map_option (serialize (Some K)) (map_of b k)"
      by (simp add: option.map_comp comp_def serialize_prune)
    finally show ?thesis .
  qed
  then show ?thesis
    unfolding serialize.simps Let_def option.case map_of_map_snd
    by (intro arg_cong [where f = "\<lambda>x. ''{'' @ join '','' x @ ''}''"] map_filter_cong_set) simp
qed

lemma sort_keys_eq:
  assumes "distinct (map fst a)" "distinct (map fst b)" "set (map fst a) = set (map fst b)"
  shows "sort (remdups (map fst a)) = sort (remdups (map fst (b :: (string \<times> json) list)))"
proof -
  have "sorted (sort (map fst a))" "sorted (sort (map fst b))"
    "distinct (sort (map fst a))" "distinct (sort (map fst b))"
    "set (sort (map fst a)) = set (sort (map fst b))"
    using assms by simp_all
  then have "sort (map fst a) = sort (map fst b)"
    by (intro sorted_distinct_set_unique)
  then show ?thesis
    using assms by (simp add: distinct_remdups_id)
qed


lemma generateToolCacheKey_agree:
  assumes "distinct (map fst a)" and "distinct (map fst b)"
    and "set (map fst a) = set (map fst b)"
    and "\<And>k. k \<in> set (map fst a) \<Longrightarrow>
           map_option (prune (set (map fst a))) (map_of a k)
         = map_option (prune (set (map fst a))) (map_of b k)"
  shows "generateToolCacheKey n (JObj a) = generateToolCacheKey n (JObj b)"
proof -
  let ?K = "sort (remdups (map fst a))"
  have K: "sort (remdups (map fst b)) = ?K"
    using sort_keys_eq [OF assms(1-3)] by simp
  have S: "set ?K = set (map fst a)" by simp
  have "serialize (Some ?K) (JObj a) = serialize (Some ?K) (JObj b)"
    by (rule serialize_obj_agree) (use assms(4) S in simp)
  then show ?thesis
    by (simp add: generateToolCacheKey_def K)
qed

text \<open>
  Claim C10. The cache key of an argument object is a function of its top-level
  key/value mapping alone, so the insertion order of the keys does not matter; and since
  the sorted top-level key names are the replacer of \<open>JSON.stringify\<close>, two argument
  objects with the same keys whose values agree once every nested property named outside
  the top-level keys is removed (at any depth) receive the same key. The call never
  throws on an object.
\<close>

theorem generateToolCacheKey_stable:
  assumes "distinct (map fst a)" and "distinct (map fst b)"
  shows "(map_of a = map_of b \<longrightarrow>
            generateToolCacheKey n (JObj a) = generateToolCacheKey n (JObj b))
       \<and> (set (map fst a) = set (map fst b)
            \<and> (\<forall>k \<in> set (map fst a).
                  map_option (prune (set (map fst a))) (map_of a k)
                = map_option (prune (set (map fst a))) (map_of b k)) \<longrightarrow>
            generateToolCacheKey n (JObj a) = generateToolCacheKey n (JObj b))
       \<and> (\<exists>h. generateToolCacheKey n (JObj a) = Inr h)"
proof (intro conjI impI)
  assume eq: "map_of a = map_of b"
  then have "dom (map_of a) = dom (map_of b)" by simp
  then have "set (map fst a) = set (map fst b)" by (simp add: dom_map_of_conv_image_fst)
  then show "generateToolCacheKey n (JObj a) = generateToolCacheKey n (JObj b)"
    using assms eq by (intro generateToolCacheKey_agree) simp_all
next
  assume "set (map fst a) = set (map fst b)
            \<and> (\<forall>k \<in> set (map fst a).
                  map_option (prune (set (map fst a))) (map_of a k)
                = map_option (prune (set (map fst a))) (map_of b k))"
  then have keys: "set (map fst a) = set (map fst b)"
    and vals: "\<And>k. k \<in> set (map fst a) \<Longrightarrow>
                 map_option (prune (set (map fst a))) (map_of a k)
               = map_option (prune (set (map fst a))) (map_of b k)"
    by blast+
  show "generateToolCacheKey n (JObj a) = generateToolCacheKey n (JObj b)"
    by (rule generateToolCacheKey_agree [OF assms keys vals])
next
  show "\<exists>h. generateToolCacheKey n (JObj a) = Inr h"
    by (simp add: generateToolCacheKey_def)
qed

theorem generateToolCacheKey_stable_witness:
  "generateToolCacheKey ''convert_currency''
     (JObj [(''to'', JStr ''EUR''), (''amount'', JObj [(''value'', JNum 100), (''to'', JNum 1)])])
 = generateToolCacheKey ''convert_currency''
     (JObj [(''amount'', JObj [(''value'', JNum 7), (''to'', JNum 1)]), (''to'', JStr ''EUR'')])
 \<and> generateToolCacheKey ''convert_currency''
     (JObj [(''to'', JStr ''EUR''), (''amount'', JObj [(''value'', JNum 100), (''to'', JNum 1)])])
 = Inr ''10b61e61''"
proof (rule conjI)
  show "generateToolCacheKey ''convert_currency''
     (JObj [(''to'', JStr ''EUR''), (''amount'', JObj [(''value'', JNum 100), (''to'', JNum 1)])])
 = generateToolCacheKey ''convert_currency''
     (JObj [(''amount'', JObj [(''value'', JNum 7), (''to'', JNum 1)]), (''to'', JStr ''EUR'')])"
    using generateToolCacheKey_stable
      [of "[(''to'', JStr ''EUR''), (''amount'', JObj [(''value'', JNum 100), (''to'', JNum 1)])]"
          "[(''amount'', JObj [(''value'', JNum 7), (''to'', JNum 1)]), (''to'', JStr ''EUR'')]"
          "''convert_currency''"]
    by (simp add: insert_commute)
next
  show "generateToolCacheKey ''convert_currency''
     (JObj [(''to'', JStr ''EUR''), (''amount'', JObj [(''value'', JNum 100), (''to'', JNum 1)])])
 = Inr ''10b61e61''"
    by code_simp
qed

section \<open>The read path of the caches\<close>

text \<open>
  Claim C6, as amended. On an enabled service whose store answers, a read of either
  cache (\<open>getCachedResponse\<close>, \<open>getCachedToolResult\<close>) returns what \<open>read_path\<close>
  describes for the value the store holds under the key, and removes the key exactly
  when \<open>read_path\<close> says so: a missing key or an empty (falsy) value is a miss and nothing
  is deleted; a value that is not a string, a string starting with \<open>[object \<close> and a
  string that does not parse are deleted and give a miss; otherwise the parsed value is
  returned and the store is left as it is.
\<close>

theorem cache_read_path:
  assumes "isEnabled rs" and "redis rs = Some srv" and "srv_faults srv = []"
  shows "getCachedResponse parse cacheKey rs
           = (fst (read_path parse (stored srv cacheKey)),
              rs\<lparr>redis := Some (if snd (read_path parse (stored srv cacheKey))
                                 then without cacheKey srv else srv)\<rparr>)
       \<and> getCachedToolResult parse toolName argsHash rs
           = (fst (read_path parse (stored srv (''tool_result:'' @ toolName @ '':'' @ argsHash))),
              rs\<lparr>redis := Some (if snd (read_path parse
                                           (stored srv (''tool_result:'' @ toolName @ '':'' @ argsHash)))
                                 then without (''tool_result:'' @ toolName @ '':'' @ argsHash) srv
                                 else srv)\<rparr>)"
  using assms
  by (simp add: getCachedResponse_def getCachedToolResult_def on_server_connected
        read_cached_no_faults)

text \<open>
  Witness: the store is seeded with the sentinel under a response key and with an
  unparseable string under a tool key; both reads miss and both keys are gone.
\<close>

theorem cache_read_path_witness:
  "getCachedResponse (Inl \<circ> SyntaxError) ''agent_response:0:0''
     \<lparr>isEnabled = True,
      redis = Some \<lparr>srv_entries = [''agent_response:0:0'' \<mapsto> (RVal (JStr ''[object Object]''), Some 300),
                                    ''tool_result:t:0'' \<mapsto> (RVal (JStr ''{oops''), Some 600)],
                     srv_clock = 0, srv_faults = []\<rparr>\<rparr>
   = (JNull,
      \<lparr>isEnabled = True,
       redis = Some \<lparr>srv_entries = [''tool_result:t:0'' \<mapsto> (RVal (JStr ''{oops''), Some 600)],
                      srv_clock = 0, srv_faults = []\<rparr>\<rparr>)
 \<and> getCachedToolResult (Inl \<circ> SyntaxError) ''t'' ''0''
     \<lparr>isEnabled = True,
      redis = Some \<lparr>srv_entries = [''agent_response:0:0'' \<mapsto> (RVal (JStr ''[object Object]''), Some 300),
                                    ''tool_result:t:0'' \<mapsto> (RVal (JStr ''{oops''), Some 600)],
                     srv_clock = 0, srv_faults = []\<rparr>\<rparr>
   = (JNull,
      \<lparr>isEnabled = True,
       redis = Some \<lparr>srv_entries = [''agent_response:0:0'' \<mapsto> (RVal (JStr ''[object Object]''), Some 300)],
                      srv_clock = 0, srv_faults = []\<rparr>\<rparr>)"
  using cache_read_path
    [of "\<lparr>isEnabled = True,
          redis = Some \<lparr>srv_entries = [''agent_response:0:0'' \<mapsto> (RVal (JStr ''[object Object]''), Some 300),
                                        ''tool_result:t:0'' \<mapsto> (RVal (JStr ''{oops''), Some 600)],
                         srv_clock = 0, srv_faults = []\<rparr>\<rparr>"
        "\<lparr>srv_entries = [''agent_response:0:0'' \<mapsto> (RVal (JStr ''[object Object]''), Some 300),
                          ''tool_result:t:0'' \<mapsto> (RVal (JStr ''{oops''), Some 600)],
          srv_clock = 0, srv_faults = []\<rparr>"
        "Inl \<circ> SyntaxError" "''agent_response:0:0''" "''t''" "''0''"]
  by (simp add: read_path_def stored_def live_def startsWith_def without_def fun_upd_twist)

text \<open>
  The claim as stated fails on the empty string: it does not parse, the read is a miss,
  but the key is not deleted (the store is unchanged).
\<close>

theorem cache_read_empty_string_counterexample:
  "(Inl \<circ> SyntaxError) '''' = Inl (SyntaxError '''')
 \<and> getCachedResponse (Inl \<circ> SyntaxError) ''agent_response:0:0''
       \<lparr>isEnabled = True,
        redis = Some \<lparr>srv_entries = [''agent_response:0:0'' \<mapsto> (RVal (JStr ''''), None)],
                       srv_clock = 0, srv_faults = []\<rparr>\<rparr>
    = (JNull,
       \<lparr>isEnabled = True,
        redis = Some \<lparr>srv_entries = [''agent_response:0:0'' \<mapsto> (RVal (JStr ''''), None)],
                       srv_clock = 0, srv_faults = []\<rparr>\<rparr>)"
  by (simp add: getCachedResponse_def read_cached_def on_server_def connected_def
        redis_get_def command_def stored_def live_def)

section \<open>Failures of the store\<close>


























section \<open>Rate admission\<close>

lemmas guard_defs = canActivate_def checkRateLimit_def getBlockInfo_def incrementRateLimit_def
  getRateLimitInfo_def setBlock_def promise_all2_def redis_exists_def redis_ttl_def
  redis_incr_def redis_get_def redis_setex_def redis_expire_def num_le_def num_sub_def
  num_add_def num_mul_def Math_max0_def Let_def

text \<open>One admission check, symbolically, on a store that answers.\<close>

lemma step_blocked:
  assumes "enabled g" and "isEnabled rs" and "redis rs = Some srv" and "srv_faults srv = []"
    and "live srv (''blocked:'' @ getClientIdentifier request) = Some (v, Some t)"
  shows "canActivate g now request rs
       = (Refused (too_many_requests (Some (t - srv_clock srv))), rs)"
  using assms
  by (simp add: guard_defs on_server_connected command_no_faults)

lemma step_fresh:
  assumes "enabled g" and "maxRequests g = Some N" and "windowSeconds g = Some W"
    and "blockDurationSeconds g = Some B" and "0 < W" and "0 < B"
    and "isEnabled rs" and "redis rs = Some srv" and "srv_faults srv = []"
    and "live srv (''blocked:'' @ getClientIdentifier request) = None"
    and "live srv (''rate_limit:'' @ getClientIdentifier request) = None"
  shows "canActivate g now request rs
       = (if 1 \<le> N
          then (Activated (if valid_time (Some (now + W * 1000)) then Some (Some N, Some (N - 1), now + W * 1000) else None),
                rs\<lparr>redis := Some (poke (''rate_limit:'' @ getClientIdentifier request)
                   (Some (RInt 1, Some (srv_clock srv + W))) srv)\<rparr>)
          else (Refused (too_many_requests (Some B)),
                rs\<lparr>redis := Some (poke (''blocked:'' @ getClientIdentifier request)
                   (Some (RVal (JStr ''1''), Some (srv_clock srv + B)))
                   (poke (''rate_limit:'' @ getClientIdentifier request)
                      (Some (RInt 1, Some (srv_clock srv + W))) srv))\<rparr>))"
  using assms
  by (simp add: guard_defs on_server_connected command_no_faults live_upd_same live_upd_other poke_def)

lemma step_count:
  assumes "enabled g" and "maxRequests g = Some N" and "windowSeconds g = Some W"
    and "blockDurationSeconds g = Some B" and "0 < W" and "0 < B"
    and "isEnabled rs" and "redis rs = Some srv" and "srv_faults srv = []"
    and "live srv (''blocked:'' @ getClientIdentifier request) = None"
    and "live srv (''rate_limit:'' @ getClientIdentifier request) = Some (RInt n, Some t)"
    and "1 \<le> n" and "n < 2 ^ 63 - 1"
  shows "canActivate g now request rs
       = (if n + 1 \<le> N
          then (Activated (if valid_time (Some (now + (t - srv_clock srv) * 1000)) then Some (Some N, Some (N - (n + 1)), now + (t - srv_clock srv) * 1000) else None),
                rs\<lparr>redis := Some (poke (''rate_limit:'' @ getClientIdentifier request)
                   (Some (RInt (n + 1), Some t)) srv)\<rparr>)
          else (Refused (too_many_requests (Some B)),
                rs\<lparr>redis := Some (poke (''blocked:'' @ getClientIdentifier request)
                   (Some (RVal (JStr ''1''), Some (srv_clock srv + B)))
                   (poke (''rate_limit:'' @ getClientIdentifier request)
                      (Some (RInt (n + 1), Some t)) srv))\<rparr>))"
  using assms live_Some_expiry [OF assms(11)]
  by (simp add: guard_defs on_server_connected command_no_faults live_upd_same live_upd_other stored_def poke_def)

text \<open>The requests of one client inside the window opened by its first request.\<close>

lemma sum_list_nonneg_fst: "\<forall>a \<in> set ar. (0::int) \<le> fst a \<Longrightarrow> 0 \<le> sum_list (map fst ar)"
  by (induction ar) auto

lemma serve_in_window:
  assumes G: "enabled g" "maxRequests g = Some N" "windowSeconds g = Some W"
    "blockDurationSeconds g = Some B" "0 < W" "0 < B" "N < 2 ^ 63 - 1"
  shows "\<lbrakk>isEnabled rs; redis rs = Some srv; srv_faults srv = [];
          live srv (''blocked:'' @ getClientIdentifier request) = None;
          live srv (''rate_limit:'' @ getClientIdentifier request) = Some (RInt n, Some t);
          1 \<le> n; n \<le> N; length ar = nat (N - n) + 1; \<forall>a \<in> set ar. 0 \<le> fst a;
          srv_clock srv + sum_list (map fst ar) < t\<rbrakk>
     \<Longrightarrow> \<exists>outs. serve g request ar rs
           = (outs, rs\<lparr>redis := Some
                (poke (''blocked:'' @ getClientIdentifier request)
                   (Some (RVal (JStr ''1''), Some (srv_clock srv + sum_list (map fst ar) + B)))
                   (poke (''rate_limit:'' @ getClientIdentifier request)
                      (Some (RInt (N + 1), Some t))
                      (advance (sum_list (map fst ar)) srv)))\<rparr>)
         \<and> length outs = length ar \<and> list_all admitted (butlast outs)
         \<and> last outs = Refused (too_many_requests (Some B))"
proof (induction ar arbitrary: rs srv n)
  case Nil
  then show ?case by simp
next
  case (Cons a ar)
  let ?rl = "''rate_limit:'' @ getClientIdentifier request"
  let ?bl = "''blocked:'' @ getClientIdentifier request"
  let ?d = "fst a"
  let ?srv0 = "advance ?d srv"
  let ?rs0 = "elapse ?d rs"
  have d: "0 \<le> ?d" and rest: "\<forall>a \<in> set ar. 0 \<le> fst a" using Cons.prems(9) by auto
  have sum_rest: "0 \<le> sum_list (map fst ar)" using rest by (rule sum_list_nonneg_fst)
  have in_window: "srv_clock srv + ?d < t" using Cons.prems(10) sum_rest by simp
  have rs0: "isEnabled ?rs0" "redis ?rs0 = Some ?srv0" "srv_faults ?srv0 = []"
    using Cons.prems(1-3) by (simp_all add: elapse_def)
  have bl0: "live ?srv0 ?bl = None" using Cons.prems(4) d by (rule live_advance_None)
  have rl0: "live ?srv0 ?rl = Some (RInt n, Some t)"
    using Cons.prems(5) in_window by (rule live_advance_Some)
  have n_small: "n < 2 ^ 63 - 1" using Cons.prems(7) G(7) by linarith
  note step = step_count [OF G(1-6) rs0 bl0 rl0 Cons.prems(6) n_small, of "snd a"]
  have upd: "\<And>x. ?rs0\<lparr>redis := Some x\<rparr> = rs\<lparr>redis := Some x\<rparr>" by (simp add: elapse_def)
  show ?case
  proof (cases "n + 1 \<le> N")
    case True
    let ?srv1 = "poke ?rl (Some (RInt (n + 1), Some t)) ?srv0"
    let ?rs1 = "rs\<lparr>redis := Some ?srv1\<rparr>"
    let ?o = "Activated (if valid_time (Some (snd a + (t - srv_clock ?srv0) * 1000)) then Some (Some N, Some (N - (n + 1)), snd a + (t - srv_clock ?srv0) * 1000) else None)"
    have act: "canActivate g (snd a) request ?rs0 = (?o, ?rs1)"
      using step True by (simp only: upd if_True)
    have rs1: "isEnabled ?rs1" "redis ?rs1 = Some ?srv1" "srv_faults ?srv1 = []"
      using Cons.prems(1) rs0(3) by simp_all
    have bl1: "live ?srv1 ?bl = None" using bl0 by (simp add: live_poke_other)
    have rl1: "live ?srv1 ?rl = Some (RInt (n + 1), Some t)"
      using in_window by (simp add: live_poke_same)
    have len: "length ar = nat (N - (n + 1)) + 1" using Cons.prems(8) True by simp
    have win: "srv_clock ?srv1 + sum_list (map fst ar) < t"
      using Cons.prems(10) by simp
    have n1: "1 \<le> n + 1" using Cons.prems(6) by simp
    let ?final1 = "?rs1\<lparr>redis := Some
                (poke ?bl (Some (RVal (JStr ''1''), Some (srv_clock ?srv1 + sum_list (map fst ar) + B)))
                   (poke ?rl (Some (RInt (N + 1), Some t)) (advance (sum_list (map fst ar)) ?srv1)))\<rparr>"
    let ?final = "rs\<lparr>redis := Some
                (poke ?bl (Some (RVal (JStr ''1''), Some (srv_clock srv + sum_list (map fst (a # ar)) + B)))
                   (poke ?rl (Some (RInt (N + 1), Some t)) (advance (sum_list (map fst (a # ar))) srv)))\<rparr>"
    from Cons.IH [OF rs1 bl1 rl1 n1 True len rest win]
    obtain outs where outs:
      "serve g request ar ?rs1 = (outs, ?final1)"
      "length outs = length ar" "list_all admitted (butlast outs)"
      "last outs = Refused (too_many_requests (Some B))"
      by blast
    have ne: "outs \<noteq> []" using outs(2) len by auto
    have same: "?final1 = ?final"
      by (simp add: advance_poke advance_advance poke_poke_same add.assoc)
    have "serve g request (a # ar) rs
        = (case canActivate g (snd a) request ?rs0 of
             (x, rs1) \<Rightarrow> (case serve g request ar rs1 of (as, rs2) \<Rightarrow> (x # as, rs2)))"
      by simp
    also have "\<dots> = (case serve g request ar ?rs1 of (as, rs2) \<Rightarrow> (?o # as, rs2))"
      by (simp only: act prod.case)
    also have "\<dots> = (?o # outs, ?final1)"
      by (simp only: outs(1) prod.case)
    also have "\<dots> = (?o # outs, ?final)"
      by (simp only: same)
    finally have run: "serve g request (a # ar) rs = (?o # outs, ?final)" .
    have butlast: "list_all admitted (butlast (?o # outs))"
      and last: "last (?o # outs) = Refused (too_many_requests (Some B))"
      and length: "length (?o # outs) = length (a # ar)"
      using outs(2-4) ne by simp_all
    show ?thesis
      by (rule exI [of _ "?o # outs"]) (intro conjI run butlast last length)
  next
    case False
    then have nN: "n = N" using Cons.prems(7) by simp
    then have nil: "ar = []" using Cons.prems(8) by simp
    let ?final = "rs\<lparr>redis := Some
                (poke ?bl (Some (RVal (JStr ''1''), Some (srv_clock srv + sum_list (map fst (a # ar)) + B)))
                   (poke ?rl (Some (RInt (N + 1), Some t)) (advance (sum_list (map fst (a # ar))) srv)))\<rparr>"
    have act: "canActivate g (snd a) request ?rs0 = (Refused (too_many_requests (Some B)), ?final)"
      using step False nN nil by (simp add: upd)
    have "serve g request (a # ar) rs
        = (case canActivate g (snd a) request ?rs0 of
             (x, rs1) \<Rightarrow> (case serve g request [] rs1 of (as, rs2) \<Rightarrow> (x # as, rs2)))"
      using nil by simp
    also have "\<dots> = ([Refused (too_many_requests (Some B))], ?final)"
      by (simp only: act prod.case serve.simps)
    finally have run: "serve g request (a # ar) rs = ([Refused (too_many_requests (Some B))], ?final)" .
    show ?thesis
      by (rule exI [of _ "[Refused (too_many_requests (Some B))]"]) (simp add: run [unfolded nil] nil del: serve.simps)
  qed
qed

text \<open>
  An admission check reads and writes the two keys of its client only: it commutes with
  any change of another entry of the store.
\<close>

lemma command_poke:
  assumes "\<And>s. f (poke k x s) = (fst (f s), poke k x (snd (f s)))"
  shows "command f (poke k x s) = (fst (command f s), poke k x (snd (command f s)))"
proof -
  have upd: "\<And>bs. (poke k x s)\<lparr>srv_faults := bs\<rparr> = poke k x (s\<lparr>srv_faults := bs\<rparr>)"
    by (simp add: poke_def)
  show ?thesis
    by (cases "srv_faults s") (simp_all add: command_def upd assms)
qed

lemma entries_poke:
  "k' \<noteq> k \<Longrightarrow> (poke k x s)\<lparr>srv_entries := (srv_entries (poke k x s))(k' := v)\<rparr>
     = poke k x (s\<lparr>srv_entries := (srv_entries s)(k' := v)\<rparr>)"
  by (simp add: poke_def fun_upd_twist)

lemma stored_poke_other: "k' \<noteq> k \<Longrightarrow> stored (poke k x s) k' = stored s k'"
  by (simp add: stored_def live_poke_other)

lemma redis_exists_poke:
  "k' \<noteq> k \<Longrightarrow> redis_exists k' (poke k x s) = (fst (redis_exists k' s), poke k x (snd (redis_exists k' s)))"
  unfolding redis_exists_def by (rule command_poke) (simp add: live_poke_other)

lemma redis_ttl_poke:
  "k' \<noteq> k \<Longrightarrow> redis_ttl k' (poke k x s) = (fst (redis_ttl k' s), poke k x (snd (redis_ttl k' s)))"
  unfolding redis_ttl_def
  by (rule command_poke) (simp add: live_poke_other split: option.splits prod.splits)

lemma redis_get_poke:
  "k' \<noteq> k \<Longrightarrow> redis_get k' (poke k x s) = (fst (redis_get k' s), poke k x (snd (redis_get k' s)))"
  unfolding redis_get_def by (rule command_poke) (simp add: stored_poke_other)

lemma redis_incr_poke:
  "k' \<noteq> k \<Longrightarrow> redis_incr k' (poke k x s) = (fst (redis_incr k' s), poke k x (snd (redis_incr k' s)))"
  unfolding redis_incr_def
  by (rule command_poke)
     (simp add: live_poke_other entries_poke Let_def split: option.splits prod.splits)

lemma redis_expire_poke:
  "k' \<noteq> k \<Longrightarrow> redis_expire k' secs (poke k x s)
     = (fst (redis_expire k' secs s), poke k x (snd (redis_expire k' secs s)))"
  unfolding redis_expire_def
  by (rule command_poke)
     (simp add: live_poke_other entries_poke split: option.splits prod.splits)

lemma redis_setex_poke:
  "k' \<noteq> k \<Longrightarrow> redis_setex k' secs v (poke k x s)
     = (fst (redis_setex k' secs v s), poke k x (snd (redis_setex k' secs v s)))"
  unfolding redis_setex_def
  by (rule command_poke) (simp add: entries_poke split: option.splits)

lemma on_server_poke:
  assumes "\<And>srv. body (poke k x srv) = (fst (body srv), poke k x (snd (body srv)))"
  shows "on_server (poke_service k x rs) d body
       = (fst (on_server rs d body), poke_service k x (snd (on_server rs d body)))"
  by (cases "redis rs")
     (simp_all add: on_server_def connected_def poke_service_def assms split_beta)

lemma promise_all2_poke:
  assumes "\<And>s. f (poke k x s) = (fst (f s), poke k x (snd (f s)))"
    and "\<And>s. h (poke k x s) = (fst (h s), poke k x (snd (h s)))"
  shows "promise_all2 f h (poke k x s)
       = (fst (promise_all2 f h s), poke k x (snd (promise_all2 f h s)))"
  by (simp add: promise_all2_def assms split_beta split: sum.splits)

lemma getBlockInfo_poke:
  "''blocked:'' @ i \<noteq> k \<Longrightarrow> getBlockInfo i (poke_service k x rs)
     = (fst (getBlockInfo i rs), poke_service k x (snd (getBlockInfo i rs)))"
  unfolding getBlockInfo_def
  by (rule on_server_poke)
     (simp add: Let_def promise_all2_poke redis_exists_poke redis_ttl_poke split_beta
        split: sum.splits)

lemma incrementRateLimit_poke:
  "''rate_limit:'' @ i \<noteq> k \<Longrightarrow> incrementRateLimit i w (poke_service k x rs)
     = (fst (incrementRateLimit i w rs), poke_service k x (snd (incrementRateLimit i w rs)))"
  unfolding incrementRateLimit_def
  by (rule on_server_poke)
     (simp add: Let_def redis_incr_poke redis_expire_poke split_beta split: sum.splits)

lemma getRateLimitInfo_poke:
  "''rate_limit:'' @ i \<noteq> k \<Longrightarrow> getRateLimitInfo i (poke_service k x rs)
     = (fst (getRateLimitInfo i rs), poke_service k x (snd (getRateLimitInfo i rs)))"
  unfolding getRateLimitInfo_def
  by (rule on_server_poke)
     (simp add: Let_def promise_all2_poke redis_get_poke redis_ttl_poke split_beta
        split: sum.splits)

lemma setBlock_poke:
  "''blocked:'' @ i \<noteq> k \<Longrightarrow> setBlock i b (poke_service k x rs)
     = (fst (setBlock i b rs), poke_service k x (snd (setBlock i b rs)))"
  unfolding setBlock_def
  by (rule on_server_poke) (simp add: redis_setex_poke)

lemma checkRateLimit_poke:
  assumes "''blocked:'' @ i \<noteq> k" and "''rate_limit:'' @ i \<noteq> k"
  shows "checkRateLimit g now i (poke_service k x rs)
       = (fst (checkRateLimit g now i rs), poke_service k x (snd (checkRateLimit g now i rs)))"
  using assms
  by (simp add: checkRateLimit_def getBlockInfo_poke incrementRateLimit_poke
        getRateLimitInfo_poke split_beta Let_def split: sum.splits)

lemma canActivate_poke:
  assumes "''blocked:'' @ getClientIdentifier request \<noteq> k"
    and "''rate_limit:'' @ getClientIdentifier request \<noteq> k"
  shows "canActivate g now request (poke_service k x rs)
       = (fst (canActivate g now request rs), poke_service k x (snd (canActivate g now request rs)))"
  using assms
  by (simp add: canActivate_def checkRateLimit_poke setBlock_poke split_beta Let_def
        split: sum.splits option.splits)

lemma serve_from_fresh:
  assumes G: "enabled g" "maxRequests g = Some N" "windowSeconds g = Some W"
    "blockDurationSeconds g = Some B" "0 < W" "0 < B" "N < 2 ^ 63 - 1" "0 \<le> N"
    and S: "isEnabled rs" "redis rs = Some srv" "srv_faults srv = []"
    and fresh: "live srv (''blocked:'' @ getClientIdentifier request) = None"
      "live srv (''rate_limit:'' @ getClientIdentifier request) = None"
    and ar: "length ar = nat N + 1" "\<forall>a \<in> set ar. 0 \<le> fst a" "sum_list (map fst (tl ar)) < W"
  shows "\<exists>outs. serve g request ar rs
           = (outs, rs\<lparr>redis := Some
                (poke (''blocked:'' @ getClientIdentifier request)
                   (Some (RVal (JStr ''1''), Some (srv_clock srv + sum_list (map fst ar) + B)))
                   (poke (''rate_limit:'' @ getClientIdentifier request)
                      (Some (RInt (N + 1), Some (srv_clock srv + fst (hd ar) + W)))
                      (advance (sum_list (map fst ar)) srv)))\<rparr>)
         \<and> length outs = length ar \<and> list_all admitted (butlast outs)
         \<and> last outs = Refused (too_many_requests (Some B))"
proof -
  let ?rl = "''rate_limit:'' @ getClientIdentifier request"
  let ?bl = "''blocked:'' @ getClientIdentifier request"
  obtain a ar' where ar_def: "ar = a # ar'" using ar(1) by (cases ar) auto
  let ?d = "fst a"
  let ?srv0 = "advance ?d srv"
  let ?rs0 = "elapse ?d rs"
  have d: "0 \<le> ?d" and rest: "\<forall>a \<in> set ar'. 0 \<le> fst a" using ar(2) ar_def by auto
  have rs0: "isEnabled ?rs0" "redis ?rs0 = Some ?srv0" "srv_faults ?srv0 = []"
    using S by (simp_all add: elapse_def)
  have bl0: "live ?srv0 ?bl = None" using fresh(1) d by (rule live_advance_None)
  have rl0: "live ?srv0 ?rl = None" using fresh(2) d by (rule live_advance_None)
  note step = step_fresh [OF G(1-6) rs0 bl0 rl0, of "snd a"]
  have upd: "\<And>x. ?rs0\<lparr>redis := Some x\<rparr> = rs\<lparr>redis := Some x\<rparr>" by (simp add: elapse_def)
  let ?final = "rs\<lparr>redis := Some
                (poke ?bl (Some (RVal (JStr ''1''), Some (srv_clock srv + sum_list (map fst ar) + B)))
                   (poke ?rl (Some (RInt (N + 1), Some (srv_clock srv + fst (hd ar) + W)))
                      (advance (sum_list (map fst ar)) srv)))\<rparr>"
  show ?thesis
  proof (cases "1 \<le> N")
    case True
    let ?t = "srv_clock srv + ?d + W"
    let ?srv1 = "poke ?rl (Some (RInt 1, Some ?t)) ?srv0"
    let ?rs1 = "rs\<lparr>redis := Some ?srv1\<rparr>"
    let ?o = "Activated (if valid_time (Some (snd a + W * 1000)) then Some (Some N, Some (N - 1), snd a + W * 1000) else None)"
    have act: "canActivate g (snd a) request ?rs0 = (?o, ?rs1)"
      using step True by (simp add: upd)
    have rs1: "isEnabled ?rs1" "redis ?rs1 = Some ?srv1" "srv_faults ?srv1 = []"
      using S(1) rs0(3) by simp_all
    have bl1: "live ?srv1 ?bl = None" using bl0 by (simp add: live_poke_other)
    have rl1: "live ?srv1 ?rl = Some (RInt 1, Some ?t)"
      using G(5) by (simp add: live_poke_same)
    have len: "length ar' = nat (N - 1) + 1" using ar(1) ar_def True by simp
    have win: "srv_clock ?srv1 + sum_list (map fst ar') < ?t"
      using ar(3) ar_def by simp
    let ?final1 = "?rs1\<lparr>redis := Some
                (poke ?bl (Some (RVal (JStr ''1''), Some (srv_clock ?srv1 + sum_list (map fst ar') + B)))
                   (poke ?rl (Some (RInt (N + 1), Some ?t)) (advance (sum_list (map fst ar')) ?srv1)))\<rparr>"
    from serve_in_window [OF G(1-7) rs1 bl1 rl1 _ True len rest win]
    obtain outs where outs:
      "serve g request ar' ?rs1 = (outs, ?final1)"
      "length outs = length ar'" "list_all admitted (butlast outs)"
      "last outs = Refused (too_many_requests (Some B))"
      by auto
    have ne: "outs \<noteq> []" using outs(2) len by auto
    have same: "?final1 = ?final"
      by (simp add: ar_def advance_poke advance_advance poke_poke_same add.assoc)
    have "serve g request ar rs
        = (case canActivate g (snd a) request ?rs0 of
             (x, rs1) \<Rightarrow> (case serve g request ar' rs1 of (as, rs2) \<Rightarrow> (x # as, rs2)))"
      by (simp add: ar_def)
    also have "\<dots> = (case serve g request ar' ?rs1 of (as, rs2) \<Rightarrow> (?o # as, rs2))"
      by (simp only: act prod.case)
    also have "\<dots> = (?o # outs, ?final1)"
      by (simp only: outs(1) prod.case)
    also have "\<dots> = (?o # outs, ?final)"
      by (simp only: same)
    finally have run: "serve g request ar rs = (?o # outs, ?final)" .
    have butlast: "list_all admitted (butlast (?o # outs))"
      and last: "last (?o # outs) = Refused (too_many_requests (Some B))"
      and length: "length (?o # outs) = length ar"
      using outs(2-4) ne by (simp_all add: ar_def)
    show ?thesis
      by (rule exI [of _ "?o # outs"]) (intro conjI run butlast last length)
  next
    case False
    then have N0: "N = 0" using G(8) by simp
    then have nil: "ar' = []" using ar(1) ar_def by simp
    have act: "canActivate g (snd a) request ?rs0 = (Refused (too_many_requests (Some B)), ?final)"
      using step False N0 nil by (simp add: upd ar_def)
    have "serve g request ar rs
        = (case canActivate g (snd a) request ?rs0 of
             (x, rs1) \<Rightarrow> (case serve g request [] rs1 of (as, rs2) \<Rightarrow> (x # as, rs2)))"
      using nil by (simp add: ar_def)
    also have "\<dots> = ([Refused (too_many_requests (Some B))], ?final)"
      by (simp only: act prod.case serve.simps)
    finally have run: "serve g request ar rs = ([Refused (too_many_requests (Some B))], ?final)" .
    show ?thesis
      by (rule exI [of _ "[Refused (too_many_requests (Some B))]"])
         (use run in \<open>simp add: ar_def nil del: serve.simps\<close>)
  qed
qed

text \<open>
  Claim C3, as amended. Rate limiting is enabled with \<open>maxRequests = N\<close>, window
  \<open>W > 0\<close> and block duration \<open>B > 0\<close>; the store answers; the client has no live
  counter and no live block; its \<open>N + 1\<close> requests arrive with non-negative delays, all
  after the first within \<open>W\<close> seconds of it. Then: the first \<open>N\<close> requests are admitted
  and the last is refused with the too-many-requests exception carrying
  \<open>retryAfter = B\<close>; afterwards the block entry expires \<open>B\<close> seconds after the last
  request and the counter holds \<open>N + 1\<close> with the expiry set by the first request alone
  (first arrival time plus \<open>W\<close>); while the block lasts every request of the client is
  refused with the remaining seconds; once the block has elapsed and the window has
  expired too (always so when \<open>B \<ge> W\<close>), and \<open>N \<ge> 1\<close>, the next request is admitted;
  and the outcome of a request from any other identifier is the same as if this client had
  sent nothing.
\<close>

theorem rate_admission:
  assumes G: "enabled g" "maxRequests g = Some N" "windowSeconds g = Some W"
    "blockDurationSeconds g = Some B" "0 < W" "0 < B" "N < 2 ^ 63 - 1" "0 \<le> N"
    and S: "isEnabled rs" "redis rs = Some srv" "srv_faults srv = []"
    and fresh: "live srv (''blocked:'' @ getClientIdentifier request) = None"
      "live srv (''rate_limit:'' @ getClientIdentifier request) = None"
    and ar: "length arrivals = nat N + 1" "\<forall>a \<in> set arrivals. 0 \<le> fst a"
      "sum_list (map fst (tl arrivals)) < W"
  shows "length (fst (serve g request arrivals rs)) = nat N + 1
       \<and> list_all admitted (butlast (fst (serve g request arrivals rs)))
       \<and> last (fst (serve g request arrivals rs)) = Refused (too_many_requests (Some B))
       \<and> snd (serve g request arrivals rs)
           = rs\<lparr>redis := Some
                (poke (''blocked:'' @ getClientIdentifier request)
                   (Some (RVal (JStr ''1''), Some (srv_clock srv + sum_list (map fst arrivals) + B)))
                   (poke (''rate_limit:'' @ getClientIdentifier request)
                      (Some (RInt (N + 1), Some (srv_clock srv + fst (hd arrivals) + W)))
                      (advance (sum_list (map fst arrivals)) srv)))\<rparr>
       \<and> (\<forall>d now. 0 \<le> d \<and> d < B \<longrightarrow>
             fst (canActivate g now request (elapse d (snd (serve g request arrivals rs))))
               = Refused (too_many_requests (Some (B - d))))
       \<and> (\<forall>d now. B \<le> d \<and> W \<le> sum_list (map fst (tl arrivals)) + d \<and> 1 \<le> N \<longrightarrow>
             admitted (fst (canActivate g now request (elapse d (snd (serve g request arrivals rs))))))
       \<and> (\<forall>other now. getClientIdentifier other \<noteq> getClientIdentifier request \<longrightarrow>
             fst (canActivate g now other (snd (serve g request arrivals rs)))
               = fst (canActivate g now other
                        (rs\<lparr>redis := Some (advance (sum_list (map fst arrivals)) srv)\<rparr>)))"
proof -
  let ?rl = "''rate_limit:'' @ getClientIdentifier request"
  let ?bl = "''blocked:'' @ getClientIdentifier request"
  let ?total = "sum_list (map fst arrivals)"
  let ?srvT = "advance ?total srv"
  let ?srvF = "poke ?bl (Some (RVal (JStr ''1''), Some (srv_clock srv + ?total + B)))
                 (poke ?rl (Some (RInt (N + 1), Some (srv_clock srv + fst (hd arrivals) + W))) ?srvT)"
  let ?final = "rs\<lparr>redis := Some ?srvF\<rparr>"
  from serve_from_fresh [OF G S fresh ar]
  obtain outs where outs: "serve g request arrivals rs = (outs, ?final)"
    "length outs = length arrivals" "list_all admitted (butlast outs)"
    "last outs = Refused (too_many_requests (Some B))"
    by blast
  have ne: "arrivals \<noteq> []" using ar(1) by auto
  have total: "?total = fst (hd arrivals) + sum_list (map fst (tl arrivals))"
    using ne by (cases arrivals) simp_all
  have blocked_in_force:
    "fst (canActivate g now request (elapse d ?final)) = Refused (too_many_requests (Some (B - d)))"
    if "0 \<le> d" "d < B" for d now
  proof -
    have e: "isEnabled (elapse d ?final)" "redis (elapse d ?final) = Some (advance d ?srvF)"
      "srv_faults (advance d ?srvF) = []"
      using S by (simp_all add: elapse_def)
    have "live (advance d ?srvF) ?bl
            = Some (RVal (JStr ''1''), Some (srv_clock srv + ?total + B))"
      using that by (simp add: live_def)
    from step_blocked [OF G(1) e this, of now] show ?thesis by simp
  qed
  have resumes: "admitted (fst (canActivate g now request (elapse d ?final)))"
    if "B \<le> d" "W \<le> sum_list (map fst (tl arrivals)) + d" "1 \<le> N" for d now
  proof -
    have e: "isEnabled (elapse d ?final)" "redis (elapse d ?final) = Some (advance d ?srvF)"
      "srv_faults (advance d ?srvF) = []"
      using S by (simp_all add: elapse_def)
    have bl: "live (advance d ?srvF) ?bl = None"
      using that(1) by (simp add: live_def)
    have rl: "live (advance d ?srvF) ?rl = None"
      using that(2) total by (simp add: live_def)
    from step_fresh [OF G(1-6) e bl rl, of now] that(3) show ?thesis by simp
  qed
  have unaffected:
    "fst (canActivate g now other ?final)
       = fst (canActivate g now other (rs\<lparr>redis := Some ?srvT\<rparr>))"
    if "getClientIdentifier other \<noteq> getClientIdentifier request" for other now
  proof -
    have "?final = poke_service ?bl (Some (RVal (JStr ''1''), Some (srv_clock srv + ?total + B)))
                     (poke_service ?rl (Some (RInt (N + 1), Some (srv_clock srv + fst (hd arrivals) + W)))
                        (rs\<lparr>redis := Some ?srvT\<rparr>))"
      by (simp add: poke_service_def)
    then show ?thesis
      using that by (simp add: canActivate_poke)
  qed
  show ?thesis
    unfolding outs(1) fst_conv snd_conv
    using outs(2-4) ar(1) blocked_in_force resumes unaffected
    by (intro conjI allI impI) auto
qed


text \<open>
  The claim as stated fails where it says that admission resumes once the block TTL
  elapses: with \<open>N = 1\<close>, \<open>W = 300\<close> and \<open>B = 10\<close> the block has elapsed after ten
  seconds (\<open>isBlocked\<close> is false) but the counter of the window is still alive, so the
  next request is refused and blocked again.
\<close>

theorem rate_admission_witness:
  "list_all admitted (butlast (fst (serve
            \<lparr>enabled = True, maxRequests = Some 2, windowSeconds = Some 300, blockDurationSeconds = Some 900\<rparr>
            \<lparr>x_forwarded_for = Some (HStr ''203.0.113.7, 10.0.0.1''), x_real_ip = None, req_ip = None, remoteAddress = None\<rparr>
            [(0, 0), (10, 10000), (20, 30000)]
            \<lparr>isEnabled = True, redis = Some \<lparr>srv_entries = Map.empty, srv_clock = 1000, srv_faults = []\<rparr>\<rparr>)))
 \<and> last (fst (serve
            \<lparr>enabled = True, maxRequests = Some 2, windowSeconds = Some 300, blockDurationSeconds = Some 900\<rparr>
            \<lparr>x_forwarded_for = Some (HStr ''203.0.113.7, 10.0.0.1''), x_real_ip = None, req_ip = None, remoteAddress = None\<rparr>
            [(0, 0), (10, 10000), (20, 30000)]
            \<lparr>isEnabled = True, redis = Some \<lparr>srv_entries = Map.empty, srv_clock = 1000, srv_faults = []\<rparr>\<rparr>))
     = Refused (too_many_requests (Some 900))"
  using rate_admission
    [of "\<lparr>enabled = True, maxRequests = Some 2, windowSeconds = Some 300, blockDurationSeconds = Some 900\<rparr>"
        2 300 900
        "\<lparr>isEnabled = True, redis = Some \<lparr>srv_entries = Map.empty, srv_clock = 1000, srv_faults = []\<rparr>\<rparr>"
        "\<lparr>srv_entries = Map.empty, srv_clock = 1000, srv_faults = []\<rparr>"
        "\<lparr>x_forwarded_for = Some (HStr ''203.0.113.7, 10.0.0.1''), x_real_ip = None, req_ip = None, remoteAddress = None\<rparr>"
        "[(0, 0), (10, 10000), (20, 30000)]"]
  by (simp add: live_def del: serve.simps)

theorem block_elapsed_still_refused_counterexample:
  "fst (serve
            \<lparr>enabled = True, maxRequests = Some 1, windowSeconds = Some 300, blockDurationSeconds = Some 10\<rparr>
            \<lparr>x_forwarded_for = None, x_real_ip = None, req_ip = Some ''203.0.113.7'', remoteAddress = None\<rparr>
            [(0, 0), (0, 0), (10, 10000)]
            \<lparr>isEnabled = True, redis = Some \<lparr>srv_entries = Map.empty, srv_clock = 0, srv_faults = []\<rparr>\<rparr>)
     = [Activated (Some (Some 1, Some 0, 300000)),
        Refused (too_many_requests (Some 10)),
        Refused (too_many_requests (Some 10))]
 \<and> fst (isBlocked ''ip:203.0.113.7''
        (elapse 10 (snd (serve
            \<lparr>enabled = True, maxRequests = Some 1, windowSeconds = Some 300, blockDurationSeconds = Some 10\<rparr>
            \<lparr>x_forwarded_for = None, x_real_ip = None, req_ip = Some ''203.0.113.7'', remoteAddress = None\<rparr>
            [(0, 0), (0, 0)]
            \<lparr>isEnabled = True, redis = Some \<lparr>srv_entries = Map.empty, srv_clock = 0, srv_faults = []\<rparr>\<rparr>))))
     = False"
  by code_simp


section \<open>History conversion\<close>

text \<open>The conversion works message by message, up to the first unknown role.\<close>

lemma map_throwing_append:
  "map_throwing f (xs @ ys) =
     (case map_throwing f xs of
        Inl e \<Rightarrow> Inl e
      | Inr a \<Rightarrow> (case map_throwing f ys of Inl e \<Rightarrow> Inl e | Inr b \<Rightarrow> Inr (a @ b)))"
  by (induction xs) (simp_all split: sum.splits)

lemma convert_append:
  "convertConversationToOpenAI (xs @ ys) =
     (case convertConversationToOpenAI xs of
        Inl e \<Rightarrow> Inl e
      | Inr a \<Rightarrow> (case convertConversationToOpenAI ys of Inl e \<Rightarrow> Inl e | Inr b \<Rightarrow> Inr (a @ b)))"
  by (simp add: convertConversationToOpenAI_def map_throwing_append Let_def split: sum.splits)

lemma convert_single:
  "convertConversationToOpenAI [msg] = (if keep (relabel msg) then map_sum id (\<lambda>m. [m]) (to_openai (relabel msg)) else Inr [])"
  by (simp add: convertConversationToOpenAI_def split: sum.splits)

text \<open>
  Claim C7. The conversion of a history is the concatenation of the conversions of its
  messages (when none of them throws), and for a single message: a \<open>data\<close> message is
  converted as the same message with the role \<open>assistant\<close>; a \<open>user\<close> or \<open>tool\<close> message
  is dropped when its content is empty (absent or the empty string) and kept otherwise;
  an \<open>assistant\<close> message is dropped if and only if it has no content and no non-empty
  list of tool calls, and is kept otherwise, an empty content becoming \<open>null\<close>; a
  \<open>system\<close> message always passes through with its content.
\<close>

theorem convertConversationToOpenAI_filters:
  "convertConversationToOpenAI (before @ msg # after) =
     (case convertConversationToOpenAI before of
        Inl e \<Rightarrow> Inl e
      | Inr a \<Rightarrow>
          (case convertConversationToOpenAI [msg] of
             Inl e \<Rightarrow> Inl e
           | Inr m \<Rightarrow>
               (case convertConversationToOpenAI after of Inl e \<Rightarrow> Inl e | Inr b \<Rightarrow> Inr (a @ m @ b))))
 \<and> (role d = ''data'' \<longrightarrow>
      convertConversationToOpenAI [d] = convertConversationToOpenAI [d\<lparr>role := ''assistant''\<rparr>])
 \<and> (role u = ''user'' \<longrightarrow>
      convertConversationToOpenAI [u] =
        Inr (if nonempty (content u)
             then [\<lparr>m_role = ''user'', m_content = content u, m_tool_calls = None, m_tool_call_id = None\<rparr>]
             else []))
 \<and> (role t = ''tool'' \<longrightarrow>
      convertConversationToOpenAI [t] =
        Inr (if nonempty (content t)
             then [\<lparr>m_role = ''tool'', m_content = content t, m_tool_calls = None,
                     m_tool_call_id = tool_call_id t\<rparr>]
             else []))
 \<and> (role a = ''assistant'' \<longrightarrow>
      (convertConversationToOpenAI [a] = Inr []
         \<longleftrightarrow> \<not> nonempty (content a) \<and> (tool_calls a = None \<or> tool_calls a = Some []))
      \<and> (convertConversationToOpenAI [a] \<noteq> Inr [] \<longrightarrow>
           convertConversationToOpenAI [a] =
             Inr [\<lparr>m_role = ''assistant'',
                    m_content = (if nonempty (content a) then content a else None),
                    m_tool_calls = tool_calls a, m_tool_call_id = None\<rparr>]))
 \<and> (role s = ''system'' \<longrightarrow>
      convertConversationToOpenAI [s] =
        Inr [\<lparr>m_role = ''system'', m_content = content s, m_tool_calls = None, m_tool_call_id = None\<rparr>])"
proof (intro conjI impI)
  have "before @ msg # after = before @ [msg] @ after" by simp
  then show "convertConversationToOpenAI (before @ msg # after) =
     (case convertConversationToOpenAI before of
        Inl e \<Rightarrow> Inl e
      | Inr a \<Rightarrow>
          (case convertConversationToOpenAI [msg] of
             Inl e \<Rightarrow> Inl e
           | Inr m \<Rightarrow>
               (case convertConversationToOpenAI after of Inl e \<Rightarrow> Inl e | Inr b \<Rightarrow> Inr (a @ m @ b))))"
    by (simp only: convert_append split: sum.splits) (simp split: sum.splits)
next
  assume "role d = ''data''"
  then show "convertConversationToOpenAI [d] = convertConversationToOpenAI [d\<lparr>role := ''assistant''\<rparr>]"
    by (simp add: convert_single relabel_def)
next
  assume "role u = ''user''"
  then show "convertConversationToOpenAI [u] =
        Inr (if nonempty (content u)
             then [\<lparr>m_role = ''user'', m_content = content u, m_tool_calls = None, m_tool_call_id = None\<rparr>]
             else [])"
    by (simp add: convert_single relabel_def keep_def to_openai_def)
next
  assume "role t = ''tool''"
  then show "convertConversationToOpenAI [t] =
        Inr (if nonempty (content t)
             then [\<lparr>m_role = ''tool'', m_content = content t, m_tool_calls = None,
                     m_tool_call_id = tool_call_id t\<rparr>]
             else [])"
    by (simp add: convert_single relabel_def keep_def to_openai_def)
next
  assume "role a = ''assistant''"
  then show "convertConversationToOpenAI [a] = Inr []
         \<longleftrightarrow> \<not> nonempty (content a) \<and> (tool_calls a = None \<or> tool_calls a = Some [])"
    by (auto simp add: convert_single relabel_def keep_def to_openai_def split: option.splits)
next
  assume "role a = ''assistant''" "convertConversationToOpenAI [a] \<noteq> Inr []"
  then show "convertConversationToOpenAI [a] =
             Inr [\<lparr>m_role = ''assistant'',
                    m_content = (if nonempty (content a) then content a else None),
                    m_tool_calls = tool_calls a, m_tool_call_id = None\<rparr>]"
    by (auto simp add: convert_single relabel_def keep_def to_openai_def split: option.splits if_splits)
next
  assume "role s = ''system''"
  then show "convertConversationToOpenAI [s] =
        Inr [\<lparr>m_role = ''system'', m_content = content s, m_tool_calls = None, m_tool_call_id = None\<rparr>]"
    by (simp add: convert_single relabel_def keep_def to_openai_def)
qed

text \<open>
  Witness: a system message, a user message with empty content and a tool message
  convert to the system and the tool message; a \<open>data\<close> message comes out as an
  assistant message; an assistant message without content and with an empty list of
  tool calls is dropped.
\<close>

theorem convertConversationToOpenAI_filters_witness:
  "convertConversationToOpenAI
     [\<lparr>role = ''system'', content = Some ''Be brief.'', tool_calls = None, tool_call_id = None, timestamp = None\<rparr>,
      \<lparr>role = ''user'', content = Some [], tool_calls = None, tool_call_id = None, timestamp = None\<rparr>,
      \<lparr>role = ''tool'', content = Some ''{}'', tool_calls = None, tool_call_id = Some ''c1'', timestamp = None\<rparr>]
   = Inr [\<lparr>m_role = ''system'', m_content = Some ''Be brief.'', m_tool_calls = None, m_tool_call_id = None\<rparr>,
          \<lparr>m_role = ''tool'', m_content = Some ''{}'', m_tool_calls = None, m_tool_call_id = Some ''c1''\<rparr>]
 \<and> convertConversationToOpenAI
     [\<lparr>role = ''data'', content = Some ''chart'', tool_calls = None, tool_call_id = None, timestamp = None\<rparr>]
   = Inr [\<lparr>m_role = ''assistant'', m_content = Some ''chart'', m_tool_calls = None, m_tool_call_id = None\<rparr>]
 \<and> convertConversationToOpenAI
     [\<lparr>role = ''assistant'', content = None, tool_calls = Some [], tool_call_id = None, timestamp = None\<rparr>]
   = Inr []"
  using convertConversationToOpenAI_filters
    [where before = "[\<lparr>role = ''system'', content = Some ''Be brief.'', tool_calls = None, tool_call_id = None, timestamp = None\<rparr>]"
       and msg = "\<lparr>role = ''user'', content = Some [], tool_calls = None, tool_call_id = None, timestamp = None\<rparr>"
       and after = "[\<lparr>role = ''tool'', content = Some ''{}'', tool_calls = None, tool_call_id = Some ''c1'', timestamp = None\<rparr>]"
       and s = "\<lparr>role = ''system'', content = Some ''Be brief.'', tool_calls = None, tool_call_id = None, timestamp = None\<rparr>"
       and u = "\<lparr>role = ''user'', content = Some [], tool_calls = None, tool_call_id = None, timestamp = None\<rparr>"
       and t = "\<lparr>role = ''tool'', content = Some ''{}'', tool_calls = None, tool_call_id = Some ''c1'', timestamp = None\<rparr>"
       and d = "\<lparr>role = ''data'', content = Some ''chart'', tool_calls = None, tool_call_id = None, timestamp = None\<rparr>"
       and a = "\<lparr>role = ''assistant'', content = Some ''chart'', tool_calls = None, tool_call_id = None, timestamp = None\<rparr>"]
    convertConversationToOpenAI_filters
    [where a = "\<lparr>role = ''assistant'', content = None, tool_calls = Some [], tool_call_id = None, timestamp = None\<rparr>"]
  by (simp add: nonempty_def)

section \<open>Tool calls\<close>

text \<open>Running the calls of a turn, in both loops: a list of calls is run part by part, and a call writes the result of its own id only.\<close>

lemma map_of_obj_set: "map_of (obj_set k v kvs) = (map_of kvs)(k \<mapsto> v)"
  by (induction kvs) (auto simp: fun_upd_twist)




lemma stream_tool_calls_other:
  "i \<notin> tc_id ` set calls \<Longrightarrow>
   map_of (fst (snd (snd (stream_tool_calls svc rt ip (map Some calls) results st)))) i = map_of results i"
proof (induction calls arbitrary: results st)
  case Nil
  then show ?case by simp
next
  case (Cons c calls)
  have i: "i \<noteq> tc_id c" "i \<notin> tc_id ` set calls" using Cons.prems by auto
  have step: "\<And>v st1. map_of (fst (snd (snd (stream_tool_calls svc rt ip (map Some calls)
                  (obj_set (tc_id c) v results) st1)))) i = map_of results i"
    using Cons.IH [OF i(2)] i(1) by (simp add: map_of_obj_set)
  show ?case
  proof (cases "getTool (toolRegistry svc) (tc_name c)")
    case None
    obtain evs f r st' where run: "stream_tool_calls svc rt ip (map Some calls)
        (obj_set (tc_id c) (unknown_tool_result (tc_name c)) results) st = (evs, f, r, st')"
      by (metis prod_cases4)
    from step [of "unknown_tool_result (tc_name c)" st] run None
    show ?thesis by (simp add: Let_def)
  next
    case (Some t)
    obtain outcome st1 where t: "try_tool_call svc rt ip c t st = (outcome, st1)"
      by (cases "try_tool_call svc rt ip c t st")
    let ?v = "case outcome of Inl e \<Rightarrow> tool_error_result (tc_name c) (tc_id c) e | Inr r \<Rightarrow> r"
    obtain evs f r st' where run: "stream_tool_calls svc rt ip (map Some calls)
        (obj_set (tc_id c) ?v results) st1 = (evs, f, r, st')"
      by (metis prod_cases4)
    from step [of ?v st1] run Some t
    show ?thesis by (simp add: Let_def)
  qed
qed





section \<open>Requests without a credential\<close>

lemma onModuleInit_no_key:
  assumes "missing (cfg ''OPENAI_API_KEY'')"
    and "AgentService_onModuleInit cfg client registry prompt_file tools_file = Inr svc"
  shows "openai svc = None"
  using assms by (auto simp: AgentService_onModuleInit_def split: option.splits)

text \<open>
  Claim C4. When \<open>OPENAI_API_KEY\<close> is absent or empty at start-up, the service has no
  client. Then \<open>processRequest\<close> returns the fixed guidance message with
  \<open>completed = true\<close>, the history of the request and its session id (or a new one);
  \<open>processRequestStream\<close> emits a \<open>content\<close> event and then a \<open>complete\<close> event, both
  with the guidance message; the two loops return the guidance at once; and the state is
  unchanged: no completion request is sent (the log \<open>requests\<close> is as before), no tool
  runs and the cache is not touched.
\<close>

theorem no_credential_guidance:
  "missing (cfg ''OPENAI_API_KEY'')
   \<and> AgentService_onModuleInit cfg client registry prompt_file tools_file = Inr svc \<longrightarrow>
     processRequest svc rt request st
       = (Fresh \<lparr>res_message = ''Configure your API key to enable responses (set OPENAI_API_KEY).'',
                 res_conversationHistory = (case conversationHistory request of None \<Rightarrow> [] | Some h \<Rightarrow> h),
                 res_sessionId = (case sessionId request of
                                    None \<Rightarrow> new_session_id rt
                                  | Some s \<Rightarrow> if s = [] then new_session_id rt else s),
                 res_toolCalls = None,
                 res_completed = True\<rparr>, st)
   \<and> processRequestStream svc rt request st
       = ([event EContent ''Configure your API key to enable responses (set OPENAI_API_KEY).'',
           event EComplete ''Configure your API key to enable responses (set OPENAI_API_KEY).''], st)
   \<and> processConversationWithTools svc rt messages ip st
       = (Inr \<lparr>fm_content = ''Configure your API key to enable responses (set OPENAI_API_KEY).'',
               fm_tool_calls = None, fm_toolResults = None\<rparr>, st)
   \<and> processConversationWithToolsStream svc rt messages ip st
       = ([event EContent ''Configure your API key to enable responses (set OPENAI_API_KEY).''], None, st)"
proof (intro impI, elim conjE)
  assume "missing (cfg ''OPENAI_API_KEY'')"
    and "AgentService_onModuleInit cfg client registry prompt_file tools_file = Inr svc"
  then have none: "openai svc = None" by (rule onModuleInit_no_key)
  show "processRequest svc rt request st
       = (Fresh \<lparr>res_message = ''Configure your API key to enable responses (set OPENAI_API_KEY).'',
                 res_conversationHistory = (case conversationHistory request of None \<Rightarrow> [] | Some h \<Rightarrow> h),
                 res_sessionId = (case sessionId request of
                                    None \<Rightarrow> new_session_id rt
                                  | Some s \<Rightarrow> if s = [] then new_session_id rt else s),
                 res_toolCalls = None,
                 res_completed = True\<rparr>, st)
   \<and> processRequestStream svc rt request st
       = ([event EContent ''Configure your API key to enable responses (set OPENAI_API_KEY).'',
           event EComplete ''Configure your API key to enable responses (set OPENAI_API_KEY).''], st)
   \<and> processConversationWithTools svc rt messages ip st
       = (Inr \<lparr>fm_content = ''Configure your API key to enable responses (set OPENAI_API_KEY).'',
               fm_tool_calls = None, fm_toolResults = None\<rparr>, st)
   \<and> processConversationWithToolsStream svc rt messages ip st
       = ([event EContent ''Configure your API key to enable responses (set OPENAI_API_KEY).''], None, st)"
    by (simp add: processRequest_def processRequestStream_def stream_body_def
          processConversationWithTools_def processConversationWithToolsStream_def none guidance_def
          history_of_def session_of_def nonempty_def split: option.splits)
qed

text \<open>Witness: a service started with an empty configuration answers a request with the guidance, on both entry points.\<close>

theorem no_credential_guidance_witness:
  "processRequest (scenario_service None Map.empty Map.empty) scenario_runtime
     \<lparr>message = ''What is the weather in Paris?'', conversationHistory = None, sessionId = None,
      userIp = None, memories = None\<rparr>
     scenario_state
   = (Fresh \<lparr>res_message = ''Configure your API key to enable responses (set OPENAI_API_KEY).'',
             res_conversationHistory = [],
             res_sessionId = ''session_1'',
             res_toolCalls = None,
             res_completed = True\<rparr>, scenario_state)
 \<and> processRequestStream (scenario_service None Map.empty Map.empty) scenario_runtime
     \<lparr>message = ''What is the weather in Paris?'', conversationHistory = None, sessionId = None,
      userIp = None, memories = None\<rparr>
     scenario_state
   = ([event EContent ''Configure your API key to enable responses (set OPENAI_API_KEY).'',
       event EComplete ''Configure your API key to enable responses (set OPENAI_API_KEY).''],
      scenario_state)"
proof -
  have init: "AgentService_onModuleInit Map.empty always_asks Map.empty
      (Some ''You are a helpful assistant.'') (Some [])
    = Inr (scenario_service None Map.empty Map.empty)"
    by (simp add: AgentService_onModuleInit_def scenario_service_def missing_def config_get_def
          isReasoningModelName_def startsWith_def parseInt_def is_space_def digit_of_def Let_def)
  have "missing (Map.empty ''OPENAI_API_KEY'')" by (simp add: missing_def)
  with init no_credential_guidance
    [where cfg = Map.empty and client = always_asks and registry = Map.empty
       and prompt_file = "Some ''You are a helpful assistant.''" and tools_file = "Some []"
       and svc = "scenario_service None Map.empty Map.empty" and rt = scenario_runtime
       and st = scenario_state
       and request = "\<lparr>message = ''What is the weather in Paris?'', conversationHistory = None,
                        sessionId = None, userIp = None, memories = None\<rparr>"]
  show ?thesis by (simp add: scenario_runtime_def)
qed

section \<open>The stream of events\<close>

text \<open>Nothing below \<open>processRequestStream\<close> and the mock path emits a \<open>complete\<close> event.\<close>

lemma process_chunk_no_complete:
  "list_all (\<lambda>e. ev_type e \<noteq> EComplete) (fst (process_chunk svc rt ch acc))"
  by (simp add: process_chunk_def Let_def event_def reasoning_event_def)

lemma process_chunks_no_complete:
  "list_all (\<lambda>e. ev_type e \<noteq> EComplete) (fst (process_chunks svc rt chs acc))"
proof (induction chs arbitrary: acc)
  case Nil
  then show ?case by simp
next
  case (Cons ch chs)
  obtain evs acc1 where c: "process_chunk svc rt ch acc = (evs, acc1)"
    by (cases "process_chunk svc rt ch acc")
  obtain evs' acc2 where cs: "process_chunks svc rt chs acc1 = (evs', acc2)"
    by (cases "process_chunks svc rt chs acc1")
  from process_chunk_no_complete [of svc rt ch acc] Cons.IH [of acc1] c cs
  show ?case by simp
qed

lemma stream_tool_calls_no_complete:
  "list_all (\<lambda>e. ev_type e \<noteq> EComplete) (fst (stream_tool_calls svc rt ip calls results st))"
proof (induction calls arbitrary: results st)
  case Nil
  then show ?case by simp
next
  case (Cons c calls)
  show ?case
  proof (cases c)
    case None
    then show ?thesis by simp
  next
    case (Some tc)
    have step: "\<And>r s. list_all (\<lambda>e. ev_type e \<noteq> EComplete)
        (fst (stream_tool_calls svc rt ip calls r s))"
      by (rule Cons.IH)
    show ?thesis
    proof (cases "getTool (toolRegistry svc) (tc_name tc)")
      case None
      obtain evs f r st' where run: "stream_tool_calls svc rt ip calls
          (obj_set (tc_id tc) (unknown_tool_result (tc_name tc)) results) st = (evs, f, r, st')"
        by (metis prod_cases4)
      from step [of "obj_set (tc_id tc) (unknown_tool_result (tc_name tc)) results" st] run None Some
      show ?thesis by (simp add: Let_def tool_event_def)
    next
      case tool: (Some t)
      obtain outcome st1 where t: "try_tool_call svc rt ip tc t st = (outcome, st1)"
        by (cases "try_tool_call svc rt ip tc t st")
      let ?v = "case outcome of Inl e \<Rightarrow> tool_error_result (tc_name tc) (tc_id tc) e | Inr r \<Rightarrow> r"
      obtain evs f r st' where run: "stream_tool_calls svc rt ip calls
          (obj_set (tc_id tc) ?v results) st1 = (evs, f, r, st')"
        by (metis prod_cases4)
      from step [of "obj_set (tc_id tc) ?v results" st1] run tool Some t
      show ?thesis by (simp add: Let_def tool_event_def)
    qed
  qed
qed

lemma stream_loop_no_complete:
  "list_all (\<lambda>e. ev_type e \<noteq> EComplete)
     (fst (stream_loop svc rt client ip maxIterations iterations currentMessages st))"
proof (induction svc rt client ip maxIterations iterations currentMessages st rule: stream_loop.induct)
  case (1 svc rt client ip maxIterations iterations currentMessages st)
  let ?params = "completionParams svc currentMessages True"
  let ?st1 = "send ?params st"
  let ?started = "if isReasoningModel svc
                  then [reasoning_event EReasoningStart ''Thinking...'' [(''effort'', JStr (reasoningEffort svc))]]
                  else []"
  have started: "list_all (\<lambda>e. ev_type e \<noteq> EComplete) ?started"
    by (simp add: reasoning_event_def event_def)
  show ?case
  proof (cases "num_lt (Some iterations) maxIterations")
    case False
    then show ?thesis by (subst stream_loop.simps) simp
  next
    case True
    show ?thesis
    proof (cases "create_stream client (length (requests st)) ?params")
      case (Inl e)
      then show ?thesis using True started by (subst stream_loop.simps) (simp add: Let_def)
    next
      case (Inr response)
      obtain chunk_events acc where pc: "process_chunks svc rt (fst response)
           \<lparr>acc_content = [], acc_tool_calls = [], acc_reasoningTokens = 0, acc_reasoningComplete = False\<rparr>
           = (chunk_events, acc)"
        by (metis surj_pair)
      have ce: "list_all (\<lambda>e. ev_type e \<noteq> EComplete) chunk_events"
        using process_chunks_no_complete [of svc rt "fst response"
            "\<lparr>acc_content = [], acc_tool_calls = [], acc_reasoningTokens = 0, acc_reasoningComplete = False\<rparr>"]
          pc by simp
      show ?thesis
      proof (cases "snd response")
        case (Some e)
        then show ?thesis using True Inr pc started ce
          by (subst stream_loop.simps) (simp add: Let_def)
      next
        case None
        show ?thesis
        proof (cases "acc_tool_calls acc = []")
          case empty: True
          then show ?thesis using True Inr pc started ce None
            by (subst stream_loop.simps) (simp add: Let_def final_content_event_def event_def)
        next
          case calls: False
          obtain tool_events failure currentToolResults st2 where tc:
            "stream_tool_calls svc rt ip (acc_tool_calls acc) [] ?st1
               = (tool_events, failure, currentToolResults, st2)"
            by (metis prod_cases4)
          have te: "list_all (\<lambda>e. ev_type e \<noteq> EComplete) tool_events"
            using stream_tool_calls_no_complete [of svc rt ip "acc_tool_calls acc" "[]" ?st1] tc by simp
          show ?thesis
          proof (cases failure)
            case thrown: (Some e)
            then show ?thesis using True Inr pc started ce None calls tc te
              by (subst stream_loop.simps) (simp add: Let_def)
          next
            case ok: None
            let ?next = "currentMessages
                   @ [\<lparr>m_role = ''assistant'',
                        m_content = (if acc_content acc \<noteq> [] then Some (acc_content acc) else None),
                        m_tool_calls = Some (map the (acc_tool_calls acc)), m_tool_call_id = None\<rparr>]
                   @ tool_messages (map the (acc_tool_calls acc)) currentToolResults"
            have ih: "list_all (\<lambda>e. ev_type e \<noteq> EComplete)
                (fst (stream_loop svc rt client ip maxIterations (iterations + 1) ?next st2))"
              using "1.IH" [OF True refl refl refl Inr pc [symmetric] None calls tc [symmetric] refl ok refl]
              by simp
            obtain evs exit st3 where rec:
              "stream_loop svc rt client ip maxIterations (iterations + 1) ?next st2 = (evs, exit, st3)"
              by (metis prod_cases3)
            show ?thesis using True Inr pc started ce None calls tc te ok ih rec
              by (subst stream_loop.simps) (simp add: Let_def)
          qed
        qed
      qed
    qed
  qed
qed


lemma processConversationWithToolsStream_no_complete:
  "list_all (\<lambda>e. ev_type e \<noteq> EComplete)
     (fst (processConversationWithToolsStream svc rt messages ip st))"
proof (cases "openai svc")
  case None
  then show ?thesis by (simp add: processConversationWithToolsStream_def event_def)
next
  case (Some client)
  let ?max = "parseInt (config_get (configService svc) ''MAX_ITERATIONS'' ''5'') 0"
  obtain evs exit st' where run: "stream_loop svc rt client ip ?max 0 messages st = (evs, exit, st')"
    by (metis prod_cases3)
  have "list_all (\<lambda>e. ev_type e \<noteq> EComplete) evs"
    using stream_loop_no_complete [of svc rt client ip ?max 0 messages st] run by simp
  then show ?thesis using Some run
    by (cases exit) (simp_all add: processConversationWithToolsStream_def final_content_event_def event_def)
qed

lemma stream_message_no_complete: "list_all (\<lambda>e. ev_type e \<noteq> EComplete) (stream_message m)"
  by (cases m) (auto simp: list_all_iff event_def split: option.splits json.splits)

lemma stream_messages_no_complete: "list_all (\<lambda>e. ev_type e \<noteq> EComplete) (stream_messages ms)"
  by (induction ms rule: stream_messages.induct) (simp_all add: stream_message_no_complete event_def)

text \<open>The body of the \<open>try\<close> either ends with its only \<open>complete\<close> event, or throws without having emitted one.\<close>

lemma stream_body_complete:
  assumes "stream_body svc rt request st = (evs, failure, st')"
  shows "case failure of
           None \<Rightarrow> evs \<noteq> [] \<and> list_all (\<lambda>e. ev_type e \<noteq> EComplete) (butlast evs)
                     \<and> ev_type (last evs) = EComplete \<and> ev_data (last evs) = None
         | Some e \<Rightarrow> list_all (\<lambda>e. ev_type e \<noteq> EComplete) evs"
proof (cases "openai svc")
  case None
  then show ?thesis using assms by (auto simp: stream_body_def event_def)
next
  case (Some client)
  show ?thesis
  proof (cases "config_get (configService svc) ''MOCK_RESPONSES_ENABLED'' ''false'' = ''true''")
    case True
    then show ?thesis using assms Some stream_messages_no_complete
      by (auto simp: stream_body_def processMockResponse_def event_def Let_def split: sum.splits)
  next
    case False
    show ?thesis
    proof (cases "initial_messages svc rt request")
      case (Inl e)
      then show ?thesis using assms Some False by (auto simp: stream_body_def)
    next
      case (Inr messages)
      obtain evs1 failure1 st1 where run:
        "processConversationWithToolsStream svc rt messages (userIp request) st = (evs1, failure1, st1)"
        by (metis prod_cases3)
      have "list_all (\<lambda>e. ev_type e \<noteq> EComplete) evs1"
        using processConversationWithToolsStream_no_complete [of svc rt messages "userIp request" st] run
        by simp
      then show ?thesis using assms Some False Inr run
        by (cases failure1) (auto simp: stream_body_def event_def)
    qed
  qed
qed

text \<open>
  Claim C9. The events of \<open>processRequestStream\<close>, for every service, environment,
  request and state: the sequence is not empty, its last event is a \<open>complete\<close> event,
  and it holds exactly one \<open>complete\<close> event. This covers the path without credential,
  the mock path, the normal path and the error path; the \<open>complete\<close> event carries the
  error in its \<open>data\<close> exactly when the body of the \<open>try\<close> threw. (The loop is a total
  function: the sequence is always finite.)
\<close>

theorem stream_ends_with_one_complete:
  "fst (processRequestStream svc rt request st) \<noteq> []
 \<and> ev_type (last (fst (processRequestStream svc rt request st))) = EComplete
 \<and> length (filter (\<lambda>e. ev_type e = EComplete) (fst (processRequestStream svc rt request st))) = 1
 \<and> (ev_data (last (fst (processRequestStream svc rt request st))) = None
      \<longleftrightarrow> fst (snd (stream_body svc rt request st)) = None)"
proof -
  obtain evs failure st' where body: "stream_body svc rt request st = (evs, failure, st')"
    by (metis prod_cases3)
  have none: "length (filter (\<lambda>e. ev_type e = EComplete) xs) = 0"
    if "list_all (\<lambda>e. ev_type e \<noteq> EComplete) xs" for xs :: "StreamingUpdate list"
    using that by (induction xs) auto
  show ?thesis
  proof (cases failure)
    case None
    with stream_body_complete [OF body]
    have evs: "evs \<noteq> []" "list_all (\<lambda>e. ev_type e \<noteq> EComplete) (butlast evs)"
      "ev_type (last evs) = EComplete" "ev_data (last evs) = None"
      by simp_all
    have "filter (\<lambda>e. ev_type e = EComplete) evs
        = filter (\<lambda>e. ev_type e = EComplete) (butlast evs @ [last evs])"
      using evs(1) by simp
    then have "length (filter (\<lambda>e. ev_type e = EComplete) evs) = 1"
      using none [OF evs(2)] evs(3) by simp
    then show ?thesis using evs None body by (simp add: processRequestStream_def)
  next
    case (Some e)
    with stream_body_complete [OF body]
    have "list_all (\<lambda>e. ev_type e \<noteq> EComplete) evs" by simp
    from none [OF this] show ?thesis using Some body
      by (simp add: processRequestStream_def event_def)
  qed
qed


text \<open>
  Witness: a stream that fails after its first chunk ends with the one \<open>complete\<close> event
  of the error path; a conversation with a tool turn and an answer ends with the one of
  the normal path.
\<close>

theorem stream_ends_with_one_complete_witness:
  "length (filter (\<lambda>e. ev_type e = EComplete)
     (fst (processRequestStream (scenario_service (Some overloaded_service) Map.empty Map.empty)
             scenario_runtime weather_request scenario_state))) = 1
 \<and> fst (processRequestStream (scenario_service (Some overloaded_service) Map.empty Map.empty)
          scenario_runtime weather_request scenario_state)
   = [event EContentStream ''Hel'',
      (event EComplete ''The service is currently overloaded. Please try again in a few moments.'')
        \<lparr>ev_data := Some (JObj [(''error'', JStr ''Overloaded'')])\<rparr>]
 \<and> fst (processRequestStream (scenario_service (Some asks_then_answers) Map.empty Map.empty)
          scenario_runtime weather_request scenario_state)
   = [tool_event EToolStart ''get_weather'' None None None,
      tool_event EToolComplete ''get_weather'' (Some ''Error: Unknown tool get_weather'') None
        (Some (JObj [(''call_1'', JObj [(''error'', JStr ''Unknown tool: get_weather'')])])),
      event EContentStream ''Sorry.'',
      final_content_event ''Sorry.'',
      event EComplete ''Conversation completed successfully'']"
proof (intro conjI)
  show "length (filter (\<lambda>e. ev_type e = EComplete)
     (fst (processRequestStream (scenario_service (Some overloaded_service) Map.empty Map.empty)
             scenario_runtime weather_request scenario_state))) = 1"
    using stream_ends_with_one_complete
      [of "scenario_service (Some overloaded_service) Map.empty Map.empty" scenario_runtime weather_request
          scenario_state]
    by blast
next
  show "fst (processRequestStream (scenario_service (Some overloaded_service) Map.empty Map.empty)
          scenario_runtime weather_request scenario_state)
   = [event EContentStream ''Hel'',
      (event EComplete ''The service is currently overloaded. Please try again in a few moments.'')
        \<lparr>ev_data := Some (JObj [(''error'', JStr ''Overloaded'')])\<rparr>]"
    by code_simp
next
  show "fst (processRequestStream (scenario_service (Some asks_then_answers) Map.empty Map.empty)
          scenario_runtime weather_request scenario_state)
   = [tool_event EToolStart ''get_weather'' None None None,
      tool_event EToolComplete ''get_weather'' (Some ''Error: Unknown tool get_weather'') None
        (Some (JObj [(''call_1'', JObj [(''error'', JStr ''Unknown tool: get_weather'')])])),
      event EContentStream ''Sorry.'',
      final_content_event ''Sorry.'',
      event EComplete ''Conversation completed successfully'']"
    by code_simp
qed

section \<open>The iteration ceiling\<close>

text \<open>Completion requests are sent by the two loops only: running tools leaves the log of requests alone.\<close>

lemma tool_cache_lookup_requests:
  "requests (snd (tool_cache_lookup svc rt toolName toolArgs st)) = requests st"
  by (simp add: tool_cache_lookup_def split: sum.splits prod.splits)

lemma tool_cache_store_requests:
  "requests (tool_cache_store svc toolName toolArgs toolResult st) = requests st"
  by (simp add: tool_cache_store_def split: sum.splits)

lemma invoke_requests: "requests (snd (invoke t args st)) = requests st"
  by (simp add: invoke_def)

lemma try_tool_call_requests:
  "requests (snd (try_tool_call svc rt ip toolCall t st)) = requests st"
proof (cases "JSON_parse rt (tc_arguments toolCall)")
  case (Inl e)
  then show ?thesis by (simp add: try_tool_call_def)
next
  case (Inr toolArgs)
  obtain cached st1 where l: "tool_cache_lookup svc rt (tc_name toolCall) toolArgs st = (cached, st1)"
    by (cases "tool_cache_lookup svc rt (tc_name toolCall) toolArgs st")
  have st1: "requests st1 = requests st"
    using tool_cache_lookup_requests [of svc rt "tc_name toolCall" toolArgs st] l by simp
  obtain r st2 where i: "invoke t (execute_args toolArgs ip) st1 = (r, st2)"
    by (cases "invoke t (execute_args toolArgs ip) st1")
  have st2: "requests st2 = requests st"
    using invoke_requests [of t "execute_args toolArgs ip" st1] i st1 by simp
  show ?thesis using Inr l i st1 st2
    by (cases r) (simp_all add: try_tool_call_def Let_def tool_cache_store_requests)
qed

lemma executeToolCalls_from_requests:
  "requests (snd (executeToolCalls_from svc rt ip calls results st)) = requests st"
proof (induction calls arbitrary: results st)
  case Nil
  then show ?case by simp
next
  case (Cons c calls)
  show ?case
  proof (cases "getTool (toolRegistry svc) (tc_name c)")
    case None
    then show ?thesis using Cons.IH by simp
  next
    case (Some t)
    obtain outcome st1 where t: "try_tool_call svc rt ip c t st = (outcome, st1)"
      by (cases "try_tool_call svc rt ip c t st")
    have "requests st1 = requests st" using try_tool_call_requests [of svc rt ip c t st] t by simp
    then show ?thesis using Some t Cons.IH [of _ st1]
      by (cases outcome) (simp_all add: run_tool_call_def)
  qed
qed

lemma stream_tool_calls_requests:
  "requests (snd (snd (snd (stream_tool_calls svc rt ip calls results st)))) = requests st"
proof (induction calls arbitrary: results st)
  case Nil
  then show ?case by simp
next
  case (Cons c calls)
  show ?case
  proof (cases c)
    case None
    then show ?thesis by simp
  next
    case (Some tc)
    show ?thesis
    proof (cases "getTool (toolRegistry svc) (tc_name tc)")
      case None
      obtain evs f r st' where run: "stream_tool_calls svc rt ip calls
          (obj_set (tc_id tc) (unknown_tool_result (tc_name tc)) results) st = (evs, f, r, st')"
        by (metis prod_cases4)
      from Cons.IH [of "obj_set (tc_id tc) (unknown_tool_result (tc_name tc)) results" st] run None Some
      show ?thesis by (simp add: Let_def)
    next
      case tool: (Some t)
      obtain outcome st1 where t: "try_tool_call svc rt ip tc t st = (outcome, st1)"
        by (cases "try_tool_call svc rt ip tc t st")
      have st1: "requests st1 = requests st" using try_tool_call_requests [of svc rt ip tc t st] t by simp
      let ?v = "case outcome of Inl e \<Rightarrow> tool_error_result (tc_name tc) (tc_id tc) e | Inr r \<Rightarrow> r"
      obtain evs f r st' where run: "stream_tool_calls svc rt ip calls
          (obj_set (tc_id tc) ?v results) st1 = (evs, f, r, st')"
        by (metis prod_cases4)
      from Cons.IH [of "obj_set (tc_id tc) ?v results" st1] run tool Some t st1
      show ?thesis by (simp add: Let_def)
    qed
  qed
qed

text \<open>Every iteration of the streaming loop sends one request; leaving by the ceiling means all were used.\<close>

lemma stream_loop_requests:
  "length (requests (snd (snd (stream_loop svc rt client ip maxIterations iterations currentMessages st))))
     \<le> length (requests st) + (case maxIterations of None \<Rightarrow> 0 | Some m \<Rightarrow> nat (m - iterations))
   \<and> (fst (snd (stream_loop svc rt client ip maxIterations iterations currentMessages st)) = Ceiling \<longrightarrow>
        length (requests (snd (snd (stream_loop svc rt client ip maxIterations iterations currentMessages st))))
          = length (requests st) + (case maxIterations of None \<Rightarrow> 0 | Some m \<Rightarrow> nat (m - iterations)))"
proof (induction svc rt client ip maxIterations iterations currentMessages st rule: stream_loop.induct)
  case (1 svc rt client ip maxIterations iterations currentMessages st)
  let ?params = "completionParams svc currentMessages True"
  let ?st1 = "send ?params st"
  let ?b = "\<lambda>i. (case maxIterations of None \<Rightarrow> 0 | Some m \<Rightarrow> nat (m - i))"
  have st1: "length (requests ?st1) = length (requests st) + 1" by (simp add: send_def)
  show ?case
  proof (cases "num_lt (Some iterations) maxIterations")
    case False
    then show ?thesis
      by (subst (1 2 3) stream_loop.simps) (auto simp: num_lt_def split: option.splits)
  next
    case True
    then have b: "?b iterations = ?b (iterations + 1) + 1"
      by (auto simp: num_lt_def split: option.splits)
    show ?thesis
    proof (cases "create_stream client (length (requests st)) ?params")
      case (Inl e)
      then show ?thesis using True st1 b
        by (subst (1 2 3) stream_loop.simps) (simp add: Let_def)
    next
      case (Inr response)
      obtain chunk_events acc where pc: "process_chunks svc rt (fst response)
           \<lparr>acc_content = [], acc_tool_calls = [], acc_reasoningTokens = 0, acc_reasoningComplete = False\<rparr>
           = (chunk_events, acc)"
        by (metis surj_pair)
      show ?thesis
      proof (cases "snd response")
        case (Some e)
        then show ?thesis using True Inr pc st1 b
          by (subst (1 2 3) stream_loop.simps) (simp add: Let_def)
      next
        case None
        show ?thesis
        proof (cases "acc_tool_calls acc = []")
          case empty: True
          then show ?thesis using True Inr pc st1 b None
            by (subst (1 2 3) stream_loop.simps) (simp add: Let_def)
        next
          case calls: False
          obtain tool_events failure currentToolResults st2 where tc:
            "stream_tool_calls svc rt ip (acc_tool_calls acc) [] ?st1
               = (tool_events, failure, currentToolResults, st2)"
            by (metis prod_cases4)
          have st2: "requests st2 = requests ?st1"
            using stream_tool_calls_requests [of svc rt ip "acc_tool_calls acc" "[]" ?st1] tc by simp
          show ?thesis
          proof (cases failure)
            case thrown: (Some e)
            then show ?thesis using True Inr pc st1 b None calls tc st2
              by (subst (1 2 3) stream_loop.simps) (simp add: Let_def)
          next
            case ok: None
            let ?next = "currentMessages
                   @ [\<lparr>m_role = ''assistant'',
                        m_content = (if acc_content acc \<noteq> [] then Some (acc_content acc) else None),
                        m_tool_calls = Some (map the (acc_tool_calls acc)), m_tool_call_id = None\<rparr>]
                   @ tool_messages (map the (acc_tool_calls acc)) currentToolResults"
            note ih = "1.IH" [OF True refl refl refl Inr pc [symmetric] None calls tc [symmetric] refl ok refl]
            obtain evs exit st3 where rec:
              "stream_loop svc rt client ip maxIterations (iterations + 1) ?next st2 = (evs, exit, st3)"
              by (metis prod_cases3)
            have eq: "stream_loop svc rt client ip maxIterations iterations currentMessages st
                = ((if isReasoningModel svc
                    then [reasoning_event EReasoningStart ''Thinking...'' [(''effort'', JStr (reasoningEffort svc))]]
                    else []) @ chunk_events @ tool_events @ evs, exit, st3)"
              using True Inr pc None calls tc ok rec
              by (subst stream_loop.simps) (simp add: Let_def)
            show ?thesis using ih rec st1 st2 b unfolding eq by simp
          qed
        qed
      qed
    qed
  qed
qed


lemma tool_messages_not_assistant:
  "filter (\<lambda>msg. m_role msg = ''assistant'') (tool_messages tcs currentToolResults) = []"
  by (induction tcs) (simp_all add: tool_messages_def)

text \<open>
  When the buffered loop is left by its ceiling, the last assistant message of the
  conversation is the one of the last completion.
\<close>

lemma tools_loop_ceiling:
  "tools_loop svc rt client ip iterations currentMessages toolResults st = (Ceiling, msgs, results, st')
   \<Longrightarrow> iterations < 5
   \<Longrightarrow> \<exists>m. create client (length (requests st') - 1) (last (requests st')) = Inr m
         \<and> filter (\<lambda>msg. m_role msg = ''assistant'') msgs \<noteq> []
         \<and> m_content (last (filter (\<lambda>msg. m_role msg = ''assistant'') msgs)) = c_content m"
proof (induction svc rt client ip iterations currentMessages toolResults st rule: tools_loop.induct)
  case (1 svc rt client ip iterations currentMessages toolResults st)
  let ?params = "completionParams svc currentMessages False"
  let ?st1 = "send ?params st"
  note run = "1.prems"(1) and small = "1.prems"(2)
  show ?case
  proof (cases "create client (length (requests st)) ?params")
    case (Inl e)
    then show ?thesis using run small by (subst (asm) tools_loop.simps) (simp add: Let_def)
  next
    case (Inr m)
    show ?thesis
    proof (cases "no_tool_calls (c_tool_calls m)")
      case True
      then show ?thesis using run small Inr by (subst (asm) tools_loop.simps) (simp add: Let_def)
    next
      case False
      let ?calls = "the (c_tool_calls m)"
      obtain currentToolResults st2 where ex: "executeToolCalls svc rt ip ?calls ?st1 = (currentToolResults, st2)"
        by (cases "executeToolCalls svc rt ip ?calls ?st1")
      have st2: "requests st2 = requests st @ [?params]"
        using executeToolCalls_from_requests [of svc rt ip ?calls "[]" ?st1] ex
        by (simp add: executeToolCalls_def send_def)
      let ?next = "currentMessages
                     @ [\<lparr>m_role = ''assistant'', m_content = c_content m,
                          m_tool_calls = c_tool_calls m, m_tool_call_id = None\<rparr>]
                     @ tool_messages ?calls currentToolResults"
      let ?results = "merge_results toolResults currentToolResults"
      have rec: "tools_loop svc rt client ip (iterations + 1) ?next ?results st2 = (Ceiling, msgs, results, st')"
        using run small Inr False ex by (subst (asm) tools_loop.simps) (simp add: Let_def)
      show ?thesis
      proof (cases "iterations + 1 < 5")
        case True
        from "1.IH" [OF small refl refl Inr False ex [symmetric] rec True]
        show ?thesis .
      next
        case last: False
        then have "msgs = ?next" and "st' = st2"
          using rec by (subst (asm) tools_loop.simps; simp)+
        then show ?thesis using st2 Inr by (simp add: tool_messages_not_assistant)
      qed
    qed
  qed
qed

text \<open>Every iteration of the buffered loop sends one request.\<close>

lemma tools_loop_requests:
  "length (requests (snd (snd (snd (tools_loop svc rt client ip iterations currentMessages toolResults st)))))
     \<le> length (requests st) + nat (5 - iterations)"
proof (induction svc rt client ip iterations currentMessages toolResults st rule: tools_loop.induct)
  case (1 svc rt client ip iterations currentMessages toolResults st)
  let ?params = "completionParams svc currentMessages False"
  let ?st1 = "send ?params st"
  have st1: "length (requests ?st1) = length (requests st) + 1" by (simp add: send_def)
  show ?case
  proof (cases "iterations < 5")
    case False
    then show ?thesis by (subst tools_loop.simps) simp
  next
    case True
    then have b: "nat (5 - iterations) = nat (5 - (iterations + 1)) + 1" by simp
    show ?thesis
    proof (cases "create client (length (requests st)) ?params")
      case (Inl e)
      then show ?thesis using True st1 by (subst tools_loop.simps) (simp add: Let_def)
    next
      case (Inr m)
      show ?thesis
      proof (cases "no_tool_calls (c_tool_calls m)")
        case none: True
        then show ?thesis using True Inr st1 by (subst tools_loop.simps) (simp add: Let_def)
      next
        case False
        let ?calls = "the (c_tool_calls m)"
        obtain currentToolResults st2 where ex: "executeToolCalls svc rt ip ?calls ?st1 = (currentToolResults, st2)"
          by (cases "executeToolCalls svc rt ip ?calls ?st1")
        have st2: "length (requests st2) = length (requests st) + 1"
          using executeToolCalls_from_requests [of svc rt ip ?calls "[]" ?st1] ex
          by (simp add: executeToolCalls_def send_def)
        from "1.IH" [OF True refl refl Inr False ex [symmetric]] st2 b
        show ?thesis using True Inr False ex by (subst tools_loop.simps) (simp add: Let_def)
      qed
    qed
  qed
qed

text \<open>
  Claim C1, as amended. Iterations are counted by the completion requests sent, one per
  iteration. (1) The streaming loop sends at most as many requests as the integer
  parsed from \<open>MAX_ITERATIONS\<close> (default \<open>5\<close>), and none when that is not a number or
  not positive; in the default configuration both loops send at most five. (2) When the
  streaming loop is left by its ceiling, exactly that many requests were sent and the
  events end with the \<open>content\<close> event of the fixed message, without error. (3) When
  the buffered loop is left by its ceiling, the result is the text of the last
  completion, which is the content of the last assistant message, when it has one, and
  the fixed message otherwise.
\<close>

theorem iteration_ceiling:
  "length (requests (snd (snd (processConversationWithToolsStream svc rt messages ip st))))
     \<le> length (requests st)
         + (case parseInt (config_get (configService svc) ''MAX_ITERATIONS'' ''5'') 0 of
              None \<Rightarrow> 0 | Some m \<Rightarrow> nat m)
 \<and> (configService svc ''MAX_ITERATIONS'' = None \<longrightarrow>
      length (requests (snd (snd (processConversationWithToolsStream svc rt messages ip st))))
        \<le> length (requests st) + 5
      \<and> length (requests (snd (processConversationWithTools svc rt messages ip st)))
        \<le> length (requests st) + 5)
 \<and> (openai svc = Some client
      \<and> stream_loop svc rt client ip (parseInt (config_get (configService svc) ''MAX_ITERATIONS'' ''5'') 0)
           0 messages st = (evs, Ceiling, st') \<longrightarrow>
      processConversationWithToolsStream svc rt messages ip st
        = (evs @ [(event EContent ''I reached the maximum number of tool calls.'')\<lparr>ev_data := Some (JObj [])\<rparr>],
           None, st')
      \<and> length (requests st')
          = length (requests st)
            + (case parseInt (config_get (configService svc) ''MAX_ITERATIONS'' ''5'') 0 of
                 None \<Rightarrow> 0 | Some m \<Rightarrow> nat m))
 \<and> (openai svc = Some client
      \<and> tools_loop svc rt client ip 0 messages [] st = (Ceiling, msgs, results, st') \<longrightarrow>
      (\<exists>m. create client (length (requests st') - 1) (last (requests st')) = Inr m
         \<and> processConversationWithTools svc rt messages ip st
            = (Inr \<lparr>fm_content = (case c_content m of
                                     None \<Rightarrow> ''I reached the maximum number of tool calls.''
                                   | Some text \<Rightarrow> text),
                    fm_tool_calls = None,
                    fm_toolResults = (if results = [] then None else Some results)\<rparr>, st')))"
proof (intro conjI impI; (elim conjE)?)
  let ?max = "parseInt (config_get (configService svc) ''MAX_ITERATIONS'' ''5'') 0"
  show bound: "length (requests (snd (snd (processConversationWithToolsStream svc rt messages ip st))))
     \<le> length (requests st) + (case ?max of None \<Rightarrow> 0 | Some m \<Rightarrow> nat m)"
  proof (cases "openai svc")
    case None
    then show ?thesis by (simp add: processConversationWithToolsStream_def)
  next
    case (Some client)
    obtain evs exit st1 where run: "stream_loop svc rt client ip ?max 0 messages st = (evs, exit, st1)"
      by (metis prod_cases3)
    have "length (requests st1) \<le> length (requests st) + (case ?max of None \<Rightarrow> 0 | Some m \<Rightarrow> nat m)"
      using stream_loop_requests [of svc rt client ip ?max 0 messages st] run
      by (auto split: option.splits)
    then show ?thesis using Some run
      by (cases exit) (simp_all add: processConversationWithToolsStream_def)
  qed
  assume "configService svc ''MAX_ITERATIONS'' = None"
  then have "?max = Some 5"
    by (simp add: config_get_def parseInt_def is_space_def digit_of_def Let_def)
  with bound show "length (requests (snd (snd (processConversationWithToolsStream svc rt messages ip st))))
        \<le> length (requests st) + 5"
    by simp
  show "length (requests (snd (processConversationWithTools svc rt messages ip st)))
        \<le> length (requests st) + 5"
  proof (cases "openai svc")
    case None
    then show ?thesis by (simp add: processConversationWithTools_def)
  next
    case (Some client)
    obtain exit msgs results st1 where run:
      "tools_loop svc rt client ip 0 messages [] st = (exit, msgs, results, st1)"
      by (metis prod_cases4)
    have "length (requests st1) \<le> length (requests st) + 5"
      using tools_loop_requests [of svc rt client ip 0 messages "[]" st] run by simp
    then show ?thesis using Some run
      by (cases exit) (simp_all add: processConversationWithTools_def)
  qed
next
  let ?max = "parseInt (config_get (configService svc) ''MAX_ITERATIONS'' ''5'') 0"
  assume client: "openai svc = Some client"
    and run: "stream_loop svc rt client ip ?max 0 messages st = (evs, Ceiling, st')"
  show "processConversationWithToolsStream svc rt messages ip st
        = (evs @ [(event EContent ''I reached the maximum number of tool calls.'')\<lparr>ev_data := Some (JObj [])\<rparr>],
           None, st')"
    using client run
    by (simp add: processConversationWithToolsStream_def final_content_event_def max_tool_calls_message_def)
  show "length (requests st') = length (requests st) + (case ?max of None \<Rightarrow> 0 | Some m \<Rightarrow> nat m)"
    using stream_loop_requests [of svc rt client ip ?max 0 messages st] run
    by (auto split: option.splits)
next
  assume client: "openai svc = Some client"
    and run: "tools_loop svc rt client ip 0 messages [] st = (Ceiling, msgs, results, st')"
  from tools_loop_ceiling [OF run]
  obtain m where m: "create client (length (requests st') - 1) (last (requests st')) = Inr m"
    "filter (\<lambda>msg. m_role msg = ''assistant'') msgs \<noteq> []"
    "m_content (last (filter (\<lambda>msg. m_role msg = ''assistant'') msgs)) = c_content m"
    by auto
  have "processConversationWithTools svc rt messages ip st
            = (Inr \<lparr>fm_content = (case c_content m of
                                     None \<Rightarrow> ''I reached the maximum number of tool calls.''
                                   | Some text \<Rightarrow> text),
                    fm_tool_calls = None,
                    fm_toolResults = (if results = [] then None else Some results)\<rparr>, st')"
    using client run m(2,3)
    by (simp add: processConversationWithTools_def after_ceiling_def max_tool_calls_message_def
          results_or_undefined_def Let_def split: option.splits)
  with m(1) show "\<exists>m. create client (length (requests st') - 1) (last (requests st')) = Inr m
         \<and> processConversationWithTools svc rt messages ip st
            = (Inr \<lparr>fm_content = (case c_content m of
                                     None \<Rightarrow> ''I reached the maximum number of tool calls.''
                                   | Some text \<Rightarrow> text),
                    fm_tool_calls = None,
                    fm_toolResults = (if results = [] then None else Some results)\<rparr>, st')"
    by blast
qed


text \<open>
  Witness: a completion service that asks for a tool in every turn and writes no text.
  With \<open>MAX_ITERATIONS = 2\<close> the streaming loop sends two requests and ends with the
  fixed message; in the default configuration both loops send at most five requests and
  the buffered loop returns the fixed message.
\<close>

theorem iteration_ceiling_witness:
  "last (fst (processConversationWithToolsStream
         (scenario_service (Some asks_silently) Map.empty [''MAX_ITERATIONS'' \<mapsto> ''2''])
         scenario_runtime [] None scenario_state))
     = (event EContent ''I reached the maximum number of tool calls.'')\<lparr>ev_data := Some (JObj [])\<rparr>
 \<and> length (requests (snd (snd (processConversationWithToolsStream
         (scenario_service (Some asks_silently) Map.empty [''MAX_ITERATIONS'' \<mapsto> ''2''])
         scenario_runtime [] None scenario_state)))) = 2
 \<and> length (requests (snd (snd (processConversationWithToolsStream
         (scenario_service (Some asks_silently) Map.empty Map.empty)
         scenario_runtime [] None scenario_state)))) \<le> 5
 \<and> length (requests (snd (processConversationWithTools
         (scenario_service (Some asks_silently) Map.empty Map.empty)
         scenario_runtime [] None scenario_state))) \<le> 5
 \<and> fst (processConversationWithTools (scenario_service (Some asks_silently) Map.empty Map.empty)
         scenario_runtime [] None scenario_state)
     = Inr \<lparr>fm_content = ''I reached the maximum number of tool calls.'', fm_tool_calls = None,
            fm_toolResults = Some [(''call_1'', JObj [(''error'', JStr ''Unknown tool: get_weather'')])]\<rparr>"
proof (intro conjI)
  let ?svc2 = "scenario_service (Some asks_silently) Map.empty [''MAX_ITERATIONS'' \<mapsto> ''2'']"
  let ?svc = "scenario_service (Some asks_silently) Map.empty Map.empty"
  let ?loop2 = "stream_loop ?svc2 scenario_runtime asks_silently None (Some 2) 0 [] scenario_state"
  have max: "parseInt (config_get (configService ?svc2) ''MAX_ITERATIONS'' ''5'') 0 = Some 2"
    by (simp add: scenario_service_def config_get_def parseInt_def is_space_def digit_of_def Let_def)
  have "fst (snd ?loop2) = Ceiling" by code_simp
  then have run: "?loop2 = (fst ?loop2, Ceiling, snd (snd ?loop2))"
    by (simp add: prod_eq_iff)
  have client2: "openai ?svc2 = Some asks_silently" by (simp add: scenario_service_def)
  have start: "requests scenario_state = []" by (simp add: scenario_state_def)
  note streamed = iteration_ceiling [where svc = ?svc2 and client = asks_silently and rt = scenario_runtime
      and messages = "[]" and ip = None and st = scenario_state
      and evs = "fst ?loop2" and st' = "snd (snd ?loop2)", unfolded max]
  from streamed client2 run
  have s: "processConversationWithToolsStream ?svc2 scenario_runtime [] None scenario_state
        = (fst ?loop2 @ [(event EContent ''I reached the maximum number of tool calls.'')\<lparr>ev_data := Some (JObj [])\<rparr>],
           None, snd (snd ?loop2))"
    and n: "length (requests (snd (snd ?loop2))) = length (requests scenario_state) + (case Some 2 of None \<Rightarrow> 0 | Some m \<Rightarrow> nat m)"
    by blast+
  show "last (fst (processConversationWithToolsStream ?svc2 scenario_runtime [] None scenario_state))
     = (event EContent ''I reached the maximum number of tool calls.'')\<lparr>ev_data := Some (JObj [])\<rparr>"
    by (simp add: s)
  show "length (requests (snd (snd (processConversationWithToolsStream ?svc2 scenario_runtime [] None
          scenario_state)))) = 2"
    by (simp add: s n start)
  show "length (requests (snd (snd (processConversationWithToolsStream ?svc scenario_runtime [] None
          scenario_state)))) \<le> 5"
    using iteration_ceiling [where svc = ?svc and rt = scenario_runtime and messages = "[]" and ip = None
        and st = scenario_state] start
    by (simp add: scenario_service_def)
  show "length (requests (snd (processConversationWithTools ?svc scenario_runtime [] None scenario_state)))
      \<le> 5"
    using iteration_ceiling [where svc = ?svc and rt = scenario_runtime and messages = "[]" and ip = None
        and st = scenario_state] start
    by (simp add: scenario_service_def)
  let ?loop = "tools_loop ?svc scenario_runtime asks_silently None 0 [] [] scenario_state"
  have "fst ?loop = Ceiling" by code_simp
  then have brun: "?loop = (Ceiling, fst (snd ?loop), fst (snd (snd ?loop)), snd (snd (snd ?loop)))"
    by (simp add: prod_eq_iff)
  have results: "fst (snd (snd ?loop)) = [(''call_1'', JObj [(''error'', JStr ''Unknown tool: get_weather'')])]"
    by code_simp
  have client: "openai ?svc = Some asks_silently" by (simp add: scenario_service_def)
  from iteration_ceiling [where svc = ?svc and client = asks_silently and rt = scenario_runtime
      and messages = "[]" and ip = None and st = scenario_state
      and msgs = "fst (snd ?loop)" and results = "fst (snd (snd ?loop))" and st' = "snd (snd (snd ?loop))"]
    client brun
  obtain m where m: "create asks_silently (length (requests (snd (snd (snd ?loop)))) - 1)
         (last (requests (snd (snd (snd ?loop))))) = Inr m"
    "processConversationWithTools ?svc scenario_runtime [] None scenario_state
       = (Inr \<lparr>fm_content = (case c_content m of
                                None \<Rightarrow> ''I reached the maximum number of tool calls.''
                              | Some text \<Rightarrow> text),
               fm_tool_calls = None,
               fm_toolResults = (if fst (snd (snd ?loop)) = [] then None else Some (fst (snd (snd ?loop))))\<rparr>,
          snd (snd (snd ?loop)))"
    by blast
  from m(1) have "c_content m = None" by (auto simp: asks_silently_def)
  then show "fst (processConversationWithTools ?svc scenario_runtime [] None scenario_state)
     = Inr \<lparr>fm_content = ''I reached the maximum number of tool calls.'', fm_tool_calls = None,
            fm_toolResults = Some [(''call_1'', JObj [(''error'', JStr ''Unknown tool: get_weather'')])]\<rparr>"
    by (simp add: m(2) results)
qed

text \<open>
  The claim as stated fails for the buffered loop: when the completion service writes a
  text next to the tool calls of every turn, the loop reaches its ceiling after five
  requests without a turn free of tool calls, and returns that text, not the fixed
  message.
\<close>

theorem buffered_ceiling_returns_last_text_counterexample:
  "fst (processConversationWithTools (scenario_service (Some always_asks) Map.empty Map.empty)
         scenario_runtime [] None scenario_state)
     = Inr \<lparr>fm_content = ''Let me check.'', fm_tool_calls = None,
            fm_toolResults = Some [(''call_1'', JObj [(''error'', JStr ''Unknown tool: get_weather'')])]\<rparr>
 \<and> length (requests (snd (processConversationWithTools
         (scenario_service (Some always_asks) Map.empty Map.empty)
         scenario_runtime [] None scenario_state))) = 5"
  by code_simp

text \<open>
  The ceiling of the buffered loop is the constant 5: it sends five requests also when
  \<open>MAX_ITERATIONS\<close> is 2, unlike the streaming loop.
\<close>

lemma buffered_ceiling_ignores_configuration:
  "length (requests (snd (processConversationWithTools
         (scenario_service (Some always_asks) Map.empty [''MAX_ITERATIONS'' \<mapsto> ''2''])
         scenario_runtime [] None scenario_state))) = 5"
  by code_simp
end
